theory Spec2Isabelle
  imports Main "HOL-Library.FSet" "HOL-Library.List_Lexorder" "HOL-Library.Char_ord"
begin

section \<open>Python string and path primitives used by \<^verbatim>\<open>hack/push-to-quay.py\<close>\<close>

text \<open>
  Strings are byte lists; \<^verbatim>\<open>sorted\<close> on strings is the lexicographic order of
  \<^verbatim>\<open>HOL-Library.List_Lexorder\<close> over the character order of
  \<^verbatim>\<open>HOL-Library.Char_ord\<close>. Python sets are finite sets (\<^typ>\<open>'a fset\<close>),
  and \<^verbatim>\<open>sorted(s)\<close> of a set is \<^const>\<open>sorted_list_of_fset\<close>.
\<close>

definition startswith :: "string \<Rightarrow> string \<Rightarrow> bool" where
  "startswith s p = (take (length p) s = p)"

definition endswith :: "string \<Rightarrow> string \<Rightarrow> bool" where
  "endswith s p = (length p \<le> length s \<and> drop (length s - length p) s = p)"

text \<open>\<^verbatim>\<open>s.split(sep)\<close> for a one-character separator: never the empty list.\<close>

fun py_split :: "char \<Rightarrow> string \<Rightarrow> string list" where
  "py_split sep [] = [[]]"
| "py_split sep (c # cs) =
     (if c = sep then [] # py_split sep cs
      else (case py_split sep cs of
              [] \<Rightarrow> [[c]]
            | w # ws \<Rightarrow> (c # w) # ws))"

text \<open>\<^verbatim>\<open>s.split(sep, 1)\<close>: cut at the first separator only.\<close>

definition py_split1 :: "char \<Rightarrow> string \<Rightarrow> string list" where
  "py_split1 sep s =
     (case dropWhile (\<lambda>c. c \<noteq> sep) s of
        [] \<Rightarrow> [s]
      | _ # rest \<Rightarrow> [takeWhile (\<lambda>c. c \<noteq> sep) s, rest])"

text \<open>\<^verbatim>\<open>sep.join(xs)\<close>.\<close>

fun join :: "string \<Rightarrow> string list \<Rightarrow> string" where
  "join sep [] = []"
| "join sep [x] = x"
| "join sep (x # y # ys) = x @ sep @ join sep (y # ys)"

text \<open>\<^verbatim>\<open>os.path.basename\<close> and \<^verbatim>\<open>os.path.join\<close> (POSIX, two arguments).\<close>

definition basename :: "string \<Rightarrow> string" where
  "basename p = rev (takeWhile (\<lambda>c. c \<noteq> CHR ''/'') (rev p))"

definition path_join :: "string \<Rightarrow> string \<Rightarrow> string" where
  "path_join a b =
     (if startswith b ''/'' then b
      else if a = [] \<or> endswith a ''/'' then a @ b
      else a @ ''/'' @ b)"

section \<open>Errors\<close>

text \<open>
  Every exception the script can raise, one constructor per raise site. The script raises
  \<^verbatim>\<open>ValueError\<close> for all of its own checks and tells them apart by message only;
  the design's names for them are LoadError (\<open>LoadFailed\<close>), ValidationError
  (\<open>DuplicateEdges\<close>, \<open>ChannelsDiffer\<close>, \<open>NonQuayPullspec\<close>) and
  RemoteNotFoundError (\<open>NoReleaseMetadata\<close>). \<open>KeyError\<close> is Python's own, raised by
  indexing a dictionary at a missing key and by \<^verbatim>\<open>TarFile.extractfile\<close> at a
  missing member. \<open>UnpackError\<close> is the \<^verbatim>\<open>ValueError\<close> of a two-name tuple
  assignment from a list that is not of length two. \<open>JSONDecodeError\<close> is an uncaught
  \<^verbatim>\<open>json.load\<close> failure, \<open>RemoteError\<close> whatever \<^verbatim>\<open>urlopen\<close> raised.
\<close>

datatype error =
    LoadFailed string string
  | DuplicateEdges
  | ChannelsDiffer "string list" "string list"
  | NonQuayPullspec string
  | NoReleaseMetadata string
  | UnpackError
  | KeyError string
  | JSONDecodeError string
  | RemoteError string

text \<open>A loop whose body may raise: the first error ends it.\<close>

fun foldM :: "('s \<Rightarrow> 'a \<Rightarrow> error + 's) \<Rightarrow> 's \<Rightarrow> 'a list \<Rightarrow> error + 's" where
  "foldM f s [] = Inr s"
| "foldM f s (x # xs) = (case f s x of Inl e \<Rightarrow> Inl e | Inr s' \<Rightarrow> foldM f s' xs)"

section \<open>Data model\<close>

text \<open>The outcome of \<^verbatim>\<open>json.load\<close> on a file: a parse error with its message, or the
  document, read at the schema the design gives for it.\<close>

datatype 'a parsed = Malformed string | Json 'a

text \<open>A node file holds \<^verbatim>\<open>version\<close>, \<^verbatim>\<open>payload\<close> and an optional
  \<^verbatim>\<open>metadata\<close> object; the loader adds \<^verbatim>\<open>channels\<close> and, for a node with an
  incoming edge, \<^verbatim>\<open>previous\<close>.\<close>

record node_json =
  version :: string
  payload :: string
  metadata :: "(string \<rightharpoonup> string) option"

record node = node_json +
  channels :: "string fset"
  previous :: "string fset option"

record edge =
  efrom :: string
  eto :: string
  echannels :: "string list"

text \<open>\<^verbatim>\<open>os.walk\<close> yields each directory with the files in it; a file is its name and
  what \<^verbatim>\<open>json.load\<close> makes of it.\<close>

type_synonym 'a walk = "(string \<times> (string \<times> 'a parsed) list) list"

type_synonym nodes = "string \<rightharpoonup> node"

type_synonym edges = "(string \<times> string) \<rightharpoonup> edge"

definition channels_key :: string where
  "channels_key = ''io.openshift.upgrades.graph.release.channels''"

definition previous_add_key :: string where
  "previous_add_key = ''io.openshift.upgrades.graph.previous.add''"

definition previous_remove_key :: string where
  "previous_remove_key = ''io.openshift.upgrades.graph.previous.remove''"

definition next_add_key :: string where
  "next_add_key = ''io.openshift.upgrades.graph.next.add''"

definition next_remove_key :: string where
  "next_remove_key = ''io.openshift.upgrades.graph.next.remove''"

section \<open>\<^verbatim>\<open>load_edges\<close>\<close>

text \<open>The body of the inner loop, on the state \<open>(edges, nodes)\<close>. The edge is recorded
  in \<open>edges\<close> before its endpoints are looked up, as in the source.\<close>

definition load_edge_file ::
  "string \<Rightarrow> edges \<times> nodes \<Rightarrow> string \<times> edge parsed \<Rightarrow> error + edges \<times> nodes" where
  "load_edge_file root st file =
     (case st of (edges, nodes) \<Rightarrow>
     (case file of (filename, content) \<Rightarrow>
        if \<not> endswith filename ''.json'' then Inr st
        else
         (case content of
            Malformed e \<Rightarrow> Inl (LoadFailed (path_join root filename) e)
          | Json edge \<Rightarrow>
              let edge_key = (efrom edge, eto edge) in
              if edges edge_key \<noteq> None then Inl DuplicateEdges
              else
                let edges' = edges(edge_key \<mapsto> edge) in
                (case nodes (efrom edge) of
                   None \<Rightarrow> Inl (KeyError (efrom edge))
                 | Some from_node \<Rightarrow>
                    (case nodes (eto edge) of
                       None \<Rightarrow> Inl (KeyError (eto edge))
                     | Some to_node \<Rightarrow>
                         let node_channels = channels from_node |\<inter>| channels to_node in
                         if fset_of_list (echannels edge) \<noteq> node_channels
                         then Inl (ChannelsDiffer (sort (echannels edge))
                                     (sorted_list_of_fset node_channels))
                         else Inr (edges',
                           nodes(eto edge \<mapsto> to_node\<lparr>previous :=
                             (case previous to_node of
                                Some p \<Rightarrow> Some (finsert (efrom edge) p)
                              | None \<Rightarrow> Some {|efrom edge|})\<rparr>)))))))"

definition load_edges_loop :: "edges \<times> nodes \<Rightarrow> edge walk \<Rightarrow> error + edges \<times> nodes" where
  "load_edges_loop = foldM (\<lambda>st dir. foldM (load_edge_file (fst dir)) st (snd dir))"

definition load_edges :: "edge walk \<Rightarrow> nodes \<Rightarrow> error + nodes" where
  "load_edges directory nodes =
     (case load_edges_loop (Map.empty, nodes) directory of
        Inl e \<Rightarrow> Inl e
      | Inr st \<Rightarrow> Inr (snd st))"

section \<open>\<^verbatim>\<open>load_nodes\<close>\<close>

definition load_node_file ::
  "string \<Rightarrow> nodes \<Rightarrow> string \<times> node_json parsed \<Rightarrow> error + nodes" where
  "load_node_file root nodes file =
     (let channel = basename root in
      (case file of (filename, content) \<Rightarrow>
         if \<not> endswith filename ''.json'' then Inr nodes
         else
          (case content of
             Malformed e \<Rightarrow> Inl (LoadFailed (path_join root filename) e)
           | Json node \<Rightarrow>
               (case nodes (version node) of
                  Some previous_node \<Rightarrow>
                    Inr (nodes(version node \<mapsto>
                      previous_node\<lparr>channels := finsert channel (channels previous_node)\<rparr>))
                | None \<Rightarrow>
                    Inr (nodes(version node \<mapsto>
                      \<lparr>version = version node, payload = payload node,
                       metadata = metadata node,
                       channels = {|channel|}, previous = None\<rparr>))))))"

text \<open>The second loop of \<^verbatim>\<open>load_nodes\<close>, on one node.\<close>

definition set_channels_metadata :: "node \<Rightarrow> node" where
  "set_channels_metadata node =
     node\<lparr>metadata := Some
       ((case metadata node of None \<Rightarrow> Map.empty | Some m \<Rightarrow> m)
          (channels_key \<mapsto> join '','' (sorted_list_of_fset (channels node))))\<rparr>"

definition load_nodes :: "node_json walk \<Rightarrow> error + nodes" where
  "load_nodes directory =
     (case foldM (\<lambda>nodes dir. foldM (load_node_file (fst dir)) nodes (snd dir))
             Map.empty directory of
        Inl e \<Rightarrow> Inl e
      | Inr nodes \<Rightarrow> Inr (map_option set_channels_metadata \<circ> nodes))"

section \<open>The registry and the effects of a run\<close>

record label =
  media_type :: string
  key :: string
  lvalue :: string

datatype http_method = GET | POST | DELETE

text \<open>A \<^verbatim>\<open>urllib\<close> request: its method, URI, headers and, for a POST, the label
  whose JSON is the body.\<close>

record request =
  req_method :: http_method
  uri :: string
  headers :: "(string \<times> string) list"
  data :: "label option"

text \<open>What a run does to the world, in order: the lines it prints and the requests it
  opens. The two lines that format a value with \<^verbatim>\<open>repr\<close> or print a list keep
  their arguments instead of the text: \<open>PrintChanging version which current want\<close> for
  \<^verbatim>\<open>changing {} previous.{} from {} to {}\<close>, \<open>PrintReplacing version value\<close> for
  \<^verbatim>\<open>replacing {} previous remove {!r} with *\<close>.\<close>

datatype event =
    Print string
  | PrintChanging string string "string list" "string list"
  | PrintReplacing string string
  | Urlopen request

record layer =
  blob_digest :: string

text \<open>A layer's archive, member name to the regular file there, as \<^verbatim>\<open>json.load\<close>
  reads it; the release metadata is read for its optional \<^verbatim>\<open>previous\<close> list.\<close>

record release_meta =
  meta_previous :: "string list option"

type_synonym archive = "string \<rightharpoonup> release_meta parsed"

text \<open>The registry as the script sees it: what each GET answers, decoded (the
  \<^verbatim>\<open>labels\<close> array of a label listing, the \<^verbatim>\<open>layers\<close> array of a manifest,
  the gzipped tarball of a blob), and whether a POST or DELETE is refused.\<close>

record remote =
  labels_doc :: "string \<Rightarrow> error + label list"
  manifest_doc :: "string \<Rightarrow> error + layer list"
  blob_doc :: "string \<Rightarrow> error + archive"
  refuse :: "request \<Rightarrow> error option"

text \<open>A computation with effects: the events so far, and the value returned or the
  exception that ended it.\<close>

type_synonym 'a io = "event list \<times> (error + 'a)"

definition io_return :: "'a \<Rightarrow> 'a io" where
  "io_return x = ([], Inr x)"

definition io_raise :: "error \<Rightarrow> 'a io" where
  "io_raise e = ([], Inl e)"

definition io_print :: "event \<Rightarrow> unit io" where
  "io_print ev = ([ev], Inr ())"

definition io_bind :: "'a io \<Rightarrow> ('a \<Rightarrow> 'b io) \<Rightarrow> 'b io" where
  "io_bind m f =
     (case m of
        (evs, Inl e) \<Rightarrow> (evs, Inl e)
      | (evs, Inr x) \<Rightarrow> (case f x of (evs', r) \<Rightarrow> (evs @ evs', r)))"

definition io_seq :: "unit io \<Rightarrow> 'b io \<Rightarrow> 'b io" where
  "io_seq m n = io_bind m (\<lambda>_. n)"

definition io_when :: "bool \<Rightarrow> unit io \<Rightarrow> unit io" where
  "io_when b m = (if b then m else io_return ())"

text \<open>\<^verbatim>\<open>urlopen(uri)\<close> of a GET, answered by one of the registry's documents.\<close>

definition urlopen_get :: "(string \<Rightarrow> error + 'a) \<Rightarrow> string \<Rightarrow> 'a io" where
  "urlopen_get doc u =
     ([Urlopen \<lparr>req_method = GET, uri = u, headers = [], data = None\<rparr>], doc u)"

text \<open>\<^verbatim>\<open>urlopen(request)\<close> of a POST or DELETE; the response is not read.\<close>

definition urlopen_request :: "remote \<Rightarrow> request \<Rightarrow> unit io" where
  "urlopen_request remote r =
     ([Urlopen r], case refuse remote r of Some e \<Rightarrow> Inl e | None \<Rightarrow> Inr ())"

section \<open>\<^verbatim>\<open>manifest_uri\<close>, \<^verbatim>\<open>get_labels\<close>, \<^verbatim>\<open>delete_label\<close>, \<^verbatim>\<open>post_label\<close>\<close>

definition manifest_uri :: "node \<Rightarrow> error + string" where
  "manifest_uri node =
     (let pullspec = payload node in
      case py_split1 CHR ''@'' pullspec of
        [name, digest] \<Rightarrow>
          let prefix = ''quay.io/'' in
          if \<not> startswith name prefix then Inl (NonQuayPullspec pullspec)
          else Inr (''https://quay.io/api/v1/repository/'' @ drop (length prefix) name
                      @ ''/manifest/'' @ digest)
      | _ \<Rightarrow> Inl UnpackError)"

text \<open>\<^verbatim>\<open>'{}/labels'.format(manifest_uri(node))\<close>, the label collection of a manifest,
  \<^verbatim>\<open>'{}/labels/{}'.format(manifest_uri(node), label)\<close>, one label of it, and the line
  \<^verbatim>\<open>'{} {} {}'.format(node['version'], verb, uri)\<close> the two writers print.\<close>

definition labels_uri :: "string \<Rightarrow> string" where
  "labels_uri m = m @ ''/labels''"

definition label_uri :: "string \<Rightarrow> string \<Rightarrow> string" where
  "label_uri m label = m @ ''/labels/'' @ label"

definition writer_line :: "string \<Rightarrow> string \<Rightarrow> string \<Rightarrow> string" where
  "writer_line v verb u = v @ '' '' @ verb @ '' '' @ u"

text \<open>The dictionary comprehension of \<^verbatim>\<open>get_labels\<close>: the labels are stored in the
  order of the listing, so a later label of the same key replaces an earlier one.\<close>

definition store_label :: "label \<Rightarrow> (string \<rightharpoonup> label) \<Rightarrow> (string \<rightharpoonup> label)" where
  "store_label l m = m(key l \<mapsto> l)"

definition labels_dict :: "label list \<Rightarrow> (string \<rightharpoonup> label)" where
  "labels_dict ls = fold store_label ls Map.empty"

definition get_labels :: "remote \<Rightarrow> node \<Rightarrow> (string \<rightharpoonup> label) io" where
  "get_labels remote node =
     (case manifest_uri node of
        Inl e \<Rightarrow> io_raise e
      | Inr m \<Rightarrow>
          io_bind (urlopen_get (labels_doc remote) (labels_uri m))
            (\<lambda>ls. io_return (labels_dict ls)))"

text \<open>The request \<^verbatim>\<open>delete_label\<close> builds (lines 180 to 182) and the one
  \<^verbatim>\<open>post_label\<close> builds (lines 191 to 193).\<close>

definition delete_request :: "string \<Rightarrow> string \<Rightarrow> request" where
  "delete_request u token =
     \<lparr>req_method = DELETE, uri = u,
      headers = [(''Authorization'', ''Bearer '' @ token)],
      data = None\<rparr>"

definition post_request :: "string \<Rightarrow> label \<Rightarrow> string \<Rightarrow> request" where
  "post_request u label token =
     \<lparr>req_method = POST, uri = u,
      headers = [(''Authorization'', ''Bearer '' @ token), (''Content-Type'', ''application/json'')],
      data = Some label\<rparr>"

definition delete_label :: "remote \<Rightarrow> node \<Rightarrow> string \<Rightarrow> string option \<Rightarrow> unit io" where
  "delete_label remote node label token =
     (case manifest_uri node of
        Inl e \<Rightarrow> io_raise e
      | Inr m \<Rightarrow>
          let u = label_uri m label in
          io_seq (io_print (Print (writer_line (version node) ''delete'' u)))
            (case token of
               None \<Rightarrow> io_return ()
             | Some t \<Rightarrow>
                 if t = [] then io_return ()
                 else urlopen_request remote (delete_request u t)))"

definition post_label :: "remote \<Rightarrow> node \<Rightarrow> label \<Rightarrow> string option \<Rightarrow> unit io" where
  "post_label remote node label token =
     (case manifest_uri node of
        Inl e \<Rightarrow> io_raise e
      | Inr m \<Rightarrow>
          let u = labels_uri m in
          io_seq (io_print (Print (writer_line (version node) ''post'' u)))
            (case token of
               None \<Rightarrow> io_return ()
             | Some t \<Rightarrow>
                 if t = [] then io_return ()
                 else urlopen_request remote (post_request u label t)))"

section \<open>\<^verbatim>\<open>get_release_metadata\<close>\<close>

text \<open>
  The loop over \<^verbatim>\<open>reversed(data['layers'])\<close>. Every path through the body ends in
  \<^verbatim>\<open>return\<close> or in an exception: \<^verbatim>\<open>tar.extractfile(name)\<close> raises
  \<^verbatim>\<open>KeyError\<close> when the archive has no member of that name (it is
  \<^verbatim>\<open>TarFile.getmember\<close> that looks the name up), and nothing in the body catches it.
  So the layers after the first one visited are never read, and the equation for a
  non-empty list makes no recursive call.
\<close>

definition release_metadata_path :: string where
  "release_metadata_path = ''release-manifests/release-metadata''"

fun release_metadata_loop :: "remote \<Rightarrow> node \<Rightarrow> layer list \<Rightarrow> release_meta io" where
  "release_metadata_loop remote node [] = io_raise (NoReleaseMetadata (version node))"
| "release_metadata_loop remote node (layer # later) =
     (let digest = blob_digest layer;
          pullspec = payload node;
          name = hd (py_split1 CHR ''@'' pullspec);
          prefix = ''quay.io/''
      in if \<not> startswith name prefix then io_raise (NonQuayPullspec pullspec)
         else
           io_bind (urlopen_get (blob_doc remote)
                      (''https://quay.io/v2/'' @ drop (length prefix) name @ ''/blobs/'' @ digest))
             (\<lambda>tar. case tar release_metadata_path of
                       None \<Rightarrow> io_raise (KeyError release_metadata_path)
                     | Some (Malformed e) \<Rightarrow> io_raise (JSONDecodeError e)
                     | Some (Json meta) \<Rightarrow> io_return meta))"

definition get_release_metadata :: "remote \<Rightarrow> node \<Rightarrow> release_meta io" where
  "get_release_metadata remote node =
     (case manifest_uri node of
        Inl e \<Rightarrow> io_raise e
      | Inr m \<Rightarrow>
          io_bind (urlopen_get (manifest_doc remote) m)
            (\<lambda>layers. release_metadata_loop remote node (rev layers)))"

section \<open>\<^verbatim>\<open>sync_node\<close>\<close>

text \<open>\<^verbatim>\<open>labels.get(k, {}).get('value', '')\<close>.\<close>

definition label_value :: "(string \<rightharpoonup> label) \<Rightarrow> string \<Rightarrow> string" where
  "label_value labels k = (case labels k of None \<Rightarrow> [] | Some l \<Rightarrow> lvalue l)"

text \<open>\<^verbatim>\<open>node['metadata']['io.openshift.upgrades.graph.release.channels']\<close>.\<close>

definition desired_channels :: "node \<Rightarrow> error + string" where
  "desired_channels node =
     (case metadata node of
        None \<Rightarrow> Inl (KeyError ''metadata'')
      | Some m \<Rightarrow>
          (case m channels_key of
             None \<Rightarrow> Inl (KeyError channels_key)
           | Some v \<Rightarrow> Inr v))"

text \<open>\<^verbatim>\<open>set(version for version in labels.get(k, {}).get('value', '').split(',') if version)\<close>.\<close>

definition labelled_versions :: "(string \<rightharpoonup> label) \<Rightarrow> string \<Rightarrow> string fset" where
  "labelled_versions labels k =
     fset_of_list (filter (\<lambda>version. version \<noteq> []) (py_split CHR '','' (label_value labels k)))"

definition text_label :: "string \<Rightarrow> string \<Rightarrow> label" where
  "text_label k v = \<lparr>media_type = ''text/plain'', key = k, lvalue = v\<rparr>"

text \<open>
  Lines 81 to 97, the channels label. The desired string is read from the node on every
  path before anything is printed or sent (in the first condition when the remote value is
  non-empty, as the argument of \<^verbatim>\<open>post_label\<close> otherwise), so a node without it
  raises \<^verbatim>\<open>KeyError\<close> first. The variable \<^verbatim>\<open>channels\<close> is \<^verbatim>\<open>None\<close>
  after the delete.
\<close>

definition sync_channels ::
  "remote \<Rightarrow> node \<Rightarrow> (string \<rightharpoonup> label) \<Rightarrow> string option \<Rightarrow> unit io" where
  "sync_channels remote node labels token =
     (case desired_channels node of
        Inl e \<Rightarrow> io_raise e
      | Inr desired \<Rightarrow>
          let channels = label_value labels channels_key in
          io_bind
            (if channels \<noteq> [] \<and> channels \<noteq> desired then
               io_seq (io_print (Print (''label mismatch for '' @ version node @ '': ''
                                          @ channels @ '' != '' @ desired)))
                 (io_seq (delete_label remote node channels_key token) (io_return None))
             else io_return (Some channels))
            (\<lambda>channels.
               io_when (channels = None \<or> channels = Some [])
                 (post_label remote node (text_label channels_key desired) token)))"

text \<open>Lines 99 to 102, the two retired labels.\<close>

definition sync_next ::
  "remote \<Rightarrow> node \<Rightarrow> (string \<rightharpoonup> label) \<Rightarrow> string option \<Rightarrow> unit io" where
  "sync_next remote node labels token =
     io_seq
       (io_when (labels next_add_key \<noteq> None) (delete_label remote node next_add_key token))
       (io_when (labels next_remove_key \<noteq> None) (delete_label remote node next_remove_key token))"

text \<open>Lines 108 to 121 and again 123 to 136: one of the two predecessor labels of a node
  with declared predecessors; \<open>which\<close> is the word the printed line names the label by.\<close>

definition sync_previous_label ::
  "remote \<Rightarrow> node \<Rightarrow> (string \<rightharpoonup> label) \<Rightarrow> string option \<Rightarrow> string \<Rightarrow> string
     \<Rightarrow> string fset \<Rightarrow> unit io" where
  "sync_previous_label remote node labels token which k want =
     (let current = labelled_versions labels k in
      io_when (current \<noteq> want)
        (io_seq (io_print (PrintChanging (version node) which
                   (sorted_list_of_fset current) (sorted_list_of_fset want)))
           (io_seq (io_when (labels k \<noteq> None) (delete_label remote node k token))
              (io_when (want \<noteq> {||})
                 (post_label remote node
                    (text_label k (join '','' (sorted_list_of_fset want))) token)))))"

text \<open>\<^verbatim>\<open>meta.get('previous', set())\<close>, as the list the metadata holds.\<close>

definition published_previous :: "release_meta \<Rightarrow> string list" where
  "published_previous meta = (case meta_previous meta of None \<Rightarrow> [] | Some vs \<Rightarrow> vs)"

text \<open>\<^verbatim>\<open>node.get('previous', set())\<close>.\<close>

definition declared_previous :: "node \<Rightarrow> string fset" where
  "declared_previous node = (case previous node of None \<Rightarrow> {||} | Some p \<Rightarrow> p)"

text \<open>Lines 104 to 155, the predecessor labels.\<close>

definition sync_previous ::
  "remote \<Rightarrow> node \<Rightarrow> (string \<rightharpoonup> label) \<Rightarrow> string option \<Rightarrow> unit io" where
  "sync_previous remote node labels token =
     (let declared = declared_previous node in
      if declared \<noteq> {||} then
        io_bind (get_release_metadata remote node)
          (\<lambda>meta.
             let previous = fset_of_list (published_previous meta);
                 want_removed = previous |-| declared;
                 want_added = declared |-| previous
             in io_seq
                  (sync_previous_label remote node labels token ''previous.remove''
                     previous_remove_key want_removed)
                  (sync_previous_label remote node labels token ''previous.add''
                     previous_add_key want_added))
      else
        io_seq
          (io_when (labels previous_add_key \<noteq> None)
             (io_seq (io_print (Print (version node
                        @ '' had previous additions, but we want no incoming edges'')))
                (delete_label remote node previous_add_key token)))
          (let previous_remove = label_value labels previous_remove_key in
           io_when (previous_remove \<noteq> ''*'')
             (io_bind (get_release_metadata remote node)
                (\<lambda>meta.
                   io_when (published_previous meta \<noteq> [])
                     (io_seq (io_print (PrintReplacing (version node) previous_remove))
                        (io_seq
                           (io_when (labels previous_remove_key \<noteq> None)
                              (delete_label remote node previous_remove_key token))
                           (post_label remote node
                              (text_label previous_remove_key ''*'') token)))))))"

definition sync_node :: "remote \<Rightarrow> node \<Rightarrow> string option \<Rightarrow> unit io" where
  "sync_node remote node token =
     io_bind (get_labels remote node)
       (\<lambda>labels.
          io_seq (sync_channels remote node labels token)
            (io_seq (sync_next remote node labels token)
               (sync_previous remote node labels token)))"

section \<open>The requests that change the registry\<close>

text \<open>The requests of a trace that are not reads: its POSTs and DELETEs, in order.\<close>

fun mutations :: "event list \<Rightarrow> request list" where
  "mutations [] = []"
| "mutations (ev # evs) =
     (case ev of
        Urlopen r \<Rightarrow> if req_method r = GET then mutations evs else r # mutations evs
      | _ \<Rightarrow> mutations evs)"

section \<open>Notions the statements are written in\<close>

text \<open>The documents a walk hands to the loop body: the parsed files whose name ends in
  \<^verbatim>\<open>.json\<close>, in the order the loops read them.\<close>

fun json_files :: "(string \<times> 'a parsed) list \<Rightarrow> 'a list" where
  "json_files [] = []"
| "json_files ((filename, Json x) # files) =
     (if endswith filename ''.json'' then x # json_files files else json_files files)"
| "json_files ((filename, Malformed e) # files) = json_files files"

definition walk_files :: "'a walk \<Rightarrow> 'a list" where
  "walk_files directory = concat (map (\<lambda>dir. json_files (snd dir)) directory)"

text \<open>The dictionary key \<^verbatim>\<open>(edge['from'], edge['to'])\<close> of an edge.\<close>

definition edge_key :: "edge \<Rightarrow> string \<times> string" where
  "edge_key e = (efrom e, eto e)"

text \<open>The edge invariant: both endpoints are nodes, and the edge's channels are, as a
  set, the channels the two nodes share.\<close>

definition edge_channels_ok :: "nodes \<Rightarrow> edge \<Rightarrow> bool" where
  "edge_channels_ok nodes e =
     (case nodes (efrom e) of
        None \<Rightarrow> False
      | Some from_node \<Rightarrow>
          (case nodes (eto e) of
             None \<Rightarrow> False
           | Some to_node \<Rightarrow>
               fset_of_list (echannels e) = channels from_node |\<inter>| channels to_node))"

text \<open>The errors the design calls ValidationError.\<close>

definition is_ValidationError :: "error \<Rightarrow> bool" where
  "is_ValidationError e =
     (case e of
        DuplicateEdges \<Rightarrow> True
      | ChannelsDiffer a b \<Rightarrow> True
      | NonQuayPullspec p \<Rightarrow> True
      | _ \<Rightarrow> False)"

text \<open>The channel set of each loaded version: what \<^verbatim>\<open>load_edges\<close> reads of the
  nodes and never changes.\<close>

definition node_channels :: "nodes \<Rightarrow> string \<Rightarrow> string fset option" where
  "node_channels nodes v = map_option channels (nodes v)"

text \<open>The channels a version is filed under: the names of the directories of the walk that
  hold a node file of that version.\<close>

definition version_channels :: "node_json walk \<Rightarrow> string \<Rightarrow> string fset" where
  "version_channels directory v =
     fset_of_list (map (\<lambda>dir. basename (fst dir))
       (filter (\<lambda>dir. v \<in> version ` set (json_files (snd dir))) directory))"

text \<open>The channel set of a version in a node dictionary, empty for a version it lacks.\<close>

definition channels_at :: "nodes \<Rightarrow> string \<Rightarrow> string fset" where
  "channels_at nodes v = (case nodes v of None \<Rightarrow> {||} | Some n \<Rightarrow> channels n)"

text \<open>A dry run: \<^verbatim>\<open>if not token\<close> holds when no token was given and when the token
  is the empty string.\<close>

definition no_token :: "string option \<Rightarrow> bool" where
  "no_token token = (case token of None \<Rightarrow> True | Some t \<Rightarrow> t = [])"

section \<open>Notions the reconciler statements are written in\<close>

text \<open>The text of a list of versions: the entries with a comma between neighbours.\<close>

definition comma_separated :: "string list \<Rightarrow> string" where
  "comma_separated vs = tl (concat (map (\<lambda>v. CHR '','' # v) vs))"

text \<open>
  The two requests of the label writer as the design describes them, for the manifest at
  \<open>m\<close> and the token \<open>t\<close>: a DELETE to the label's own URI, and a POST of the
  label (media type, key and value) to the label collection of the manifest, both
  bearer-authenticated.
\<close>

definition label_delete :: "string \<Rightarrow> string \<Rightarrow> string \<Rightarrow> request" where
  "label_delete m t k =
     \<lparr>req_method = DELETE, uri = m @ ''/labels/'' @ k,
      headers = [(''Authorization'', ''Bearer '' @ t)],
      data = None\<rparr>"

definition label_create :: "string \<Rightarrow> string \<Rightarrow> string \<Rightarrow> string \<Rightarrow> request" where
  "label_create m t k v =
     \<lparr>req_method = POST, uri = m @ ''/labels'',
      headers = [(''Authorization'', ''Bearer '' @ t), (''Content-Type'', ''application/json'')],
      data = Some \<lparr>media_type = ''text/plain'', key = k, lvalue = v\<rparr>\<rparr>"

text \<open>
  What the design asks of one predecessor label \<open>k\<close>, given whether the label is
  present, the set of versions it holds and the wanted set: nothing when the two sets are
  equal; otherwise a delete of the label when it is present, then, when the wanted set is
  non-empty, a create whose value is the sorted, comma-separated wanted set.
\<close>

definition label_update ::
  "string \<Rightarrow> string \<Rightarrow> string \<Rightarrow> bool \<Rightarrow> string fset \<Rightarrow> string fset \<Rightarrow> request list" where
  "label_update m t k present current want =
     (if current = want then []
      else (if present then [label_delete m t k] else [])
         @ (if want \<noteq> {||}
            then [label_create m t k (comma_separated (sorted_list_of_fset want))]
            else []))"

text \<open>
  The labels of the manifest at \<open>m\<close>, by key, under the requests that change them, as far
  as the design says what they do: a delete of a label's own URI removes the label, and a
  create adds the label under its key when no label has that key. What the registry holds
  after a create for a key that still has a label is said nowhere, and the result is
  \<open>None\<close> there. Reads and requests to other URIs leave the labels as they are.
\<close>

definition store_request ::
  "string \<Rightarrow> request \<Rightarrow> (string \<rightharpoonup> label) \<Rightarrow> (string \<rightharpoonup> label) option" where
  "store_request m r M =
     (case req_method r of
        GET \<Rightarrow> Some M
      | DELETE \<Rightarrow>
          (let p = m @ ''/labels/'' in
           if take (length p) (uri r) = p then Some (M(drop (length p) (uri r) := None))
           else Some M)
      | POST \<Rightarrow>
          (case data r of
             Some l \<Rightarrow>
               if uri r = m @ ''/labels''
               then (if M (key l) = None then Some (M(key l \<mapsto> l)) else None)
               else Some M
           | None \<Rightarrow> Some M))"

fun store_requests ::
  "string \<Rightarrow> request list \<Rightarrow> (string \<rightharpoonup> label) \<Rightarrow> (string \<rightharpoonup> label) option" where
  "store_requests m [] M = Some M"
| "store_requests m (r # rs) M =
     (case store_request m r M of None \<Rightarrow> None | Some M' \<Rightarrow> store_requests m rs M')"

text \<open>A version that survives the label encoding: it is not empty and holds no comma.\<close>

definition valid_version :: "string \<Rightarrow> bool" where
  "valid_version v = (v \<noteq> [] \<and> CHR '','' \<notin> set v)"

text \<open>
  For a node with a non-empty declared \<^verbatim>\<open>previous\<close> set whose release metadata can be
  read: every version wanted in \<^verbatim>\<open>previous.remove\<close> or \<^verbatim>\<open>previous.add\<close> (the
  two set differences of the published and the declared predecessors) is non-empty and
  holds no comma. Nothing is asked of a node without declared predecessors, for which the
  only value written is \<^verbatim>\<open>*\<close>.
\<close>

definition written_versions_valid :: "remote \<Rightarrow> node \<Rightarrow> bool" where
  "written_versions_valid remote node =
     (case previous node of
        None \<Rightarrow> True
      | Some declared \<Rightarrow>
          declared = {||} \<or>
          (case snd (get_release_metadata remote node) of
             Inl e \<Rightarrow> True
           | Inr meta \<Rightarrow>
               (let published = fset_of_list (case meta_previous meta of None \<Rightarrow> [] | Some vs \<Rightarrow> vs)
                in fBall ((published |-| declared) |\<union>| (declared |-| published))
                     (\<lambda>v. v \<noteq> [] \<and> CHR '','' \<notin> set v))))"

text \<open>The registry accepts every POST and DELETE it is sent.\<close>

definition never_refuses :: "remote \<Rightarrow> bool" where
  "never_refuses remote = (\<forall>r. refuse remote r = None)"

text \<open>
  The same requests written with the script's own reading of the labels (the set it parses
  from the value of \<open>k\<close>) and its own request builders; the form the proofs work with.
\<close>

definition relabel_requests ::
  "string \<Rightarrow> string \<Rightarrow> (string \<rightharpoonup> label) \<Rightarrow> string \<Rightarrow> string fset \<Rightarrow> request list" where
  "relabel_requests m t labels k want =
     (if labelled_versions labels k = want then []
      else (if labels k \<noteq> None then [delete_request (label_uri m k) t] else [])
         @ (if want \<noteq> {||}
            then [post_request (labels_uri m)
                    (text_label k (join '','' (sorted_list_of_fset want))) t]
            else []))"

text \<open>The requests of the channels step, of the two retired labels and of the predecessor
  labels, as functions of the labels read at the start of the run.\<close>

definition channels_requests :: "string \<Rightarrow> string \<Rightarrow> (string \<rightharpoonup> label) \<Rightarrow> string \<Rightarrow> request list" where
  "channels_requests m t labels d =
     (if label_value labels channels_key = [] then
        [post_request (labels_uri m) (text_label channels_key d) t]
      else if label_value labels channels_key \<noteq> d then
        [delete_request (label_uri m channels_key) t,
         post_request (labels_uri m) (text_label channels_key d) t]
      else [])"

definition next_requests :: "string \<Rightarrow> string \<Rightarrow> (string \<rightharpoonup> label) \<Rightarrow> request list" where
  "next_requests m t labels =
     (if labels next_add_key \<noteq> None then [delete_request (label_uri m next_add_key) t] else [])
     @ (if labels next_remove_key \<noteq> None then [delete_request (label_uri m next_remove_key) t]
        else [])"

definition previous_requests ::
  "string \<Rightarrow> string \<Rightarrow> (string \<rightharpoonup> label) \<Rightarrow> string fset \<Rightarrow> string list \<Rightarrow> request list" where
  "previous_requests m t labels declared published =
     (if declared \<noteq> {||} then
        relabel_requests m t labels previous_remove_key (fset_of_list published |-| declared)
        @ relabel_requests m t labels previous_add_key (declared |-| fset_of_list published)
      else
        (if labels previous_add_key \<noteq> None
         then [delete_request (label_uri m previous_add_key) t] else [])
        @ (if label_value labels previous_remove_key \<noteq> ''*'' \<and> published \<noteq> []
           then (if labels previous_remove_key \<noteq> None
                 then [delete_request (label_uri m previous_remove_key) t] else [])
                @ [post_request (labels_uri m) (text_label previous_remove_key ''*'') t]
           else []))"

text \<open>The same as a total function, in which a create replaces the label of its key, over
  the requests of a trace; the form the proofs work with (\<open>store_requests_dict\<close>).\<close>

definition dict_request :: "string \<Rightarrow> request \<Rightarrow> (string \<rightharpoonup> label) \<Rightarrow> (string \<rightharpoonup> label)" where
  "dict_request m r M =
     (case req_method r of
        GET \<Rightarrow> M
      | DELETE \<Rightarrow>
          (let p = m @ ''/labels/'' in
           if take (length p) (uri r) = p then M(drop (length p) (uri r) := None) else M)
      | POST \<Rightarrow>
          (case data r of
             Some l \<Rightarrow> if uri r = m @ ''/labels'' then M(key l \<mapsto> l) else M
           | None \<Rightarrow> M))"

fun dict_events :: "string \<Rightarrow> event list \<Rightarrow> (string \<rightharpoonup> label) \<Rightarrow> (string \<rightharpoonup> label)" where
  "dict_events m [] M = M"
| "dict_events m (ev # evs) M =
     dict_events m evs (case ev of Urlopen r \<Rightarrow> dict_request m r M | _ \<Rightarrow> M)"

text \<open>The label that stands for the set \<open>want\<close> after it was rewritten: none for the
  empty set.\<close>

definition written_label :: "string \<Rightarrow> string fset \<Rightarrow> label option" where
  "written_label k want =
     (if want \<noteq> {||} then Some (text_label k (join '','' (sorted_list_of_fset want))) else None)"

section \<open>Example graphs\<close>

text \<open>Two releases, \<^verbatim>\<open>4.1.0\<close> in the channels fast and stable and \<^verbatim>\<open>4.1.1\<close> in
  stable only, as \<^verbatim>\<open>load_nodes\<close> leaves them; an edge between them in their shared
  channel, the same pair declared for both channels, and an edge from a release that was
  never loaded.\<close>

definition node_410 :: node where
  "node_410 = \<lparr>version = ''4.1.0'', payload = ''quay.io/openshift-release-dev/ocp-release@sha256:aa'',
     metadata = Some [channels_key \<mapsto> ''fast,stable''],
     channels = {|''fast'', ''stable''|}, previous = None\<rparr>"

definition node_411 :: node where
  "node_411 = \<lparr>version = ''4.1.1'', payload = ''quay.io/openshift-release-dev/ocp-release@sha256:bb'',
     metadata = Some [channels_key \<mapsto> ''stable''],
     channels = {|''stable''|}, previous = None\<rparr>"

definition ex_nodes :: nodes where
  "ex_nodes = [''4.1.0'' \<mapsto> node_410, ''4.1.1'' \<mapsto> node_411]"

definition edge_ok :: edge where
  "edge_ok = \<lparr>efrom = ''4.1.0'', eto = ''4.1.1'', echannels = [''stable'']\<rparr>"

definition edge_wide :: edge where
  "edge_wide = \<lparr>efrom = ''4.1.0'', eto = ''4.1.1'', echannels = [''stable'', ''fast'']\<rparr>"

definition edge_dangling :: edge where
  "edge_dangling = \<lparr>efrom = ''4.0.9'', eto = ''4.1.1'', echannels = [''stable'']\<rparr>"

text \<open>A channels tree with one release filed under two channels, and a file that is
  not JSON by name.\<close>

definition ex_node_json :: node_json where
  "ex_node_json = \<lparr>version = ''4.1.0'', payload = ''quay.io/openshift-release-dev/ocp-release@sha256:abc'', metadata = None\<rparr>"

definition ex_channels_walk :: "node_json walk" where
  "ex_channels_walk =
     [(''./channels'', []),
      (''./channels/stable'', [(''4.1.0.json'', Json ex_node_json)]),
      (''./channels/fast'', [(''4.1.0.json'', Json ex_node_json), (''README.md'', Malformed ''x'')])]"

section \<open>Example registries\<close>

text \<open>A registry given by its documents, which refuses nothing; a URI it does not list
  fails to open.\<close>

definition registry ::
  "(string \<times> label list) list \<Rightarrow> (string \<times> layer list) list \<Rightarrow> (string \<times> archive) list \<Rightarrow> remote" where
  "registry listings manifests blobs =
     \<lparr>labels_doc = (\<lambda>u. case map_of listings u of None \<Rightarrow> Inl (RemoteError u) | Some ls \<Rightarrow> Inr ls),
      manifest_doc = (\<lambda>u. case map_of manifests u of None \<Rightarrow> Inl (RemoteError u) | Some ls \<Rightarrow> Inr ls),
      blob_doc = (\<lambda>u. case map_of blobs u of None \<Rightarrow> Inl (RemoteError u) | Some a \<Rightarrow> Inr a),
      refuse = (\<lambda>r. None)\<rparr>"

text \<open>A layer that holds the release metadata with the given \<^verbatim>\<open>previous\<close> list.\<close>

definition metadata_archive :: "string list \<Rightarrow> archive" where
  "metadata_archive vs = [release_metadata_path \<mapsto> Json \<lparr>meta_previous = Some vs\<rparr>]"

text \<open>Release \<^verbatim>\<open>1.0.3\<close> declares the predecessors \<^verbatim>\<open>1.0.1\<close> and
  \<^verbatim>\<open>1.0.2\<close>; its image publishes \<^verbatim>\<open>1.0.1\<close> only, and the registry holds
  \<^verbatim>\<open>previous.add = 1.0.1\<close>. The second registry differs in the label listing only,
  which holds \<^verbatim>\<open>previous.add = 1.0.2\<close>.\<close>

definition node_103 :: node where
  "node_103 = \<lparr>version = ''1.0.3'', payload = ''quay.io/ocp/release@sha256:cc'',
     metadata = Some [channels_key \<mapsto> ''stable''],
     channels = {|''stable''|}, previous = Some {|''1.0.1'', ''1.0.2''|}\<rparr>"

definition uri_103 :: string where
  "uri_103 = ''https://quay.io/api/v1/repository/ocp/release/manifest/sha256:cc''"

definition labels_103 :: "label list" where
  "labels_103 = [text_label channels_key ''stable'', text_label previous_add_key ''1.0.1'']"

definition registry_103 :: remote where
  "registry_103 = registry
     [(labels_uri uri_103, labels_103)]
     [(uri_103, [\<lparr>blob_digest = ''sha256:01''\<rparr>, \<lparr>blob_digest = ''sha256:02''\<rparr>])]
     [(''https://quay.io/v2/ocp/release/blobs/sha256:01'', Map.empty),
      (''https://quay.io/v2/ocp/release/blobs/sha256:02'', metadata_archive [''1.0.1''])]"

definition registry_103_after :: remote where
  "registry_103_after = registry
     [(labels_uri uri_103, [text_label channels_key ''stable'', text_label previous_add_key ''1.0.2''])]
     [(uri_103, [\<lparr>blob_digest = ''sha256:01''\<rparr>, \<lparr>blob_digest = ''sha256:02''\<rparr>])]
     [(''https://quay.io/v2/ocp/release/blobs/sha256:01'', Map.empty),
      (''https://quay.io/v2/ocp/release/blobs/sha256:02'', metadata_archive [''1.0.1''])]"

text \<open>Release \<^verbatim>\<open>1.0.1\<close> declares no predecessor; its image publishes
  \<^verbatim>\<open>1.0.0\<close>, and the registry holds no predecessor label.\<close>

definition node_101 :: node where
  "node_101 = \<lparr>version = ''1.0.1'', payload = ''quay.io/ocp/release@sha256:aa'',
     metadata = Some [channels_key \<mapsto> ''stable''],
     channels = {|''stable''|}, previous = None\<rparr>"

definition uri_101 :: string where
  "uri_101 = ''https://quay.io/api/v1/repository/ocp/release/manifest/sha256:aa''"

definition registry_101 :: remote where
  "registry_101 = registry
     [(labels_uri uri_101, [text_label channels_key ''stable''])]
     [(uri_101, [\<lparr>blob_digest = ''sha256:03''\<rparr>])]
     [(''https://quay.io/v2/ocp/release/blobs/sha256:03'', metadata_archive [''1.0.0''])]"

text \<open>Release \<^verbatim>\<open>1.0.4\<close>: the release metadata is in the older of the two layers
  of its image, not in the layer added last.\<close>

definition node_104 :: node where
  "node_104 = \<lparr>version = ''1.0.4'', payload = ''quay.io/ocp/release@sha256:dd'',
     metadata = Some [channels_key \<mapsto> ''stable''],
     channels = {|''stable''|}, previous = None\<rparr>"

definition uri_104 :: string where
  "uri_104 = ''https://quay.io/api/v1/repository/ocp/release/manifest/sha256:dd''"

definition registry_104 :: remote where
  "registry_104 = registry
     [(labels_uri uri_104, [text_label channels_key ''stable''])]
     [(uri_104, [\<lparr>blob_digest = ''sha256:04''\<rparr>, \<lparr>blob_digest = ''sha256:05''\<rparr>])]
     [(''https://quay.io/v2/ocp/release/blobs/sha256:04'', metadata_archive [''1.0.3'']),
      (''https://quay.io/v2/ocp/release/blobs/sha256:05'', Map.empty)]"

text \<open>Release \<^verbatim>\<open>1.0.5\<close> declares the predecessor \<^verbatim>\<open>1.0.4\<close>; the
  \<^verbatim>\<open>previous\<close> list its image publishes holds an empty string besides. The second
  registry differs in the label listing only, which holds \<^verbatim>\<open>previous.remove\<close> with
  an empty value.\<close>

definition node_105 :: node where
  "node_105 = \<lparr>version = ''1.0.5'', payload = ''quay.io/ocp/release@sha256:ee'',
     metadata = Some [channels_key \<mapsto> ''stable''],
     channels = {|''stable''|}, previous = Some {|''1.0.4''|}\<rparr>"

definition uri_105 :: string where
  "uri_105 = ''https://quay.io/api/v1/repository/ocp/release/manifest/sha256:ee''"

definition registry_105 :: remote where
  "registry_105 = registry
     [(labels_uri uri_105, [text_label channels_key ''stable''])]
     [(uri_105, [\<lparr>blob_digest = ''sha256:06''\<rparr>])]
     [(''https://quay.io/v2/ocp/release/blobs/sha256:06'', metadata_archive [''1.0.4'', ''''])]"

definition registry_105_after :: remote where
  "registry_105_after = registry
     [(labels_uri uri_105, [text_label channels_key ''stable'', text_label previous_remove_key ''''])]
     [(uri_105, [\<lparr>blob_digest = ''sha256:06''\<rparr>])]
     [(''https://quay.io/v2/ocp/release/blobs/sha256:06'', metadata_archive [''1.0.4'', ''''])]"

text \<open>Release \<^verbatim>\<open>1.0.6\<close> declares an empty set of predecessors, and its image
  publishes none.\<close>

definition node_106 :: node where
  "node_106 = \<lparr>version = ''1.0.6'', payload = ''quay.io/ocp/release@sha256:ff'',
     metadata = Some [channels_key \<mapsto> ''stable''],
     channels = {|''stable''|}, previous = Some {||}\<rparr>"

definition uri_106 :: string where
  "uri_106 = ''https://quay.io/api/v1/repository/ocp/release/manifest/sha256:ff''"

definition registry_106 :: remote where
  "registry_106 = registry
     [(labels_uri uri_106, [text_label channels_key ''stable''])]
     [(uri_106, [\<lparr>blob_digest = ''sha256:07''\<rparr>])]
     [(''https://quay.io/v2/ocp/release/blobs/sha256:07'', metadata_archive [])]"

text \<open>Release \<^verbatim>\<open>1.0.11\<close> declares the predecessors \<^verbatim>\<open>1.0.2\<close> and
  \<^verbatim>\<open>1.0.10\<close>; its image publishes \<^verbatim>\<open>1.0.1\<close> and \<^verbatim>\<open>1.0.0\<close>.\<close>

definition node_107 :: node where
  "node_107 = \<lparr>version = ''1.0.11'', payload = ''quay.io/ocp/release@sha256:ab'',
     metadata = Some [channels_key \<mapsto> ''stable''],
     channels = {|''stable''|}, previous = Some {|''1.0.2'', ''1.0.10''|}\<rparr>"

definition uri_107 :: string where
  "uri_107 = ''https://quay.io/api/v1/repository/ocp/release/manifest/sha256:ab''"

definition registry_107 :: remote where
  "registry_107 = registry
     [(labels_uri uri_107, [text_label channels_key ''stable''])]
     [(uri_107, [\<lparr>blob_digest = ''sha256:08''\<rparr>])]
     [(''https://quay.io/v2/ocp/release/blobs/sha256:08'', metadata_archive [''1.0.1'', ''1.0.0''])]"

text \<open>Release \<^verbatim>\<open>1.0.8\<close> is in no channel, so that its desired channels string is
  empty, and the registry holds no label for it. The second registry differs in the label
  listing only, which holds \<^verbatim>\<open>release.channels\<close> with an empty value.\<close>

definition node_108 :: node where
  "node_108 = \<lparr>version = ''1.0.8'', payload = ''quay.io/ocp/release@sha256:ac'',
     metadata = Some [channels_key \<mapsto> ''''],
     channels = {||}, previous = None\<rparr>"

definition uri_108 :: string where
  "uri_108 = ''https://quay.io/api/v1/repository/ocp/release/manifest/sha256:ac''"

definition registry_108 :: remote where
  "registry_108 = registry
     [(labels_uri uri_108, [])]
     [(uri_108, [\<lparr>blob_digest = ''sha256:09''\<rparr>])]
     [(''https://quay.io/v2/ocp/release/blobs/sha256:09'', metadata_archive [])]"

definition registry_108_after :: remote where
  "registry_108_after = registry
     [(labels_uri uri_108, [text_label channels_key ''''])]
     [(uri_108, [\<lparr>blob_digest = ''sha256:09''\<rparr>])]
     [(''https://quay.io/v2/ocp/release/blobs/sha256:09'', metadata_archive [])]"

section \<open>Lemmas on the loaders\<close>

lemma foldM_append:
  "foldM f s (xs @ ys) = (case foldM f s xs of Inl e \<Rightarrow> Inl e | Inr s' \<Rightarrow> foldM f s' ys)"
  by (induction xs arbitrary: s) (auto split: sum.splits)

lemma edge_channels_ok_cong:
  "node_channels N = node_channels N' \<Longrightarrow> edge_channels_ok N e = edge_channels_ok N' e"
proof -
  assume h: "node_channels N = node_channels N'"
  have a: "map_option channels (N (efrom e)) = map_option channels (N' (efrom e))"
    using fun_cong [OF h, of "efrom e"] by (simp add: node_channels_def)
  have b: "map_option channels (N (eto e)) = map_option channels (N' (eto e))"
    using fun_cong [OF h, of "eto e"] by (simp add: node_channels_def)
  show ?thesis using a b
    by (cases "N (efrom e)"; cases "N' (efrom e)"; cases "N (eto e)"; cases "N' (eto e)";
        simp add: edge_channels_ok_def)
qed

lemma load_edge_file_skip:
  "\<not> endswith filename ''.json'' \<Longrightarrow> load_edge_file root st (filename, c) = Inr st"
  by (simp add: load_edge_file_def split: prod.splits)

lemma load_edge_file_malformed:
  "endswith filename ''.json'' \<Longrightarrow>
   load_edge_file root st (filename, Malformed e) = Inl (LoadFailed (path_join root filename) e)"
  by (simp add: load_edge_file_def split: prod.splits)

lemma load_edge_file_duplicate:
  "endswith filename ''.json'' \<Longrightarrow> E (edge_key e) \<noteq> None \<Longrightarrow>
   load_edge_file root (E, N) (filename, Json e) = Inl DuplicateEdges"
  by (simp add: load_edge_file_def edge_key_def)

lemma load_edge_file_missing:
  "endswith filename ''.json'' \<Longrightarrow> E (edge_key e) = None \<Longrightarrow>
   N (efrom e) = None \<or> N (eto e) = None \<Longrightarrow>
   load_edge_file root (E, N) (filename, Json e) =
     Inl (KeyError (if N (efrom e) = None then efrom e else eto e))"
  by (auto simp: load_edge_file_def edge_key_def split: option.splits)

lemma load_edge_file_checked:
  "endswith filename ''.json'' \<Longrightarrow> E (edge_key e) = None \<Longrightarrow>
   N (efrom e) = Some from_node \<Longrightarrow> N (eto e) = Some to_node \<Longrightarrow>
   load_edge_file root (E, N) (filename, Json e) =
     (if fset_of_list (echannels e) = channels from_node |\<inter>| channels to_node
      then Inr (E(edge_key e \<mapsto> e),
             N(eto e \<mapsto> to_node\<lparr>previous :=
               (case previous to_node of
                  Some p \<Rightarrow> Some (finsert (efrom e) p)
                | None \<Rightarrow> Some {|efrom e|})\<rparr>))
      else Inl (ChannelsDiffer (sort (echannels e))
             (sorted_list_of_fset (channels from_node |\<inter>| channels to_node))))"
  by (simp add: load_edge_file_def edge_key_def)

lemma load_edge_file_Inr:
  assumes "load_edge_file root (E, N) (filename, Json e) = Inr (E', N')"
    and "endswith filename ''.json''"
  shows "E (edge_key e) = None \<and> E' = E(edge_key e \<mapsto> e) \<and> edge_channels_ok N e \<and>
         node_channels N' = node_channels N"
proof -
  from assms have k: "E (edge_key e) = None"
    using load_edge_file_duplicate [of filename E e root N] by (cases "E (edge_key e)") auto
  from assms k obtain f t where ft: "N (efrom e) = Some f" "N (eto e) = Some t"
    using load_edge_file_missing [of filename E e N root] by (cases "N (efrom e)"; cases "N (eto e)") auto
  from load_edge_file_checked [of filename E e N f t root] assms k ft
  have ok: "fset_of_list (echannels e) = channels f |\<inter>| channels t"
    and E': "E' = E(edge_key e \<mapsto> e)"
    and N': "N' = N(eto e \<mapsto> t\<lparr>previous :=
               (case previous t of
                  Some p \<Rightarrow> Some (finsert (efrom e) p)
                | None \<Rightarrow> Some {|efrom e|})\<rparr>)"
    by (auto split: if_splits)
  have "node_channels N' = node_channels N"
    using ft by (auto simp: node_channels_def N' fun_eq_iff)
  with k E' ok ft show ?thesis by (simp add: edge_channels_ok_def)
qed

lemma load_edge_files_Inr:
  "foldM (load_edge_file root) (E, N) files = Inr (E', N') \<Longrightarrow>
   dom E' = dom E \<union> edge_key ` set (json_files files) \<and>
   node_channels N' = node_channels N \<and>
   (\<forall>e \<in> set (json_files files). edge_channels_ok N e \<and> edge_key e \<notin> dom E) \<and>
   distinct (map edge_key (json_files files))"
proof (induction files arbitrary: E N)
  case Nil
  then show ?case by simp
next
  case (Cons fl files)
  obtain filename c where fl_def: "fl = (filename, c)" by (cases fl)
  show ?case
  proof (cases "endswith filename ''.json''")
    case False
    with Cons.prems fl_def have "foldM (load_edge_file root) (E, N) files = Inr (E', N')"
      by (simp add: load_edge_file_skip)
    from Cons.IH [OF this] False fl_def show ?thesis by (cases c) auto
  next
    case True
    show ?thesis
    proof (cases c)
      case (Malformed m)
      with Cons.prems fl_def True show ?thesis by (simp add: load_edge_file_malformed)
    next
      case (Json e)
      with Cons.prems fl_def obtain E1 N1 where
        s1: "load_edge_file root (E, N) (filename, Json e) = Inr (E1, N1)" and
        s2: "foldM (load_edge_file root) (E1, N1) files = Inr (E', N')"
        by (auto split: sum.splits)
      from load_edge_file_Inr [OF s1 True] have
        a: "E (edge_key e) = None" "E1 = E(edge_key e \<mapsto> e)" "edge_channels_ok N e"
           "node_channels N1 = node_channels N" by auto
      from Cons.IH [OF s2] have
        b: "dom E' = dom E1 \<union> edge_key ` set (json_files files)"
           "node_channels N' = node_channels N1"
           "\<forall>e \<in> set (json_files files). edge_channels_ok N1 e \<and> edge_key e \<notin> dom E1"
           "distinct (map edge_key (json_files files))" by auto
      have c1: "\<forall>x \<in> set (json_files files). edge_channels_ok N x"
        using b(3) edge_channels_ok_cong [OF a(4)] by simp
      have domE1: "dom E1 = insert (edge_key e) (dom E)"
        by (simp add: a(2))
      have c2: "\<forall>x \<in> set (json_files files). edge_key x \<noteq> edge_key e \<and> edge_key x \<notin> dom E"
        using b(3) domE1 by blast
      have js: "json_files (fl # files) = e # json_files files"
        using fl_def True Json by simp
      have g1: "dom E' = dom E \<union> edge_key ` set (json_files (fl # files))"
        unfolding js using b(1) domE1 by auto
      have g2: "\<forall>x \<in> set (json_files (fl # files)). edge_channels_ok N x \<and> edge_key x \<notin> dom E"
        unfolding js using a(1,3) c1 c2 by (simp add: domIff)
      have g3: "distinct (map edge_key (json_files (fl # files)))"
        unfolding js using b(4) c2 by auto
      from g1 g2 g3 a(4) b(2) show ?thesis by simp
    qed
  qed
qed

lemma load_edges_loop_Nil: "load_edges_loop st [] = Inr st"
  by (simp add: load_edges_loop_def)

lemma load_edges_loop_Cons:
  "load_edges_loop st (dir # dirs) =
     (case foldM (load_edge_file (fst dir)) st (snd dir) of
        Inl e \<Rightarrow> Inl e
      | Inr st' \<Rightarrow> load_edges_loop st' dirs)"
  unfolding load_edges_loop_def by simp

lemma load_edges_loop_Inr:
  "load_edges_loop (E, N) directory = Inr (E', N') \<Longrightarrow>
   dom E' = dom E \<union> edge_key ` set (walk_files directory) \<and>
   node_channels N' = node_channels N \<and>
   (\<forall>e \<in> set (walk_files directory). edge_channels_ok N e \<and> edge_key e \<notin> dom E) \<and>
   distinct (map edge_key (walk_files directory))"
proof (induction directory arbitrary: E N)
  case Nil
  then show ?case by (simp add: load_edges_loop_Nil walk_files_def)
next
  case (Cons dir dirs)
  from Cons.prems obtain E1 N1 where
    s1: "foldM (load_edge_file (fst dir)) (E, N) (snd dir) = Inr (E1, N1)" and
    s2: "load_edges_loop (E1, N1) dirs = Inr (E', N')"
    by (auto simp: load_edges_loop_Cons split: sum.splits)
  from load_edge_files_Inr [OF s1] have
    a: "dom E1 = dom E \<union> edge_key ` set (json_files (snd dir))"
       "node_channels N1 = node_channels N"
       "\<forall>e \<in> set (json_files (snd dir)). edge_channels_ok N e \<and> edge_key e \<notin> dom E"
       "distinct (map edge_key (json_files (snd dir)))" by auto
  from Cons.IH [OF s2] have
    b: "dom E' = dom E1 \<union> edge_key ` set (walk_files dirs)"
       "node_channels N' = node_channels N1"
       "\<forall>e \<in> set (walk_files dirs). edge_channels_ok N1 e \<and> edge_key e \<notin> dom E1"
       "distinct (map edge_key (walk_files dirs))" by auto
  have c1: "\<forall>e \<in> set (walk_files dirs). edge_channels_ok N e"
    using b(3) edge_channels_ok_cong [OF a(2)] by simp
  have wf: "walk_files (dir # dirs) = json_files (snd dir) @ walk_files dirs"
    by (simp add: walk_files_def)
  have d: "distinct (map edge_key (walk_files (dir # dirs)))"
    unfolding wf using a(1,4) b(3,4) by auto
  have e: "dom E' = dom E \<union> edge_key ` set (walk_files (dir # dirs))"
    unfolding wf using a(1) b(1) by auto
  have f: "\<forall>e \<in> set (walk_files (dir # dirs)). edge_channels_ok N e \<and> edge_key e \<notin> dom E"
    unfolding wf using a(1,3) b(3) c1 by auto
  from d e f a(2) b(2) show ?case by simp
qed

lemma load_edges_loop_split:
  "load_edges_loop st (dirs1 @ [(root, files1 @ fl # files2)] @ dirs2) =
     (case load_edges_loop st (dirs1 @ [(root, files1)]) of
        Inl e \<Rightarrow> Inl e
      | Inr st1 \<Rightarrow>
          (case load_edge_file root st1 fl of
             Inl e \<Rightarrow> Inl e
           | Inr st2 \<Rightarrow>
               (case foldM (load_edge_file root) st2 files2 of
                  Inl e \<Rightarrow> Inl e
                | Inr st3 \<Rightarrow> load_edges_loop st3 dirs2)))"
  unfolding load_edges_loop_def by (simp add: foldM_append split: sum.splits)

lemma load_edges_loop_state:
  assumes "load_edges_loop (Map.empty, nodes) directory = Inr st"
  shows "dom (fst st) = edge_key ` set (walk_files directory)"
    and "node_channels (snd st) = node_channels nodes"
    and "\<forall>e \<in> set (walk_files directory). edge_channels_ok nodes e"
  using load_edges_loop_Inr [of Map.empty nodes directory "fst st" "snd st"] assms
  by simp_all

lemma load_edges_split:
  "load_edges_loop (Map.empty, nodes) (dirs1 @ [(root, files1)]) = Inr st \<Longrightarrow>
   load_edge_file root st fl = Inl err \<Longrightarrow>
   load_edges (dirs1 @ [(root, files1 @ fl # files2)] @ dirs2) nodes = Inl err"
  unfolding load_edges_def by (simp only: load_edges_loop_split sum.case)

lemma edge_channels_ok_nodes:
  "edge_channels_ok nodes e \<Longrightarrow> nodes (efrom e) \<noteq> None \<and> nodes (eto e) \<noteq> None"
  by (cases "nodes (efrom e)"; cases "nodes (eto e)"; simp add: edge_channels_ok_def)

lemma node_channels_Some:
  "node_channels N = node_channels N' \<Longrightarrow> N' v = Some n' \<Longrightarrow>
   \<exists>n. N v = Some n \<and> channels n = channels n'"
proof -
  assume h: "node_channels N = node_channels N'" and v: "N' v = Some n'"
  from fun_cong [OF h, of v] have "map_option channels (N v) = map_option channels (N' v)"
    by (simp add: node_channels_def)
  with v show ?thesis by (cases "N v") simp_all
qed

lemma node_channels_None:
  "node_channels N = node_channels N' \<Longrightarrow> N' v = None \<Longrightarrow> N v = None"
proof -
  assume h: "node_channels N = node_channels N'" and v: "N' v = None"
  from fun_cong [OF h, of v] have "map_option channels (N v) = map_option channels (N' v)"
    by (simp add: node_channels_def)
  with v show ?thesis by (cases "N v") simp_all
qed

lemma ex_nodes_simps:
  "ex_nodes ''4.1.0'' = Some node_410" "ex_nodes ''4.1.1'' = Some node_411"
  "ex_nodes ''4.0.9'' = None"
  by (simp_all add: ex_nodes_def)

lemma ex_before_empty:
  "load_edges_loop (Map.empty, ex_nodes) ([] @ [(''./edges'', [])]) = Inr (Map.empty, ex_nodes)"
  by (simp add: load_edges_loop_def)

lemma ex_edge_ok_step:
  "load_edge_file ''./edges'' (Map.empty, ex_nodes) (''4.1.0-to-4.1.1.json'', Json edge_ok)
     = Inr ([(''4.1.0'', ''4.1.1'') \<mapsto> edge_ok],
            ex_nodes(''4.1.1'' \<mapsto> node_411\<lparr>previous := Some {|''4.1.0''|}\<rparr>))"
  by (simp add: load_edge_file_def endswith_def ex_nodes_simps edge_ok_def node_410_def node_411_def)

lemma ex_before_one:
  "load_edges_loop (Map.empty, ex_nodes)
     ([] @ [(''./edges'', [(''4.1.0-to-4.1.1.json'', Json edge_ok)])])
   = Inr ([(''4.1.0'', ''4.1.1'') \<mapsto> edge_ok],
          ex_nodes(''4.1.1'' \<mapsto> node_411\<lparr>previous := Some {|''4.1.0''|}\<rparr>))"
  by (simp add: load_edges_loop_def ex_edge_ok_step)

lemma ex1: "(case load_nodes ex_channels_walk of Inl e \<Rightarrow> None | Inr nodes \<Rightarrow> (case nodes ''4.1.0'' of None \<Rightarrow> None | Some n \<Rightarrow> Some (channels n))) = Some {|''fast'', ''stable''|}"
  by (simp add: load_nodes_def ex_channels_walk_def ex_node_json_def load_node_file_def endswith_def basename_def Let_def set_channels_metadata_def)

lemma sorted_stable_fast: "sorted_list_of_fset {|''stable'', ''fast''|} = [''fast'', ''stable'']"
  by (simp add: sorted_list_of_fset.rep_eq)

lemma load_node_file_skip:
  "\<not> endswith filename ''.json'' \<Longrightarrow> load_node_file root N (filename, c) = Inr N"
  by (simp add: load_node_file_def)

lemma load_node_file_malformed:
  "endswith filename ''.json'' \<Longrightarrow>
   load_node_file root N (filename, Malformed e) = Inl (LoadFailed (path_join root filename) e)"
  by (simp add: load_node_file_def)

lemma load_node_file_Json:
  assumes "endswith filename ''.json''"
    and "load_node_file root N (filename, Json nj) = Inr N'"
  shows "dom N' = insert (version nj) (dom N)"
    and "channels_at N' v
           = (if v = version nj then finsert (basename root) (channels_at N v) else channels_at N v)"
  using assms
  by (auto simp: load_node_file_def channels_at_def Let_def split: option.splits)

lemma load_node_files_Inr:
  "foldM (load_node_file root) N files = Inr N' \<Longrightarrow>
   dom N' = dom N \<union> version ` set (json_files files) \<and>
   (\<forall>v. channels_at N' v
          = channels_at N v |\<union>|
            (if v \<in> version ` set (json_files files) then {|basename root|} else {||}))"
proof (induction files arbitrary: N)
  case Nil
  then show ?case by simp
next
  case (Cons fl files)
  obtain filename c where fl: "fl = (filename, c)" by (cases fl)
  show ?case
  proof (cases "endswith filename ''.json''")
    case False
    with Cons.prems fl have "foldM (load_node_file root) N files = Inr N'"
      by (simp add: load_node_file_skip)
    from Cons.IH [OF this] False fl show ?thesis by (cases c) simp_all
  next
    case True
    show ?thesis
    proof (cases c)
      case (Malformed e)
      with Cons.prems fl True show ?thesis by (simp add: load_node_file_malformed)
    next
      case (Json nj)
      with Cons.prems fl obtain N1 where
        s1: "load_node_file root N (filename, Json nj) = Inr N1" and
        s2: "foldM (load_node_file root) N1 files = Inr N'"
        by (auto split: sum.splits)
      note a = load_node_file_Json [OF True s1]
      from Cons.IH [OF s2] have
        b: "dom N' = dom N1 \<union> version ` set (json_files files)" and
        c: "\<And>v. channels_at N' v = channels_at N1 v |\<union>|
              (if v \<in> version ` set (json_files files) then {|basename root|} else {||})"
        by simp_all
      have js: "json_files (fl # files) = nj # json_files files"
        using fl True Json by simp
      have g1: "dom N' = dom N \<union> version ` set (json_files (fl # files))"
        unfolding js using a(1) b by auto
      have g2: "\<And>v. channels_at N' v = channels_at N v |\<union>|
              (if v \<in> version ` set (json_files (fl # files)) then {|basename root|} else {||})"
        unfolding js c a(2) by auto
      from g1 g2 show ?thesis by simp
    qed
  qed
qed

lemma version_channels_Cons:
  "version_channels (dir # dirs) v
     = (if v \<in> version ` set (json_files (snd dir)) then {|basename (fst dir)|} else {||})
       |\<union>| version_channels dirs v"
  by (simp add: version_channels_def)

lemma load_node_dirs_Inr:
  "foldM (\<lambda>nodes dir. foldM (load_node_file (fst dir)) nodes (snd dir)) N directory = Inr N' \<Longrightarrow>
   dom N' = dom N \<union> version ` set (walk_files directory) \<and>
   (\<forall>v. channels_at N' v = channels_at N v |\<union>| version_channels directory v)"
proof (induction directory arbitrary: N)
  case Nil
  then show ?case by (simp add: walk_files_def version_channels_def)
next
  case (Cons dir dirs)
  from Cons.prems obtain N1 where
    s1: "foldM (load_node_file (fst dir)) N (snd dir) = Inr N1" and
    s2: "foldM (\<lambda>nodes dir. foldM (load_node_file (fst dir)) nodes (snd dir)) N1 dirs = Inr N'"
    by (auto split: sum.splits)
  from load_node_files_Inr [OF s1] have
    a: "dom N1 = dom N \<union> version ` set (json_files (snd dir))" and
    b: "\<And>v. channels_at N1 v = channels_at N v |\<union>|
          (if v \<in> version ` set (json_files (snd dir)) then {|basename (fst dir)|} else {||})"
    by simp_all
  from Cons.IH [OF s2] have
    c: "dom N' = dom N1 \<union> version ` set (walk_files dirs)" and
    d: "\<And>v. channels_at N' v = channels_at N1 v |\<union>| version_channels dirs v"
    by simp_all
  have wf: "walk_files (dir # dirs) = json_files (snd dir) @ walk_files dirs"
    by (simp add: walk_files_def)
  have g1: "dom N' = dom N \<union> version ` set (walk_files (dir # dirs))"
    unfolding wf using a c by auto
  have g2: "\<And>v. channels_at N' v = channels_at N v |\<union>| version_channels (dir # dirs) v"
    unfolding d b version_channels_Cons by (simp add: funion_assoc)
  from g1 g2 show ?case by simp
qed

section \<open>Claims on the loaders\<close>

text \<open>
  \<^bold>\<open>C5.\<close> Take an edge file reached by \<^verbatim>\<open>load_edges\<close> (the files before it have
  loaded) whose endpoints are loaded nodes. If the edge's channels are not, as a set, the
  intersection of the channel sets of its \<^verbatim>\<open>from\<close> and \<^verbatim>\<open>to\<close> nodes, loading it
  raises a ValidationError, which is the error of the whole \<^verbatim>\<open>load_edges\<close>. If the pair
  was not declared before, the file loads exactly when the two sets are equal. Hence every
  edge of a directory that \<^verbatim>\<open>load_edges\<close> loaded without error satisfies the invariant.
\<close>

theorem edge_channels_validated:
  assumes before: "load_edges_loop (Map.empty, nodes) (dirs1 @ [(root, files1)]) = Inr st"
    and json: "endswith filename ''.json''"
    and from_node: "nodes (efrom e) = Some from_node"
    and to_node: "nodes (eto e) = Some to_node"
  shows "(fset_of_list (echannels e) \<noteq> channels from_node |\<inter>| channels to_node \<longrightarrow>
            (\<exists>err. load_edge_file root st (filename, Json e) = Inl err \<and>
                   is_ValidationError err \<and>
                   load_edges (dirs1 @ [(root, files1 @ (filename, Json e) # files2)] @ dirs2)
                     nodes = Inl err))
       \<and> (edge_key e \<notin> edge_key ` set (walk_files (dirs1 @ [(root, files1)])) \<longrightarrow>
            ((\<exists>st'. load_edge_file root st (filename, Json e) = Inr st') \<longleftrightarrow>
             fset_of_list (echannels e) = channels from_node |\<inter>| channels to_node))
       \<and> (load_edges directory nodes = Inr nodes' \<longrightarrow>
            (\<forall>x \<in> set (walk_files directory). edge_channels_ok nodes x))"
proof -
  obtain E N where st: "st = (E, N)" by (cases st)
  have ch: "node_channels N = node_channels nodes"
    using load_edges_loop_state(2) [OF before] st by simp
  have domE: "dom E = edge_key ` set (walk_files (dirs1 @ [(root, files1)]))"
    using load_edges_loop_state(1) [OF before] st by simp
  obtain f where f: "N (efrom e) = Some f" "channels f = channels from_node"
    using node_channels_Some [OF ch from_node] by blast
  obtain t where t: "N (eto e) = Some t" "channels t = channels to_node"
    using node_channels_Some [OF ch to_node] by blast
  have step: "E (edge_key e) = None \<Longrightarrow>
      load_edge_file root st (filename, Json e) =
        (if fset_of_list (echannels e) = channels from_node |\<inter>| channels to_node
         then Inr (E(edge_key e \<mapsto> e),
                N(eto e \<mapsto> t\<lparr>previous :=
                  (case previous t of
                     Some p \<Rightarrow> Some (finsert (efrom e) p)
                   | None \<Rightarrow> Some {|efrom e|})\<rparr>))
         else Inl (ChannelsDiffer (sort (echannels e))
                (sorted_list_of_fset (channels from_node |\<inter>| channels to_node))))"
    using load_edge_file_checked [of filename E e N f t root] json f t st by simp
  have dup: "E (edge_key e) \<noteq> None \<Longrightarrow>
      load_edge_file root st (filename, Json e) = Inl DuplicateEdges"
    using load_edge_file_duplicate [of filename E e root N] json st by simp
  have A: "fset_of_list (echannels e) \<noteq> channels from_node |\<inter>| channels to_node \<Longrightarrow>
      \<exists>err. load_edge_file root st (filename, Json e) = Inl err \<and> is_ValidationError err"
    using step dup by (cases "E (edge_key e)") (simp_all add: is_ValidationError_def)
  have B: "edge_key e \<notin> edge_key ` set (walk_files (dirs1 @ [(root, files1)])) \<Longrightarrow>
      (\<exists>st'. load_edge_file root st (filename, Json e) = Inr st') \<longleftrightarrow>
      fset_of_list (echannels e) = channels from_node |\<inter>| channels to_node"
  proof -
    assume "edge_key e \<notin> edge_key ` set (walk_files (dirs1 @ [(root, files1)]))"
    then have "edge_key e \<notin> dom E" using domE by simp
    then have "E (edge_key e) = None" by (simp add: domIff)
    from step [OF this] show ?thesis by simp
  qed
  have C: "load_edges directory nodes = Inr nodes' \<Longrightarrow>
      \<forall>x \<in> set (walk_files directory). edge_channels_ok nodes x"
  proof -
    assume "load_edges directory nodes = Inr nodes'"
    then obtain st0 where "load_edges_loop (Map.empty, nodes) directory = Inr st0"
      by (auto simp: load_edges_def split: sum.splits)
    from load_edges_loop_state(3) [OF this] show ?thesis .
  qed
  from A B C load_edges_split [OF before] show ?thesis by blast
qed

theorem edge_channels_validated_witness:
  "load_edges [(''./edges'', [(''4.1.0-to-4.1.1.json'', Json edge_wide)])] ex_nodes
     = Inl (ChannelsDiffer [''fast'', ''stable''] [''stable''])
   \<and> (\<exists>st'. load_edge_file ''./edges'' (Map.empty, ex_nodes)
               (''4.1.0-to-4.1.1.json'', Json edge_ok) = Inr st')"
proof -
  have json: "endswith ''4.1.0-to-4.1.1.json'' ''.json''" by (simp add: endswith_def)
  have wide: "fset_of_list (echannels edge_wide) \<noteq> channels node_410 |\<inter>| channels node_411"
    by (simp add: edge_wide_def node_410_def node_411_def)
  have ok: "fset_of_list (echannels edge_ok) = channels node_410 |\<inter>| channels node_411"
    by (simp add: edge_ok_def node_410_def node_411_def)
  have step: "load_edge_file ''./edges'' (Map.empty, ex_nodes)
      (''4.1.0-to-4.1.1.json'', Json edge_wide) = Inl (ChannelsDiffer [''fast'', ''stable''] [''stable''])"
    by (simp add: load_edge_file_def endswith_def ex_nodes_simps edge_wide_def node_410_def
        node_411_def sorted_list_of_fset.rep_eq)
  have a: "load_edges ([] @ [(''./edges'', [] @ (''4.1.0-to-4.1.1.json'', Json edge_wide) # [])] @ [])
             ex_nodes = Inl (ChannelsDiffer [''fast'', ''stable''] [''stable''])"
    using edge_channels_validated [OF ex_before_empty json, of edge_wide node_410 node_411 "[]" "[]"]
      wide step by (simp add: ex_nodes_simps edge_wide_def)
  have b: "\<exists>st'. load_edge_file ''./edges'' (Map.empty, ex_nodes)
               (''4.1.0-to-4.1.1.json'', Json edge_ok) = Inr st'"
    using edge_channels_validated [OF ex_before_empty json, of edge_ok node_410 node_411]
      ok by (simp add: ex_nodes_simps edge_ok_def walk_files_def)
  from a b show ?thesis by simp
qed

text \<open>
  \<^bold>\<open>C6.\<close> When the files read so far have loaded and one of them declared the pair
  (\<^verbatim>\<open>from\<close>, \<^verbatim>\<open>to\<close>), a further file declaring the same pair raises the
  duplicate-edges ValidationError, and \<^verbatim>\<open>load_edges\<close> ends with it, whatever the
  channels of either edge are.
\<close>

theorem duplicate_edge_rejected:
  assumes before: "load_edges_loop (Map.empty, nodes) (dirs1 @ [(root, files1)]) = Inr st"
    and first: "e1 \<in> set (walk_files (dirs1 @ [(root, files1)]))"
    and same: "efrom e2 = efrom e1" "eto e2 = eto e1"
    and json: "endswith filename ''.json''"
  shows "load_edge_file root st (filename, Json e2) = Inl DuplicateEdges \<and>
         load_edges (dirs1 @ [(root, files1 @ (filename, Json e2) # files2)] @ dirs2) nodes
           = Inl DuplicateEdges"
proof -
  obtain E N where st: "st = (E, N)" by (cases st)
  have "edge_key e2 = edge_key e1" using same by (simp add: edge_key_def)
  then have "edge_key e2 \<in> dom E"
    using load_edges_loop_state(1) [OF before] st first by simp
  then have "E (edge_key e2) \<noteq> None" by (simp add: domIff)
  with load_edge_file_duplicate [of filename E e2 root N] json
  have s: "load_edge_file root st (filename, Json e2) = Inl DuplicateEdges" using st by simp
  from s load_edges_split [OF before s] show ?thesis by simp
qed

theorem duplicate_edge_rejected_witness:
  "load_edges [(''./edges'', [(''4.1.0-to-4.1.1.json'', Json edge_ok),
                              (''again.json'', Json edge_wide)])] ex_nodes
     = Inl DuplicateEdges"
proof -
  have json: "endswith ''again.json'' ''.json''" by (simp add: endswith_def)
  have first: "edge_ok \<in> set (walk_files ([] @ [(''./edges'', [(''4.1.0-to-4.1.1.json'', Json edge_ok)])]))"
    by (simp add: walk_files_def endswith_def)
  have same: "efrom edge_wide = efrom edge_ok" "eto edge_wide = eto edge_ok"
    by (simp_all add: edge_wide_def edge_ok_def)
  from duplicate_edge_rejected [OF ex_before_one first same json, of "[]" "[]"]
  show ?thesis by simp
qed

text \<open>
  \<^bold>\<open>C7.\<close> After \<^verbatim>\<open>load_nodes\<close> has returned, every node it holds is a version
  some node file declared; its channel set is the set of channels that version is filed
  under; and it has a metadata mapping, created when the node file had none, which sends
  the release-channels key to that channel set, sorted and joined by commas. The witness
  is a release filed under the channels stable and fast: it ends with the value
  \<^verbatim>\<open>fast,stable\<close>.
\<close>

theorem load_nodes_channels_metadata:
  assumes "load_nodes directory = Inr nodes" and "nodes v = Some n"
  shows "channels n = version_channels directory v
       \<and> v \<in> version ` set (walk_files directory)
       \<and> (\<exists>m. metadata n = Some m \<and>
               m channels_key = Some (join '','' (sorted_list_of_fset (channels n))))"
proof -
  from assms(1) obtain N where
    N: "foldM (\<lambda>nodes dir. foldM (load_node_file (fst dir)) nodes (snd dir)) Map.empty directory
          = Inr N" and
    nodes: "nodes = map_option set_channels_metadata \<circ> N"
    by (auto simp: load_nodes_def split: sum.splits)
  from assms(2) nodes obtain n0 where n0: "N v = Some n0" "n = set_channels_metadata n0"
    by (cases "N v") simp_all
  from load_node_dirs_Inr [OF N] have
    d: "dom N = version ` set (walk_files directory)" and
    c: "channels_at N v = version_channels directory v"
    by (simp_all add: channels_at_def)
  from n0(1) d have "v \<in> version ` set (walk_files directory)" by (auto simp: dom_def)
  moreover from c n0 have "channels n = version_channels directory v"
    by (simp add: channels_at_def set_channels_metadata_def)
  moreover from n0(2) have "\<exists>m. metadata n = Some m \<and>
      m channels_key = Some (join '','' (sorted_list_of_fset (channels n)))"
    by (simp add: set_channels_metadata_def)
  ultimately show ?thesis by simp
qed

theorem load_nodes_channels_metadata_witness:
  "version_channels ex_channels_walk ''4.1.0'' = {|''stable'', ''fast''|}
   \<and> (case load_nodes ex_channels_walk of
        Inl e \<Rightarrow> None
      | Inr nodes \<Rightarrow>
          (case nodes ''4.1.0'' of
             None \<Rightarrow> None
           | Some n \<Rightarrow> (case metadata n of None \<Rightarrow> None | Some m \<Rightarrow> m channels_key)))
     = Some ''fast,stable''"
proof -
  obtain nodes where L: "load_nodes ex_channels_walk = Inr nodes"
    by (simp add: load_nodes_def ex_channels_walk_def load_node_file_def endswith_def)
  with ex1 obtain n where N: "nodes ''4.1.0'' = Some n"
    by (auto split: option.splits)
  have V: "version_channels ex_channels_walk ''4.1.0'' = {|''stable'', ''fast''|}"
    by (simp add: version_channels_def ex_channels_walk_def ex_node_json_def endswith_def
        basename_def)
  note inst = load_nodes_channels_metadata [OF L N]
  from inst have C: "channels n = version_channels ex_channels_walk ''4.1.0''"
    by (rule conjunct1)
  from inst obtain m where M: "metadata n = Some m"
    "m channels_key = Some (join '','' (sorted_list_of_fset (channels n)))"
    by blast
  have "m channels_key = Some ''fast,stable''"
    unfolding M(2) C V by (simp add: sorted_stable_fast)
  with L N M(1) V show ?thesis by simp
qed

text \<open>
  \<^bold>\<open>C10.\<close> When the files read so far have loaded, an edge file whose \<^verbatim>\<open>from\<close> or
  \<^verbatim>\<open>to\<close> version is not a loaded node makes \<^verbatim>\<open>load_edges\<close> end with Python's
  \<^verbatim>\<open>KeyError\<close> at that version (the \<^verbatim>\<open>from\<close> version when both are missing),
  not with one of the script's own errors: the duplicate check that runs first cannot
  fire, since an earlier edge of the same pair would have failed the same way, and the
  channel check is not reached. So a directory that loads without error names loaded
  nodes only.
\<close>

theorem missing_endpoint_KeyError:
  assumes before: "load_edges_loop (Map.empty, nodes) (dirs1 @ [(root, files1)]) = Inr st"
    and json: "endswith filename ''.json''"
    and missing: "nodes (efrom e) = None \<or> nodes (eto e) = None"
  shows "load_edges (dirs1 @ [(root, files1 @ (filename, Json e) # files2)] @ dirs2) nodes
           = Inl (KeyError (if nodes (efrom e) = None then efrom e else eto e))
       \<and> (load_edges directory nodes = Inr nodes' \<longrightarrow>
            (\<forall>x \<in> set (walk_files directory).
               nodes (efrom x) \<noteq> None \<and> nodes (eto x) \<noteq> None))"
proof -
  obtain E N where st: "st = (E, N)" by (cases st)
  have ch: "node_channels N = node_channels nodes"
    using load_edges_loop_state(2) [OF before] st by simp
  have domE: "dom E = edge_key ` set (walk_files (dirs1 @ [(root, files1)]))"
    using load_edges_loop_state(1) [OF before] st by simp
  have fresh: "E (edge_key e) = None"
  proof (rule ccontr)
    assume "E (edge_key e) \<noteq> None"
    then have "edge_key e \<in> dom E" by (simp add: domIff)
    with domE obtain x where x: "x \<in> set (walk_files (dirs1 @ [(root, files1)]))"
      "edge_key x = edge_key e" by auto
    from load_edges_loop_state(3) [OF before] x(1) have "edge_channels_ok nodes x" by blast
    from edge_channels_ok_nodes [OF this] x(2) missing show False
      by (auto simp: edge_key_def)
  qed
  have N_from: "(N (efrom e) = None) = (nodes (efrom e) = None)"
    using node_channels_None [OF ch, of "efrom e"] node_channels_None [OF ch [symmetric], of "efrom e"]
    by blast
  have N_to: "(N (eto e) = None) = (nodes (eto e) = None)"
    using node_channels_None [OF ch, of "eto e"] node_channels_None [OF ch [symmetric], of "eto e"]
    by blast
  have s: "load_edge_file root st (filename, Json e)
             = Inl (KeyError (if nodes (efrom e) = None then efrom e else eto e))"
    using load_edge_file_missing [of filename E e N root] json fresh missing N_from N_to st by simp
  have C: "load_edges directory nodes = Inr nodes' \<Longrightarrow>
      \<forall>x \<in> set (walk_files directory). nodes (efrom x) \<noteq> None \<and> nodes (eto x) \<noteq> None"
  proof -
    assume "load_edges directory nodes = Inr nodes'"
    then obtain st0 where "load_edges_loop (Map.empty, nodes) directory = Inr st0"
      by (auto simp: load_edges_def split: sum.splits)
    from load_edges_loop_state(3) [OF this] edge_channels_ok_nodes show ?thesis by blast
  qed
  from load_edges_split [OF before s] C show ?thesis by blast
qed

theorem missing_endpoint_KeyError_witness:
  "load_edges [(''./edges'', [(''4.1.0-to-4.1.1.json'', Json edge_ok),
                              (''4.0.9-to-4.1.1.json'', Json edge_dangling)])] ex_nodes
     = Inl (KeyError ''4.0.9'')"
proof -
  have json: "endswith ''4.0.9-to-4.1.1.json'' ''.json''" by (simp add: endswith_def)
  have missing: "ex_nodes (efrom edge_dangling) = None \<or> ex_nodes (eto edge_dangling) = None"
    by (simp add: edge_dangling_def ex_nodes_simps)
  from missing_endpoint_KeyError [OF ex_before_one json missing, of "[]" "[]"]
  show ?thesis by (simp add: edge_dangling_def ex_nodes_simps)
qed

section \<open>Lemmas on the reconciler\<close>

lemma mutations_append: "mutations (xs @ ys) = mutations xs @ mutations ys"
  by (induction xs) (simp_all split: event.splits)

lemma io_seq_pair:
  "io_seq (e1, Inr ()) (e2, r) = (e1 @ e2, r)"
  "io_seq (e1, Inl err) n = (e1, Inl err)"
  by (simp_all add: io_seq_def io_bind_def)

lemma io_bind_pair:
  "io_bind (e1, Inr x) f = (e1 @ fst (f x), snd (f x))"
  "io_bind (e1, Inl err) f = (e1, Inl err)"
  by (simp_all add: io_bind_def split: prod.splits)

lemma io_when_simps:
  "io_when True m = m" "io_when False m = ([], Inr ())"
  by (simp_all add: io_when_def io_return_def)

lemma delete_label_sent:
  assumes "manifest_uri node = Inr m" "t \<noteq> []" "never_refuses remote"
  shows "delete_label remote node k (Some t) =
           ([Print (writer_line (version node) ''delete'' (label_uri m k)),
             Urlopen (delete_request (label_uri m k) t)], Inr ())"
  using assms
  by (simp add: delete_label_def io_seq_def io_bind_def io_print_def urlopen_request_def
      never_refuses_def Let_def)

lemma post_label_sent:
  assumes "manifest_uri node = Inr m" "t \<noteq> []" "never_refuses remote"
  shows "post_label remote node l (Some t) =
           ([Print (writer_line (version node) ''post'' (labels_uri m)),
             Urlopen (post_request (labels_uri m) l t)], Inr ())"
  using assms
  by (simp add: post_label_def io_seq_def io_bind_def io_print_def urlopen_request_def
      never_refuses_def Let_def)

lemma method_requests [simp]:
  "req_method (delete_request u t) = DELETE" "req_method (post_request u l t) = POST"
  by (simp_all add: delete_request_def post_request_def)

lemma sync_channels_mutations:
  assumes uri: "manifest_uri node = Inr m"
    and desired: "desired_channels node = Inr d"
    and token: "t \<noteq> []"
    and accepted: "never_refuses remote"
  shows "sync_channels remote node labels (Some t) =
           ((if label_value labels channels_key = [] then
               [Print (writer_line (version node) ''post'' (labels_uri m)),
                Urlopen (post_request (labels_uri m) (text_label channels_key d) t)]
             else if label_value labels channels_key \<noteq> d then
               [Print (''label mismatch for '' @ version node @ '': ''
                        @ label_value labels channels_key @ '' != '' @ d),
                Print (writer_line (version node) ''delete'' (label_uri m channels_key)),
                Urlopen (delete_request (label_uri m channels_key) t),
                Print (writer_line (version node) ''post'' (labels_uri m)),
                Urlopen (post_request (labels_uri m) (text_label channels_key d) t)]
             else []), Inr ())"
  by (simp add: sync_channels_def desired Let_def io_seq_pair io_bind_pair io_when_simps
      delete_label_sent [OF uri token accepted] post_label_sent [OF uri token accepted]
      io_print_def io_return_def)

lemma sync_previous_label_sent:
  assumes uri: "manifest_uri node = Inr m"
    and token: "t \<noteq> []"
    and accepted: "never_refuses remote"
  shows "mutations (fst (sync_previous_label remote node labels (Some t) which k want))
           = relabel_requests m t labels k want
       \<and> snd (sync_previous_label remote node labels (Some t) which k want) = Inr ()"
  by (simp add: sync_previous_label_def relabel_requests_def Let_def io_seq_pair io_bind_pair
      io_when_def
      delete_label_sent [OF uri token accepted] post_label_sent [OF uri token accepted]
      io_print_def io_return_def)

lemma mutations_urlopen_get: "mutations (fst (urlopen_get doc u)) = []"
  by (simp add: urlopen_get_def)

lemma fst_io_bind:
  "fst (io_bind m f) = (case snd m of Inl e \<Rightarrow> fst m | Inr x \<Rightarrow> fst m @ fst (f x))"
  by (cases m; cases "snd m") (auto simp: io_bind_def split: prod.splits)

lemma snd_io_bind:
  "snd (io_bind m f) = (case snd m of Inl e \<Rightarrow> Inl e | Inr x \<Rightarrow> snd (f x))"
  by (cases m; cases "snd m") (auto simp: io_bind_def split: prod.splits)

lemma mutations_release_metadata_loop:
  "mutations (fst (release_metadata_loop remote node ls)) = []"
proof (cases ls)
  case Nil
  then show ?thesis by (simp add: io_raise_def)
next
  case (Cons layer later)
  then show ?thesis
    by (simp add: Let_def io_raise_def io_return_def fst_io_bind mutations_append
        mutations_urlopen_get split: sum.splits option.splits parsed.splits)
qed

lemma mutations_get_release_metadata:
  "mutations (fst (get_release_metadata remote node)) = []"
  by (simp add: get_release_metadata_def io_raise_def fst_io_bind mutations_append
      mutations_urlopen_get mutations_release_metadata_loop split: sum.splits)

lemma sync_previous_declared_run:
  assumes declared: "declared_previous node \<noteq> {||}"
    and uri: "manifest_uri node = Inr m"
    and token: "t \<noteq> []"
    and accepted: "never_refuses remote"
    and meta: "get_release_metadata remote node = (g, Inr meta)"
  shows "\<exists>e1 e2. sync_previous remote node labels (Some t) = (g @ e1 @ e2, Inr ()) \<and>
           mutations e1 = relabel_requests m t labels previous_remove_key
             (fset_of_list (published_previous meta) |-| declared_previous node) \<and>
           mutations e2 = relabel_requests m t labels previous_add_key
             (declared_previous node |-| fset_of_list (published_previous meta))"
proof -
  let ?P = "fset_of_list (published_previous meta)" and ?D = "declared_previous node"
  let ?r = "sync_previous_label remote node labels (Some t) ''previous.remove''
              previous_remove_key (?P |-| ?D)"
  let ?a = "sync_previous_label remote node labels (Some t) ''previous.add''
              previous_add_key (?D |-| ?P)"
  note sent = sync_previous_label_sent [OF uri token accepted]
  have r: "?r = (fst ?r, Inr ())"
    using sent [of labels "''previous.remove''" previous_remove_key "?P |-| ?D"]
    by (cases ?r) simp
  have a: "?a = (fst ?a, Inr ())"
    using sent [of labels "''previous.add''" previous_add_key "?D |-| ?P"]
    by (cases ?a) simp
  have "io_seq ?r ?a = (fst ?r @ fst ?a, Inr ())"
    using io_seq_pair(1) [of "fst ?r" "fst ?a" "Inr ()"] r a by simp
  then have "sync_previous remote node labels (Some t) = (g @ fst ?r @ fst ?a, Inr ())"
    using declared by (simp add: sync_previous_def meta Let_def io_bind_pair)
  with sent [of labels "''previous.remove''" previous_remove_key "?P |-| ?D"]
    sent [of labels "''previous.add''" previous_add_key "?D |-| ?P"]
  show ?thesis by blast
qed

lemma sync_previous_undeclared_run:
  assumes undeclared: "declared_previous node = {||}"
    and uri: "manifest_uri node = Inr m"
    and token: "t \<noteq> []"
    and accepted: "never_refuses remote"
    and meta: "label_value labels previous_remove_key = ''*'' \<or>
               snd (get_release_metadata remote node) = Inr meta"
  shows "mutations (fst (sync_previous remote node labels (Some t))) =
           (if labels previous_add_key \<noteq> None
            then [delete_request (label_uri m previous_add_key) t] else [])
           @ (if label_value labels previous_remove_key \<noteq> ''*'' \<and> published_previous meta \<noteq> []
              then (if labels previous_remove_key \<noteq> None
                    then [delete_request (label_uri m previous_remove_key) t] else [])
                   @ [post_request (labels_uri m) (text_label previous_remove_key ''*'') t]
              else [])
       \<and> snd (sync_previous remote node labels (Some t)) = Inr ()"
proof -
  note del = delete_label_sent [OF uri token accepted]
  note post = post_label_sent [OF uri token accepted]
  show ?thesis
  proof (cases "label_value labels previous_remove_key = ''*''")
    case True
    then show ?thesis
      by (simp add: sync_previous_def undeclared Let_def io_seq_pair io_when_def io_print_def
          io_return_def del)
  next
    case False
    with meta obtain g where g: "get_release_metadata remote node = (g, Inr meta)"
      by (cases "get_release_metadata remote node") simp
    have mg: "mutations g = []"
      using mutations_get_release_metadata [of remote node] g by simp
    from False show ?thesis
      by (simp add: sync_previous_def undeclared Let_def io_seq_pair io_bind_pair io_when_def
          io_print_def io_return_def del post g mutations_append mg)
  qed
qed

lemma manifest_uri_103: "manifest_uri node_103 = Inr uri_103"
  by (simp add: manifest_uri_def node_103_def uri_103_def py_split1_def startswith_def Let_def)

lemma never_refuses_registry: "never_refuses (registry a b c)"
  by (simp add: never_refuses_def registry_def)

lemma manifest_doc_103:
  "manifest_doc registry_103 uri_103
     = Inr [\<lparr>blob_digest = ''sha256:01''\<rparr>, \<lparr>blob_digest = ''sha256:02''\<rparr>]"
  by (simp add: registry_103_def registry_def)

lemma release_metadata_loop_103:
  "snd (release_metadata_loop registry_103 node_103
          [\<lparr>blob_digest = ''sha256:02''\<rparr>, \<lparr>blob_digest = ''sha256:01''\<rparr>])
     = Inr \<lparr>meta_previous = Some [''1.0.1'']\<rparr>"
  by (simp add: registry_103_def registry_def urlopen_get_def io_bind_def Let_def node_103_def
      py_split1_def startswith_def metadata_archive_def io_return_def
      release_metadata_path_def)

lemma get_release_metadata_103:
  "snd (get_release_metadata registry_103 node_103) = Inr \<lparr>meta_previous = Some [''1.0.1'']\<rparr>"
  by (simp add: get_release_metadata_def manifest_uri_103 snd_io_bind urlopen_get_def
      manifest_doc_103 release_metadata_loop_103 del: release_metadata_loop.simps)

lemma dict_events_append:
  "dict_events m (xs @ ys) M = dict_events m ys (dict_events m xs M)"
  by (induction xs arbitrary: M) simp_all

lemma dict_request_delete:
  "dict_request m (delete_request (label_uri m k) t) M = M(k := None)"
  by (simp add: dict_request_def delete_request_def label_uri_def)

lemma dict_request_post:
  "dict_request m (post_request (labels_uri m) l t) M = M(key l \<mapsto> l)"
  by (simp add: dict_request_def post_request_def labels_uri_def)

lemma store_request_dict: "store_request m r M = Some M' \<Longrightarrow> M' = dict_request m r M"
  by (cases "req_method r")
     (auto simp: store_request_def dict_request_def Let_def split: option.splits if_splits)

lemma store_requests_dict:
  "store_requests m (mutations evs) M = Some M' \<Longrightarrow> M' = dict_events m evs M"
proof (induction evs arbitrary: M)
  case Nil
  then show ?case by simp
next
  case (Cons ev evs)
  show ?case
  proof (cases ev)
    case (Urlopen r)
    show ?thesis
    proof (cases "req_method r = GET")
      case True
      with Cons Urlopen show ?thesis by (simp add: dict_request_def)
    next
      case False
      with Cons.prems Urlopen obtain M1 where
        a: "store_request m r M = Some M1" and b: "store_requests m (mutations evs) M1 = Some M'"
        by (auto split: option.splits)
      from store_request_dict [OF a] Cons.IH [OF b] Urlopen show ?thesis by simp
    qed
  qed (use Cons in simp_all)
qed

lemma py_split_no_sep: "sep \<notin> set x \<Longrightarrow> py_split sep x = [x]"
  by (induction x) auto

lemma py_split_append: "sep \<notin> set x \<Longrightarrow> py_split sep (x @ sep # rest) = x # py_split sep rest"
  by (induction x) auto

lemma py_split_join:
  "ws \<noteq> [] \<Longrightarrow> \<forall>w \<in> set ws. sep \<notin> set w \<Longrightarrow> py_split sep (join [sep] ws) = ws"
proof (induction ws rule: induct_list012)
  case 1
  then show ?case by simp
next
  case (2 x)
  then show ?case by (simp add: py_split_no_sep)
next
  case (3 x y ys)
  then show ?case by (simp add: py_split_append)
qed

lemma split_join_versions:
  "\<forall>v \<in> set vs. valid_version v \<Longrightarrow>
   filter (\<lambda>v. v \<noteq> []) (py_split CHR '','' (join '','' vs)) = vs"
proof (cases "vs = []")
  case True
  then show ?thesis by simp
next
  case False
  assume "\<forall>v \<in> set vs. valid_version v"
  then have a: "\<forall>v \<in> set vs. CHR '','' \<notin> set v" and b: "\<forall>v \<in> set vs. v \<noteq> []"
    by (simp_all add: valid_version_def)
  from py_split_join [OF False a] have "py_split CHR '','' (join '','' vs) = vs" by simp
  with b show ?thesis by (simp add: filter_id_conv)
qed

lemma keys_distinct:
  "channels_key \<noteq> previous_add_key" "channels_key \<noteq> previous_remove_key"
  "channels_key \<noteq> next_add_key" "channels_key \<noteq> next_remove_key"
  "previous_add_key \<noteq> previous_remove_key" "previous_add_key \<noteq> next_add_key"
  "previous_add_key \<noteq> next_remove_key" "previous_remove_key \<noteq> next_add_key"
  "previous_remove_key \<noteq> next_remove_key" "next_add_key \<noteq> next_remove_key"
  "previous_add_key \<noteq> channels_key" "previous_remove_key \<noteq> channels_key"
  "next_add_key \<noteq> channels_key" "next_remove_key \<noteq> channels_key"
  "previous_remove_key \<noteq> previous_add_key" "next_add_key \<noteq> previous_add_key"
  "next_remove_key \<noteq> previous_add_key" "next_add_key \<noteq> previous_remove_key"
  "next_remove_key \<noteq> previous_remove_key" "next_remove_key \<noteq> next_add_key"
  by (simp_all add: channels_key_def previous_add_key_def previous_remove_key_def
      next_add_key_def next_remove_key_def)

lemma delete_label_run:
  assumes "manifest_uri node = Inr m" "t \<noteq> []"
  shows "delete_label remote node k (Some t) =
           ([Print (writer_line (version node) ''delete'' (label_uri m k)),
             Urlopen (delete_request (label_uri m k) t)],
            case refuse remote (delete_request (label_uri m k) t) of
              Some e \<Rightarrow> Inl e | None \<Rightarrow> Inr ())"
  using assms
  by (simp add: delete_label_def io_seq_def io_bind_def io_print_def urlopen_request_def Let_def)

lemma post_label_run:
  assumes "manifest_uri node = Inr m" "t \<noteq> []"
  shows "post_label remote node l (Some t) =
           ([Print (writer_line (version node) ''post'' (labels_uri m)),
             Urlopen (post_request (labels_uri m) l t)],
            case refuse remote (post_request (labels_uri m) l t) of
              Some e \<Rightarrow> Inl e | None \<Rightarrow> Inr ())"
  using assms
  by (simp add: post_label_def io_seq_def io_bind_def io_print_def urlopen_request_def Let_def)

lemma fst_io_seq:
  "fst (io_seq a b) = (case snd a of Inl e \<Rightarrow> fst a | Inr x \<Rightarrow> fst a @ fst b)"
  by (simp add: io_seq_def fst_io_bind)

lemma snd_io_seq:
  "snd (io_seq a b) = (case snd a of Inl e \<Rightarrow> Inl e | Inr x \<Rightarrow> snd b)"
  by (simp add: io_seq_def snd_io_bind)

lemma io_prims [simp]:
  "fst (io_print p) = [p]" "snd (io_print p) = Inr ()"
  "fst (io_return x) = []" "snd (io_return x) = Inr x"
  "fst (io_raise err) = []" "snd (io_raise err) = Inl err"
  by (simp_all add: io_print_def io_return_def io_raise_def)

lemma fst_io_when: "fst (io_when b c) = (if b then fst c else [])"
  by (simp add: io_when_def)

lemma snd_io_when: "snd (io_when b c) = (if b then snd c else Inr ())"
  by (simp add: io_when_def)

lemma key_text_label [simp]: "key (text_label k v) = k" "lvalue (text_label k v) = v"
  by (simp_all add: text_label_def)

lemma delete_label_effect:
  assumes "manifest_uri node = Inr m" "t \<noteq> []"
  shows "dict_events m (fst (delete_label remote node k (Some t))) M = M(k := None)"
  by (simp add: delete_label_run [OF assms] dict_request_delete)

lemma post_label_effect:
  assumes "manifest_uri node = Inr m" "t \<noteq> []"
  shows "dict_events m (fst (post_label remote node l (Some t))) M = M(key l \<mapsto> l)"
  by (simp add: post_label_run [OF assms] dict_request_post)

lemma sync_channels_effect:
  assumes run: "snd (sync_channels remote node L (Some t)) = Inr ()"
    and uri: "manifest_uri node = Inr m" and t: "t \<noteq> []"
    and d: "desired_channels node = Inr d"
  shows "dict_events m (fst (sync_channels remote node L (Some t))) M =
           (if label_value L channels_key \<noteq> [] \<and> label_value L channels_key = d then M
            else M(channels_key \<mapsto> text_label channels_key d))"
  using run
  by (auto simp: sync_channels_def d Let_def fst_io_bind snd_io_bind fst_io_seq snd_io_seq
      fst_io_when snd_io_when dict_events_append
      delete_label_effect [OF uri t] post_label_effect [OF uri t]
      split: sum.splits if_splits)

lemma sync_next_effect:
  assumes run: "snd (sync_next remote node L (Some t)) = Inr ()"
    and uri: "manifest_uri node = Inr m" and t: "t \<noteq> []"
  shows "dict_events m (fst (sync_next remote node L (Some t))) M k =
           (if k = next_add_key \<and> L next_add_key \<noteq> None then None
            else if k = next_remove_key \<and> L next_remove_key \<noteq> None then None
            else M k)"
  using run
  by (auto simp: sync_next_def fst_io_seq snd_io_seq fst_io_when snd_io_when dict_events_append
      delete_label_effect [OF uri t] split: sum.splits if_splits)

lemma labelled_versions_absent: "L k = None \<Longrightarrow> labelled_versions L k = {||}"
  by (simp add: labelled_versions_def label_value_def)

lemma sync_previous_label_effect:
  assumes run: "snd (sync_previous_label remote node L (Some t) which K want) = Inr ()"
    and uri: "manifest_uri node = Inr m" and t: "t \<noteq> []"
  shows "dict_events m (fst (sync_previous_label remote node L (Some t) which K want)) M k =
           (if k = K \<and> labelled_versions L K \<noteq> want
            then (if want \<noteq> {||}
                  then Some (text_label K (join '','' (sorted_list_of_fset want)))
                  else None)
            else M k)"
  using run labelled_versions_absent [of L K]
  by (auto simp: sync_previous_label_def Let_def fst_io_seq snd_io_seq fst_io_when snd_io_when
      dict_events_append delete_label_effect [OF uri t] post_label_effect [OF uri t]
      split: sum.splits if_splits)

lemma dict_events_reads: "mutations evs = [] \<Longrightarrow> dict_events m evs M = M"
proof (induction evs arbitrary: M)
  case Nil
  then show ?case by simp
next
  case (Cons ev evs)
  then show ?case
    by (cases ev) (auto simp: dict_request_def split: if_splits http_method.splits)
qed

lemma release_metadata_loop_cong:
  "blob_doc remote' = blob_doc remote \<Longrightarrow>
   release_metadata_loop remote' node ls = release_metadata_loop remote node ls"
  by (cases ls) (simp_all add: Let_def)

lemma get_release_metadata_cong:
  assumes "manifest_doc remote' = manifest_doc remote" "blob_doc remote' = blob_doc remote"
  shows "get_release_metadata remote' node = get_release_metadata remote node"
proof -
  have eq: "release_metadata_loop remote' node = release_metadata_loop remote node"
    by (rule ext) (rule release_metadata_loop_cong [OF assms(2)])
  show ?thesis
    unfolding get_release_metadata_def assms(1) eq ..
qed

lemma sync_channels_quiet:
  "desired_channels node = Inr d \<Longrightarrow> d \<noteq> [] \<Longrightarrow> label_value L channels_key = d \<Longrightarrow>
   sync_channels remote node L token = ([], Inr ())"
  by (simp add: sync_channels_def Let_def io_bind_def io_return_def io_when_def)

lemma sync_next_quiet:
  "L next_add_key = None \<Longrightarrow> L next_remove_key = None \<Longrightarrow>
   sync_next remote node L token = ([], Inr ())"
  by (simp add: sync_next_def io_seq_def io_bind_def io_return_def io_when_def)

lemma sync_previous_label_quiet:
  "labelled_versions L k = want \<Longrightarrow>
   sync_previous_label remote node L token which k want = ([], Inr ())"
  by (simp add: sync_previous_label_def io_when_def io_return_def)

lemma labelled_versions_written:
  assumes "fBall want valid_version" "L k = Some (text_label k (join '','' (sorted_list_of_fset want)))"
  shows "labelled_versions L k = want"
proof -
  have "\<forall>v \<in> set (sorted_list_of_fset want). valid_version v"
    using assms(1) by (simp add: sorted_list_of_fset_simps)
  from split_join_versions [OF this] assms(2) show ?thesis
    by (simp add: labelled_versions_def label_value_def sorted_list_of_fset_simps)
qed

lemma labelled_versions_same: "L' k = L k \<Longrightarrow> labelled_versions L' k = labelled_versions L k"
  by (simp add: labelled_versions_def label_value_def)

lemma sync_previous_label_written:
  assumes run: "snd (sync_previous_label remote node L (Some t) which K want) = Inr ()"
    and uri: "manifest_uri node = Inr m" and t: "t \<noteq> []"
  shows "dict_events m (fst (sync_previous_label remote node L (Some t) which K want)) M k =
           (if k = K \<and> labelled_versions L K \<noteq> want then written_label K want else M k)"
  using sync_previous_label_effect [OF run uri t] by (simp add: written_label_def)

lemma sync_previous_effect_declared:
  assumes declared: "declared_previous node \<noteq> {||}"
    and meta: "get_release_metadata remote node = (g, Inr meta)"
    and run: "snd (sync_previous remote node L (Some t)) = Inr ()"
    and uri: "manifest_uri node = Inr m" and t: "t \<noteq> []"
  shows "dict_events m (fst (sync_previous remote node L (Some t))) M k =
           (let P = fset_of_list (published_previous meta); D = declared_previous node in
            if k = previous_add_key \<and> labelled_versions L previous_add_key \<noteq> D |-| P
            then written_label previous_add_key (D |-| P)
            else if k = previous_remove_key \<and> labelled_versions L previous_remove_key \<noteq> P |-| D
            then written_label previous_remove_key (P |-| D)
            else M k)"
proof -
  let ?P = "fset_of_list (published_previous meta)" and ?D = "declared_previous node"
  let ?r = "sync_previous_label remote node L (Some t) ''previous.remove''
              previous_remove_key (?P |-| ?D)"
  let ?a = "sync_previous_label remote node L (Some t) ''previous.add''
              previous_add_key (?D |-| ?P)"
  have pv: "sync_previous remote node L (Some t) = io_bind (g, Inr meta) (\<lambda>meta. io_seq ?r ?a)"
    using declared meta by (simp add: sync_previous_def Let_def io_bind_def)
  from run have r: "snd ?r = Inr ()" and a: "snd ?a = Inr ()"
    unfolding pv by (auto simp: snd_io_bind snd_io_seq split: sum.splits)
  have mg: "mutations g = []"
    using mutations_get_release_metadata [of remote node] meta by simp
  have "fst (sync_previous remote node L (Some t)) = g @ fst ?r @ fst ?a"
    unfolding pv using r by (simp add: fst_io_bind fst_io_seq)
  then have "dict_events m (fst (sync_previous remote node L (Some t))) M k
      = dict_events m (fst ?a) (dict_events m (fst ?r) M) k"
    by (simp add: dict_events_append dict_events_reads [OF mg])
  also have "\<dots> = (if k = previous_add_key \<and> labelled_versions L previous_add_key \<noteq> ?D |-| ?P
            then written_label previous_add_key (?D |-| ?P)
            else if k = previous_remove_key \<and> labelled_versions L previous_remove_key \<noteq> ?P |-| ?D
            then written_label previous_remove_key (?P |-| ?D)
            else M k)"
    by (simp add: sync_previous_label_written [OF a uri t] sync_previous_label_written [OF r uri t]
        keys_distinct)
  finally show ?thesis by (simp add: Let_def)
qed

lemma sync_previous_effect_undeclared:
  assumes undeclared: "declared_previous node = {||}"
    and run: "snd (sync_previous remote node L (Some t)) = Inr ()"
    and uri: "manifest_uri node = Inr m" and t: "t \<noteq> []"
  shows "dict_events m (fst (sync_previous remote node L (Some t))) M k =
           (if k = previous_add_key \<and> L previous_add_key \<noteq> None then None
            else if k = previous_remove_key \<and> label_value L previous_remove_key \<noteq> ''*'' \<and>
                    (case snd (get_release_metadata remote node) of
                       Inl e \<Rightarrow> False | Inr meta \<Rightarrow> published_previous meta \<noteq> [])
            then Some (text_label previous_remove_key ''*'')
            else M k)"
proof -
  obtain g r where meta: "get_release_metadata remote node = (g, r)"
    by (cases "get_release_metadata remote node")
  have mg: "mutations g = []"
    using mutations_get_release_metadata [of remote node] meta by simp
  show ?thesis
    using run undeclared
    by (auto simp: sync_previous_def Let_def fst_io_bind snd_io_bind
        fst_io_seq snd_io_seq fst_io_when snd_io_when dict_events_append meta
        dict_events_reads [OF mg] delete_label_effect [OF uri t] post_label_effect [OF uri t]
        keys_distinct split: sum.splits if_splits)
qed

lemma get_labels_run:
  "manifest_uri node = Inr m \<Longrightarrow>
   get_labels remote node =
     ([Urlopen \<lparr>req_method = GET, uri = labels_uri m, headers = [], data = None\<rparr>],
      case labels_doc remote (labels_uri m) of Inl e \<Rightarrow> Inl e | Inr ls \<Rightarrow> Inr (labels_dict ls))"
  by (simp add: get_labels_def urlopen_get_def io_bind_def io_return_def split: sum.splits)

lemma written_label_versions:
  assumes "fBall want valid_version" "L k = written_label k want"
  shows "labelled_versions L k = want"
proof (cases "want = {||}")
  case True
  with assms(2) show ?thesis by (simp add: written_label_def labelled_versions_absent)
next
  case False
  with assms(2) have "L k = Some (text_label k (join '','' (sorted_list_of_fset want)))"
    by (simp add: written_label_def)
  with labelled_versions_written [of want L k] assms(1) show ?thesis by simp
qed

lemma second_run_with_token:
  assumes run1: "sync_node remote node (Some t) = (evs, Inr ())"
    and uri: "manifest_uri node = Inr m"
    and t: "t \<noteq> []"
    and d: "desired_channels node = Inr d" and d_ne: "d \<noteq> []"
    and valid: "written_versions_valid remote node"
    and ls: "labels_doc remote (labels_uri m) = Inr ls"
    and ls': "labels_doc remote' (labels_uri m) = Inr ls'"
    and store: "store_requests m (mutations evs) (labels_dict ls) = Some (labels_dict ls')"
    and same: "manifest_doc remote' = manifest_doc remote" "blob_doc remote' = blob_doc remote"
  shows "mutations (fst (sync_node remote' node (Some t))) = [] \<and>
         snd (sync_node remote' node (Some t)) = Inr ()"
proof -
  let ?get = "Urlopen \<lparr>req_method = GET, uri = labels_uri m, headers = [], data = None\<rparr>"
  from run1 have s1: "snd (sync_node remote node (Some t)) = Inr ()"
    and e1: "fst (sync_node remote node (Some t)) = evs" by simp_all
  define L where "L = labels_dict ls"
  let ?ch = "sync_channels remote node L (Some t)"
  let ?nx = "sync_next remote node L (Some t)"
  let ?pv = "sync_previous remote node L (Some t)"
  have gl: "get_labels remote node = ([?get], Inr L)"
    by (simp add: get_labels_run [OF uri] ls L_def)
  from s1 have ch: "snd ?ch = Inr ()" and nx: "snd ?nx = Inr ()" and pv: "snd ?pv = Inr ()"
    by (auto simp: sync_node_def gl snd_io_bind snd_io_seq split: sum.splits)
  have evs: "evs = [?get] @ fst ?ch @ fst ?nx @ fst ?pv"
    using e1 ch nx by (simp add: sync_node_def gl fst_io_bind fst_io_seq)
  define M1 where "M1 = dict_events m (fst ?ch) L"
  define M2 where "M2 = dict_events m (fst ?nx) M1"
  define L' where "L' = dict_events m (fst ?pv) M2"
  have "dict_events m evs L = L'"
    by (simp add: evs dict_events_append dict_request_def L'_def M2_def M1_def)
  with store_requests_dict [OF store] have L': "labels_dict ls' = L'"
    by (simp add: L_def)
  let ?remote = "remote'"
  have gl': "get_labels ?remote node = ([?get], Inr L')"
    by (simp add: get_labels_run [OF uri] ls' L')
  have M1: "\<And>k. M1 k = (if k = channels_key \<and> \<not> (label_value L channels_key \<noteq> [] \<and>
                              label_value L channels_key = d)
                         then Some (text_label channels_key d) else L k)"
    unfolding M1_def by (auto simp: sync_channels_effect [OF ch uri t d])
  have M2: "\<And>k. M2 k = (if k = next_add_key \<and> L next_add_key \<noteq> None then None
                         else if k = next_remove_key \<and> L next_remove_key \<noteq> None then None
                         else M1 k)"
    unfolding M2_def by (simp add: sync_next_effect [OF nx uri t])
  obtain g r where meta: "get_release_metadata remote node = (g, r)"
    by (cases "get_release_metadata remote node")
  have mg: "mutations g = []"
    using mutations_get_release_metadata [of remote node] meta by simp
  have meta': "get_release_metadata ?remote node = (g, r)"
    by (simp add: get_release_metadata_cong [OF same] meta)
  have quiet: "label_value L' channels_key = d \<and> L' next_add_key = None \<and>
      L' next_remove_key = None \<and>
      mutations (fst (sync_previous ?remote node L' (Some t))) = [] \<and>
      snd (sync_previous ?remote node L' (Some t)) = Inr ()"
  proof (cases "declared_previous node = {||}")
    case True
    note eff = sync_previous_effect_undeclared [OF True pv uri t, of M2, folded L'_def]
    have c: "label_value L' channels_key = d"
      by (simp add: eff M2 M1 keys_distinct label_value_def)
    have n: "L' next_add_key = None" "L' next_remove_key = None"
      by (simp_all add: eff M2 M1 keys_distinct)
    have a: "L' previous_add_key = None"
      by (auto simp: eff M2 M1 keys_distinct)
    have rm: "L' previous_remove_key =
        (if label_value L previous_remove_key \<noteq> ''*'' \<and>
            (case r of Inl e \<Rightarrow> False | Inr meta \<Rightarrow> published_previous meta \<noteq> [])
         then Some (text_label previous_remove_key ''*'') else L previous_remove_key)"
      by (simp add: eff M2 M1 keys_distinct meta)
    have r_ok: "label_value L previous_remove_key \<noteq> ''*'' \<Longrightarrow> \<exists>x. r = Inr x"
      using pv True
      by (cases r) (auto simp: sync_previous_def Let_def snd_io_seq
          snd_io_when snd_io_bind meta split: sum.splits if_splits)
    have v: "label_value L' previous_remove_key =
        (if label_value L previous_remove_key \<noteq> ''*'' \<and>
            (case r of Inl e \<Rightarrow> False | Inr meta \<Rightarrow> published_previous meta \<noteq> [])
         then ''*'' else label_value L previous_remove_key)"
      by (simp add: rm label_value_def)
    have "sync_previous ?remote node L' (Some t) =
        (if label_value L' previous_remove_key = ''*'' then ([], Inr ()) else (g, Inr ()))"
      using True r_ok
      by (auto simp: sync_previous_def Let_def a io_when_def io_seq_def
          io_bind_def io_return_def meta' v split: sum.splits)
    with c n mg show ?thesis by simp
  next
    case False
    from pv False obtain meta where r: "r = Inr meta"
      by (cases r) (auto simp: sync_previous_def Let_def snd_io_bind meta)
    let ?P = "fset_of_list (published_previous meta)" and ?D = "declared_previous node"
    note eff = sync_previous_effect_declared [OF False meta [unfolded r] pv uri t, of M2,
        folded L'_def]
    from False obtain D where D: "previous node = Some D" "D \<noteq> {||}" "?D = D"
      by (cases "previous node") (simp_all add: declared_previous_def)
    from valid have va: "fBall (?D |-| ?P) valid_version" and vr: "fBall (?P |-| ?D) valid_version"
      by (auto simp: written_versions_valid_def D meta r Let_def valid_version_def
          published_previous_def)
    have c: "label_value L' channels_key = d"
      by (simp add: eff M2 M1 keys_distinct label_value_def Let_def)
    have n: "L' next_add_key = None" "L' next_remove_key = None"
      by (simp_all add: eff M2 M1 keys_distinct Let_def)
    have a: "labelled_versions L' previous_add_key = ?D |-| ?P"
    proof (cases "labelled_versions L previous_add_key = ?D |-| ?P")
      case True
      then have "L' previous_add_key = L previous_add_key"
        by (simp add: eff M2 M1 keys_distinct Let_def)
      with labelled_versions_same [of L' previous_add_key L] True show ?thesis by simp
    next
      case False
      then have "L' previous_add_key = written_label previous_add_key (?D |-| ?P)"
        by (simp add: eff Let_def)
      with written_label_versions [of "?D |-| ?P" L' previous_add_key] va show ?thesis by simp
    qed
    have rm: "labelled_versions L' previous_remove_key = ?P |-| ?D"
    proof (cases "labelled_versions L previous_remove_key = ?P |-| ?D")
      case True
      then have "L' previous_remove_key = L previous_remove_key"
        by (simp add: eff M2 M1 keys_distinct Let_def)
      with labelled_versions_same [of L' previous_remove_key L] True show ?thesis by simp
    next
      case False
      then have "L' previous_remove_key = written_label previous_remove_key (?P |-| ?D)"
        by (simp add: eff keys_distinct Let_def)
      with written_label_versions [of "?P |-| ?D" L' previous_remove_key] vr show ?thesis by simp
    qed
    have "sync_previous ?remote node L' (Some t) = (g, Inr ())"
      using False
      by (simp add: sync_previous_def Let_def meta' r io_bind_def
          sync_previous_label_quiet [OF a] sync_previous_label_quiet [OF rm] io_seq_def)
    with c n mg show ?thesis by simp
  qed
  then have c: "label_value L' channels_key = d" and n: "L' next_add_key = None"
    "L' next_remove_key = None"
    and p: "mutations (fst (sync_previous ?remote node L' (Some t))) = []"
      "snd (sync_previous ?remote node L' (Some t)) = Inr ()" by simp_all
  have "sync_node ?remote node (Some t) =
      io_bind ([?get], Inr L') (\<lambda>labels. io_seq ([], Inr ())
         (io_seq ([], Inr ()) (sync_previous ?remote node labels (Some t))))"
    by (simp add: sync_node_def gl' io_bind_def sync_channels_quiet [OF d d_ne c]
        sync_next_quiet [OF n])
  then show ?thesis using p
    by (simp add: fst_io_bind snd_io_bind fst_io_seq snd_io_seq mutations_append)
qed

lemma delete_label_dry:
  "no_token token \<Longrightarrow>
   delete_label remote node label token =
     (case manifest_uri node of
        Inl e \<Rightarrow> ([], Inl e)
      | Inr m \<Rightarrow> ([Print (writer_line (version node) ''delete'' (label_uri m label))], Inr ()))"
  by (auto simp: no_token_def delete_label_def io_raise_def io_seq_def io_bind_def io_print_def
      io_return_def Let_def split: sum.splits option.splits)

lemma post_label_dry:
  "no_token token \<Longrightarrow>
   post_label remote node label token =
     (case manifest_uri node of
        Inl e \<Rightarrow> ([], Inl e)
      | Inr m \<Rightarrow> ([Print (writer_line (version node) ''post'' (labels_uri m))], Inr ()))"
  by (auto simp: no_token_def post_label_def io_raise_def io_seq_def io_bind_def io_print_def
      io_return_def Let_def split: sum.splits option.splits)

lemma mutations_delete_label_dry:
  "no_token token \<Longrightarrow> mutations (fst (delete_label remote node label token)) = []"
  by (simp add: delete_label_dry split: sum.splits)

lemma mutations_post_label_dry:
  "no_token token \<Longrightarrow> mutations (fst (post_label remote node label token)) = []"
  by (simp add: post_label_dry split: sum.splits)

lemma mutations_io_bind:
  "mutations (fst a) = [] \<Longrightarrow> (\<And>x. mutations (fst (f x)) = []) \<Longrightarrow>
   mutations (fst (io_bind a f)) = []"
  by (simp add: fst_io_bind mutations_append split: sum.splits)

lemma mutations_io_seq:
  "mutations (fst a) = [] \<Longrightarrow> mutations (fst b) = [] \<Longrightarrow> mutations (fst (io_seq a b)) = []"
  by (simp add: io_seq_def mutations_io_bind)

lemma mutations_io_when:
  "mutations (fst c) = [] \<Longrightarrow> mutations (fst (io_when b c)) = []"
  by (simp add: io_when_def)

lemma mutations_get_labels: "mutations (fst (get_labels remote node)) = []"
  by (simp add: get_labels_def mutations_io_bind mutations_urlopen_get split: sum.splits)

lemma mutations_sync_channels_dry:
  assumes "no_token token"
  shows "mutations (fst (sync_channels remote node labels token)) = []"
  by (simp add: sync_channels_def Let_def mutations_io_bind mutations_io_seq mutations_io_when
      mutations_delete_label_dry [OF assms] mutations_post_label_dry [OF assms]
      split: sum.splits)

lemma mutations_sync_next_dry:
  assumes "no_token token"
  shows "mutations (fst (sync_next remote node labels token)) = []"
  by (simp add: sync_next_def mutations_io_seq mutations_io_when
      mutations_delete_label_dry [OF assms])

lemma mutations_sync_previous_label_dry:
  assumes "no_token token"
  shows "mutations (fst (sync_previous_label remote node labels token which k want)) = []"
  by (simp add: sync_previous_label_def Let_def mutations_io_seq mutations_io_when
      mutations_delete_label_dry [OF assms] mutations_post_label_dry [OF assms])

lemma mutations_sync_previous_dry:
  assumes "no_token token"
  shows "mutations (fst (sync_previous remote node labels token)) = []"
  by (simp add: sync_previous_def Let_def mutations_io_bind mutations_io_seq mutations_io_when
      mutations_get_release_metadata mutations_sync_previous_label_dry [OF assms]
      mutations_delete_label_dry [OF assms] mutations_post_label_dry [OF assms])

lemma mutations_sync_node_dry:
  assumes "no_token token"
  shows "mutations (fst (sync_node remote node token)) = []"
  by (simp add: sync_node_def mutations_io_bind mutations_io_seq mutations_get_labels
      mutations_sync_channels_dry [OF assms] mutations_sync_next_dry [OF assms]
      mutations_sync_previous_dry [OF assms])

lemma mutations_member:
  "r \<in> set (mutations evs) \<longleftrightarrow> Urlopen r \<in> set evs \<and> req_method r \<noteq> GET"
proof (induction evs)
  case Nil
  then show ?case by simp
next
  case (Cons ev evs)
  then show ?case by (cases ev) auto
qed

lemma mutations_none:
  "mutations evs = [] \<longleftrightarrow> \<not> (\<exists>r. Urlopen r \<in> set evs \<and> req_method r \<noteq> GET)"
proof -
  have "mutations evs = [] \<longleftrightarrow> (\<forall>r. r \<notin> set (mutations evs))"
    by (cases "mutations evs") auto
  then show ?thesis by (simp add: mutations_member)
qed

lemma delete_label_dry_cong:
  "no_token token \<Longrightarrow>
   delete_label remote' node label token = delete_label remote node label token"
  by (simp add: delete_label_dry)

lemma post_label_dry_cong:
  "no_token token \<Longrightarrow> post_label remote' node l token = post_label remote node l token"
  by (simp add: post_label_dry)

lemma sync_channels_dry_cong:
  assumes "no_token token"
  shows "sync_channels remote' node L token = sync_channels remote node L token"
  unfolding sync_channels_def delete_label_dry_cong [OF assms, of remote' node _ remote]
    post_label_dry_cong [OF assms, of remote' node _ remote] ..

lemma sync_next_dry_cong:
  assumes "no_token token"
  shows "sync_next remote' node L token = sync_next remote node L token"
  unfolding sync_next_def delete_label_dry_cong [OF assms, of remote' node _ remote] ..

lemma sync_previous_label_dry_cong:
  assumes "no_token token"
  shows "sync_previous_label remote' node L token which k want
     = sync_previous_label remote node L token which k want"
  unfolding sync_previous_label_def delete_label_dry_cong [OF assms, of remote' node _ remote]
    post_label_dry_cong [OF assms, of remote' node _ remote] ..

lemma sync_previous_dry_cong:
  assumes dry: "no_token token"
    and same: "manifest_doc remote' = manifest_doc remote" "blob_doc remote' = blob_doc remote"
  shows "sync_previous remote' node L token = sync_previous remote node L token"
  unfolding sync_previous_def get_release_metadata_cong [OF same]
    sync_previous_label_dry_cong [OF dry, of remote' node L _ _ _ remote]
    delete_label_dry_cong [OF dry, of remote' node _ remote]
    post_label_dry_cong [OF dry, of remote' node _ remote] ..

lemma second_run_dry:
  assumes dry: "no_token token"
    and run1: "sync_node remote node token = (evs, Inr ())"
    and uri: "manifest_uri node = Inr m"
    and ls: "labels_doc remote (labels_uri m) = Inr ls"
    and ls': "labels_doc remote' (labels_uri m) = Inr ls'"
    and store: "store_requests m (mutations evs) (labels_dict ls) = Some (labels_dict ls')"
    and same: "manifest_doc remote' = manifest_doc remote" "blob_doc remote' = blob_doc remote"
  shows "sync_node remote' node token = sync_node remote node token"
proof -
  have quiet: "mutations evs = []"
    using mutations_sync_node_dry [OF dry, of remote node] run1 by simp
  with store have L: "labels_dict ls' = labels_dict ls" by simp
  have "get_labels remote' node = get_labels remote node"
    by (simp add: get_labels_run [OF uri] ls ls' L)
  then show ?thesis
    unfolding sync_node_def sync_channels_dry_cong [OF dry, of remote' node _ remote]
      sync_next_dry_cong [OF dry, of remote' node _ remote]
      sync_previous_dry_cong [OF dry same, of node]
    by simp
qed

lemma sync_next_sent:
  assumes uri: "manifest_uri node = Inr m" and token: "t \<noteq> []"
    and accepted: "never_refuses remote"
  shows "mutations (fst (sync_next remote node labels (Some t))) = next_requests m t labels
       \<and> snd (sync_next remote node labels (Some t)) = Inr ()"
  by (simp add: sync_next_def next_requests_def io_seq_pair io_when_def io_return_def
      delete_label_sent [OF uri token accepted])

lemma sync_previous_sent:
  assumes uri: "manifest_uri node = Inr m" and token: "t \<noteq> []"
    and accepted: "never_refuses remote"
    and meta: "snd (get_release_metadata remote node) = Inr meta"
  shows "mutations (fst (sync_previous remote node labels (Some t)))
           = previous_requests m t labels (declared_previous node) (published_previous meta)
       \<and> snd (sync_previous remote node labels (Some t)) = Inr ()"
proof (cases "declared_previous node = {||}")
  case True
  from sync_previous_undeclared_run [OF True uri token accepted, of labels meta] meta True
  show ?thesis by (simp add: previous_requests_def)
next
  case False
  obtain g where g: "get_release_metadata remote node = (g, Inr meta)"
    using meta by (cases "get_release_metadata remote node") simp
  have reads: "mutations g = []"
    using mutations_get_release_metadata [of remote node] g by simp
  from sync_previous_declared_run [OF False uri token accepted g, of labels]
  obtain e1 e2 where "sync_previous remote node labels (Some t) = (g @ e1 @ e2, Inr ())"
    and "mutations e1 = relabel_requests m t labels previous_remove_key
           (fset_of_list (published_previous meta) |-| declared_previous node)"
    and "mutations e2 = relabel_requests m t labels previous_add_key
           (declared_previous node |-| fset_of_list (published_previous meta))"
    by auto
  with reads False show ?thesis by (simp add: previous_requests_def mutations_append)
qed

lemma sync_node_sent:
  assumes uri: "manifest_uri node = Inr m" and token: "t \<noteq> []"
    and accepted: "never_refuses remote"
    and d: "desired_channels node = Inr d"
    and ls: "labels_doc remote (labels_uri m) = Inr ls"
    and meta: "snd (get_release_metadata remote node) = Inr meta"
  shows "mutations (fst (sync_node remote node (Some t)))
           = channels_requests m t (labels_dict ls) d
             @ next_requests m t (labels_dict ls)
             @ previous_requests m t (labels_dict ls) (declared_previous node)
                 (published_previous meta)
       \<and> snd (sync_node remote node (Some t)) = Inr ()"
proof -
  let ?L = "labels_dict ls"
  have gl: "get_labels remote node =
      ([Urlopen \<lparr>req_method = GET, uri = labels_uri m, headers = [], data = None\<rparr>], Inr ?L)"
    by (simp add: get_labels_run [OF uri] ls)
  have ch: "mutations (fst (sync_channels remote node ?L (Some t))) = channels_requests m t ?L d"
    "snd (sync_channels remote node ?L (Some t)) = Inr ()"
    by (simp_all add: sync_channels_mutations [OF uri d token accepted] channels_requests_def)
  note nx = sync_next_sent [OF uri token accepted, of ?L]
  note pv = sync_previous_sent [OF uri token accepted meta, of ?L]
  show ?thesis
    by (simp add: sync_node_def gl fst_io_bind snd_io_bind fst_io_seq snd_io_seq mutations_append
        ch nx pv)
qed

lemma join_comma_separated: "join '','' vs = comma_separated vs"
proof (induction vs rule: induct_list012)
  case 1
  then show ?case by (simp add: comma_separated_def)
next
  case (2 x)
  then show ?case by (simp add: comma_separated_def)
next
  case (3 x y ys)
  then show ?case by (simp add: comma_separated_def)
qed

lemma split_comma_separated:
  assumes "\<forall>w \<in> set ws. CHR '','' \<notin> set w"
  shows "filter (\<lambda>v. v \<noteq> []) (py_split CHR '','' (comma_separated ws))
           = filter (\<lambda>v. v \<noteq> []) ws"
proof (cases "ws = []")
  case True
  then show ?thesis by (simp add: comma_separated_def)
next
  case False
  from py_split_join [OF False assms] show ?thesis
    by (simp add: join_comma_separated [symmetric])
qed

lemma py_split_comma_free: "\<forall>w \<in> set (py_split c s). c \<notin> set w"
  by (induction s) (auto split: list.splits)

lemma py_split_nonempty: "py_split c s \<noteq> []"
  by (induction s) (auto split: list.splits)

lemma join_py_split: "join [c] (py_split c s) = s"
proof (induction s)
  case Nil
  then show ?case by simp
next
  case (Cons a s)
  obtain w ws where ws: "py_split c s = w # ws"
    using py_split_nonempty [of c s] by (cases "py_split c s") auto
  with Cons show ?case by (cases ws) auto
qed

lemma every_value_comma_separated:
  "\<exists>ws. (\<forall>w \<in> set ws. CHR '','' \<notin> set w) \<and> comma_separated ws = s"
  using py_split_comma_free [of "CHR '',''" s] join_py_split [of "CHR '',''" s]
  by (auto simp: join_comma_separated intro: exI [of _ "py_split CHR '','' s"])

lemma relabel_requests_update:
  assumes "(case labels k of None \<Rightarrow> [] | Some l \<Rightarrow> lvalue l) = comma_separated ws"
    and "\<forall>w \<in> set ws. CHR '','' \<notin> set w"
  shows "relabel_requests m t labels k want
           = label_update m t k (labels k \<noteq> None) (fset_of_list (filter (\<lambda>v. v \<noteq> []) ws)) want"
proof -
  have "labelled_versions labels k = fset_of_list (filter (\<lambda>v. v \<noteq> []) ws)"
    using split_comma_separated [OF assms(2)] assms(1)
    by (simp add: labelled_versions_def label_value_def)
  then show ?thesis
    by (simp add: relabel_requests_def label_update_def label_delete_def label_create_def
        delete_request_def post_request_def label_uri_def labels_uri_def text_label_def
        join_comma_separated)
qed

lemma manifest_uri_101: "manifest_uri node_101 = Inr uri_101"
  by (simp add: manifest_uri_def node_101_def uri_101_def py_split1_def startswith_def Let_def)

lemma manifest_uri_104: "manifest_uri node_104 = Inr uri_104"
  by (simp add: manifest_uri_def node_104_def uri_104_def py_split1_def startswith_def Let_def)

lemma manifest_uri_105: "manifest_uri node_105 = Inr uri_105"
  by (simp add: manifest_uri_def node_105_def uri_105_def py_split1_def startswith_def Let_def)

lemma desired_channels_examples:
  "desired_channels node_101 = Inr ''stable''" "desired_channels node_103 = Inr ''stable''"
  "desired_channels node_105 = Inr ''stable''"
  by (simp_all add: desired_channels_def node_101_def node_103_def node_105_def)

lemma registry_docs:
  "manifest_doc (registry ls ms bs) u
     = (case map_of ms u of None \<Rightarrow> Inl (RemoteError u) | Some x \<Rightarrow> Inr x)"
  "blob_doc (registry ls ms bs) u
     = (case map_of bs u of None \<Rightarrow> Inl (RemoteError u) | Some x \<Rightarrow> Inr x)"
  "labels_doc (registry ls ms bs) u
     = (case map_of ls u of None \<Rightarrow> Inl (RemoteError u) | Some x \<Rightarrow> Inr x)"
  by (simp_all add: registry_def)

lemma get_release_metadata_101:
  "snd (get_release_metadata registry_101 node_101) = Inr \<lparr>meta_previous = Some [''1.0.0'']\<rparr>"
proof -
  have "snd (release_metadata_loop registry_101 node_101 [\<lparr>blob_digest = ''sha256:03''\<rparr>])
      = Inr \<lparr>meta_previous = Some [''1.0.0'']\<rparr>"
    by (simp add: registry_101_def registry_docs urlopen_get_def io_bind_def Let_def node_101_def
        py_split1_def startswith_def metadata_archive_def io_return_def)
  then show ?thesis
    by (simp add: get_release_metadata_def manifest_uri_101 snd_io_bind urlopen_get_def
        registry_101_def registry_docs del: release_metadata_loop.simps)
qed

lemma get_release_metadata_105:
  "snd (get_release_metadata registry_105 node_105)
     = Inr \<lparr>meta_previous = Some [''1.0.4'', '''']\<rparr>"
proof -
  have "snd (release_metadata_loop registry_105 node_105 [\<lparr>blob_digest = ''sha256:06''\<rparr>])
      = Inr \<lparr>meta_previous = Some [''1.0.4'', '''']\<rparr>"
    by (simp add: registry_105_def registry_docs urlopen_get_def io_bind_def Let_def node_105_def
        py_split1_def startswith_def metadata_archive_def io_return_def)
  then show ?thesis
    by (simp add: get_release_metadata_def manifest_uri_105 snd_io_bind urlopen_get_def
        registry_105_def registry_docs del: release_metadata_loop.simps)
qed

lemma manifest_uri_106: "manifest_uri node_106 = Inr uri_106"
  by (simp add: manifest_uri_def node_106_def uri_106_def py_split1_def startswith_def Let_def)

lemma manifest_uri_107: "manifest_uri node_107 = Inr uri_107"
  by (simp add: manifest_uri_def node_107_def uri_107_def py_split1_def startswith_def Let_def)

lemma manifest_uri_108: "manifest_uri node_108 = Inr uri_108"
  by (simp add: manifest_uri_def node_108_def uri_108_def py_split1_def startswith_def Let_def)

lemma get_release_metadata_106:
  "snd (get_release_metadata registry_106 node_106) = Inr \<lparr>meta_previous = Some []\<rparr>"
proof -
  have "snd (release_metadata_loop registry_106 node_106 [\<lparr>blob_digest = ''sha256:07''\<rparr>])
      = Inr \<lparr>meta_previous = Some []\<rparr>"
    by (simp add: registry_106_def registry_docs urlopen_get_def io_bind_def Let_def node_106_def
        py_split1_def startswith_def metadata_archive_def io_return_def)
  then show ?thesis
    by (simp add: get_release_metadata_def manifest_uri_106 snd_io_bind urlopen_get_def
        registry_106_def registry_docs del: release_metadata_loop.simps)
qed

lemma get_release_metadata_107:
  "snd (get_release_metadata registry_107 node_107)
     = Inr \<lparr>meta_previous = Some [''1.0.1'', ''1.0.0'']\<rparr>"
proof -
  have "snd (release_metadata_loop registry_107 node_107 [\<lparr>blob_digest = ''sha256:08''\<rparr>])
      = Inr \<lparr>meta_previous = Some [''1.0.1'', ''1.0.0'']\<rparr>"
    by (simp add: registry_107_def registry_docs urlopen_get_def io_bind_def Let_def node_107_def
        py_split1_def startswith_def metadata_archive_def io_return_def)
  then show ?thesis
    by (simp add: get_release_metadata_def manifest_uri_107 snd_io_bind urlopen_get_def
        registry_107_def registry_docs del: release_metadata_loop.simps)
qed

lemma get_release_metadata_108:
  "snd (get_release_metadata registry_108 node_108) = Inr \<lparr>meta_previous = Some []\<rparr>"
proof -
  have "snd (release_metadata_loop registry_108 node_108 [\<lparr>blob_digest = ''sha256:09''\<rparr>])
      = Inr \<lparr>meta_previous = Some []\<rparr>"
    by (simp add: registry_108_def registry_docs urlopen_get_def io_bind_def Let_def node_108_def
        py_split1_def startswith_def metadata_archive_def io_return_def)
  then show ?thesis
    by (simp add: get_release_metadata_def manifest_uri_108 snd_io_bind urlopen_get_def
        registry_108_def registry_docs del: release_metadata_loop.simps)
qed

lemma registry_after_docs:
  "manifest_doc registry_103_after = manifest_doc registry_103"
  "blob_doc registry_103_after = blob_doc registry_103"
  "manifest_doc registry_105_after = manifest_doc registry_105"
  "blob_doc registry_105_after = blob_doc registry_105"
  "manifest_doc registry_108_after = manifest_doc registry_108"
  "blob_doc registry_108_after = blob_doc registry_108"
  by (simp_all add: registry_103_after_def registry_103_def registry_105_after_def
      registry_105_def registry_108_after_def registry_108_def registry_def)

lemma release_metadata_loop_first:
  "release_metadata_loop remote node (layer # later) = release_metadata_loop remote node [layer]"
  by simp

lemma node_103_previous:
  "previous node_103 = Some {|''1.0.1'', ''1.0.2''|}"
  "declared_previous node_103 = {|''1.0.1'', ''1.0.2''|}"
  by (simp_all add: node_103_def declared_previous_def)

lemma node_107_previous: "previous node_107 = Some {|''1.0.2'', ''1.0.10''|}"
  by (simp add: node_107_def)

lemma token_nonempty: "''token'' \<noteq> []"
  by simp

lemma sorted_102: "sorted_list_of_fset {|''1.0.2''|} = [''1.0.2'']"
  by (simp add: sorted_list_of_fset.rep_eq)

lemma sorted_examples:
  "sorted_list_of_fset {|''1.0.2'', ''1.0.10''|} = [''1.0.10'', ''1.0.2'']"
  "sorted_list_of_fset {|''1.0.0'', ''1.0.1''|} = [''1.0.0'', ''1.0.1'']"
  by (simp_all add: sorted_list_of_fset.rep_eq)

lemma fset_examples:
  "fset_of_list [''1.0.1'', ''1.0.0''] |-| {|''1.0.2'', ''1.0.10''|} = {|''1.0.0'', ''1.0.1''|}"
  "{|''1.0.2'', ''1.0.10''|} |-| fset_of_list [''1.0.1'', ''1.0.0''] = {|''1.0.2'', ''1.0.10''|}"
  "{|''1.0.1'', ''1.0.0''|} = {|''1.0.0'', ''1.0.1''|}"
  by auto

lemma registries_accept:
  "\<forall>r. refuse registry_101 r = None" "\<forall>r. refuse registry_103 r = None"
  "\<forall>r. refuse registry_106 r = None" "\<forall>r. refuse registry_107 r = None"
  by (simp_all add: registry_101_def registry_103_def registry_106_def registry_107_def
      registry_def)

lemma labels_doc_103: "labels_doc registry_103 (labels_uri uri_103) = Inr labels_103"
  by (simp add: registry_103_def registry_docs)

lemma labels_dict_103:
  "labels_dict labels_103 channels_key = Some (text_label channels_key ''stable'')"
  "labels_dict labels_103 previous_add_key = Some (text_label previous_add_key ''1.0.1'')"
  "labels_dict labels_103 previous_remove_key = None"
  "labels_dict labels_103 next_add_key = None"
  "labels_dict labels_103 next_remove_key = None"
  by (simp_all add: labels_dict_def labels_103_def store_label_def keys_distinct)

lemma labelled_versions_103:
  "labelled_versions (labels_dict labels_103) previous_remove_key = {||}"
  "labelled_versions (labels_dict labels_103) previous_add_key = {|''1.0.1''|}"
  by (simp_all add: labelled_versions_def label_value_def labels_dict_103)

lemma get_release_metadata_trace_103:
  "get_release_metadata registry_103 node_103
     = ([Urlopen \<lparr>req_method = GET, uri = uri_103, headers = [], data = None\<rparr>,
         Urlopen \<lparr>req_method = GET, uri = ''https://quay.io/v2/ocp/release/blobs/sha256:02'',
                  headers = [], data = None\<rparr>],
        Inr \<lparr>meta_previous = Some [''1.0.1'']\<rparr>)"
proof -
  have "release_metadata_loop registry_103 node_103
          [\<lparr>blob_digest = ''sha256:02''\<rparr>, \<lparr>blob_digest = ''sha256:01''\<rparr>]
      = ([Urlopen \<lparr>req_method = GET, uri = ''https://quay.io/v2/ocp/release/blobs/sha256:02'',
                   headers = [], data = None\<rparr>],
         Inr \<lparr>meta_previous = Some [''1.0.1'']\<rparr>)"
    by (simp add: registry_103_def registry_def urlopen_get_def io_bind_def Let_def node_103_def
        py_split1_def startswith_def metadata_archive_def io_return_def
        release_metadata_path_def)
  then show ?thesis
    by (simp add: get_release_metadata_def manifest_uri_103 io_bind_def urlopen_get_def
        manifest_doc_103 del: release_metadata_loop.simps)
qed

lemma dry_run_trace_103:
  "fst (sync_node registry_103 node_103 None)
     = [Urlopen \<lparr>req_method = GET, uri = labels_uri uri_103, headers = [], data = None\<rparr>,
        Urlopen \<lparr>req_method = GET, uri = uri_103, headers = [], data = None\<rparr>,
        Urlopen \<lparr>req_method = GET, uri = ''https://quay.io/v2/ocp/release/blobs/sha256:02'',
                 headers = [], data = None\<rparr>,
        PrintChanging ''1.0.3'' ''previous.add'' [''1.0.1''] [''1.0.2''],
        Print (writer_line ''1.0.3'' ''delete'' (label_uri uri_103 previous_add_key)),
        Print (writer_line ''1.0.3'' ''post'' (labels_uri uri_103))]"
proof -
  have dry: "no_token None" by (simp add: no_token_def)
  have v: "version node_103 = ''1.0.3''" by (simp add: node_103_def)
  have gl: "get_labels registry_103 node_103
      = ([Urlopen \<lparr>req_method = GET, uri = labels_uri uri_103, headers = [], data = None\<rparr>],
         Inr (labels_dict labels_103))"
    by (simp add: get_labels_run [OF manifest_uri_103] labels_doc_103)
  have ch: "sync_channels registry_103 node_103 (labels_dict labels_103) None = ([], Inr ())"
    by (rule sync_channels_quiet [OF desired_channels_examples(2)])
       (simp_all add: label_value_def labels_dict_103 text_label_def)
  have nx: "sync_next registry_103 node_103 (labels_dict labels_103) None = ([], Inr ())"
    by (rule sync_next_quiet) (simp_all add: labels_dict_103)
  have rm: "sync_previous_label registry_103 node_103 (labels_dict labels_103) None
      ''previous.remove'' previous_remove_key {||} = ([], Inr ())"
    by (rule sync_previous_label_quiet) (simp add: labelled_versions_103)
  have ad: "sync_previous_label registry_103 node_103 (labels_dict labels_103) None
      ''previous.add'' previous_add_key {|''1.0.2''|}
      = ([PrintChanging ''1.0.3'' ''previous.add'' [''1.0.1''] [''1.0.2''],
          Print (writer_line ''1.0.3'' ''delete'' (label_uri uri_103 previous_add_key)),
          Print (writer_line ''1.0.3'' ''post'' (labels_uri uri_103))], Inr ())"
    by (simp add: sync_previous_label_def labelled_versions_103 labels_dict_103 v
        delete_label_dry [OF dry] post_label_dry [OF dry] manifest_uri_103 io_when_def
        io_seq_def io_bind_def io_print_def sorted_102 sorted_list_of_fset.rep_eq)
  have pv: "sync_previous registry_103 node_103 (labels_dict labels_103) None
      = ([Urlopen \<lparr>req_method = GET, uri = uri_103, headers = [], data = None\<rparr>,
          Urlopen \<lparr>req_method = GET, uri = ''https://quay.io/v2/ocp/release/blobs/sha256:02'',
                   headers = [], data = None\<rparr>,
          PrintChanging ''1.0.3'' ''previous.add'' [''1.0.1''] [''1.0.2''],
          Print (writer_line ''1.0.3'' ''delete'' (label_uri uri_103 previous_add_key)),
          Print (writer_line ''1.0.3'' ''post'' (labels_uri uri_103))], Inr ())"
    by (simp add: sync_previous_def node_103_previous get_release_metadata_trace_103
        published_previous_def io_bind_def io_seq_def rm ad)
  show ?thesis
    by (simp add: sync_node_def gl ch nx pv io_bind_def io_seq_def)
qed

lemma registries_never_refuse:
  "never_refuses registry_103" "never_refuses registry_103_after"
  "never_refuses registry_105" "never_refuses registry_105_after"
  "never_refuses registry_108" "never_refuses registry_108_after"
  by (simp_all add: registry_103_def registry_103_after_def registry_105_def
      registry_105_after_def registry_108_def registry_108_after_def never_refuses_registry)

lemma sorted_empty_version: "sorted_list_of_fset {|[] :: string|} = [[]]"
  by (simp add: sorted_list_of_fset.rep_eq)

lemma node_105_previous:
  "previous node_105 = Some {|''1.0.4''|}" "declared_previous node_105 = {|''1.0.4''|}"
  by (simp_all add: node_105_def declared_previous_def)

lemma declared_previous_108: "declared_previous node_108 = {||}"
  by (simp add: node_108_def declared_previous_def)

lemma desired_channels_108: "desired_channels node_108 = Inr []"
  by (simp add: desired_channels_def node_108_def)

lemma get_release_metadata_after:
  "snd (get_release_metadata registry_103_after node_103) = Inr \<lparr>meta_previous = Some [''1.0.1'']\<rparr>"
  "snd (get_release_metadata registry_105_after node_105)
     = Inr \<lparr>meta_previous = Some [''1.0.4'', []]\<rparr>"
  "snd (get_release_metadata registry_108_after node_108) = Inr \<lparr>meta_previous = Some []\<rparr>"
  by (simp_all add: get_release_metadata_cong [OF registry_after_docs(1,2)]
      get_release_metadata_cong [OF registry_after_docs(3,4)]
      get_release_metadata_cong [OF registry_after_docs(5,6)]
      get_release_metadata_103 get_release_metadata_105 get_release_metadata_108)

lemma listing_103:
  "labels_doc registry_103 (labels_uri uri_103)
     = Inr [\<lparr>media_type = ''text/plain'', key = ''io.openshift.upgrades.graph.release.channels'',
            lvalue = ''stable''\<rparr>,
          \<lparr>media_type = ''text/plain'', key = ''io.openshift.upgrades.graph.previous.add'',
            lvalue = ''1.0.1''\<rparr>]"
  "labels_doc registry_103_after (labels_uri uri_103)
     = Inr [\<lparr>media_type = ''text/plain'', key = ''io.openshift.upgrades.graph.release.channels'',
            lvalue = ''stable''\<rparr>,
          \<lparr>media_type = ''text/plain'', key = ''io.openshift.upgrades.graph.previous.add'',
            lvalue = ''1.0.2''\<rparr>]"
  by (simp_all add: registry_103_def registry_103_after_def registry_docs text_label_def
      channels_key_def previous_add_key_def previous_remove_key_def labels_103_def)

lemma first_run_103:
  "mutations (fst (sync_node registry_103 node_103 (Some ''token'')))
     = [\<lparr>req_method = DELETE,
          uri = ''https://quay.io/api/v1/repository/ocp/release/manifest/sha256:cc/labels/io.openshift.upgrades.graph.previous.add'',
          headers = [(''Authorization'', ''Bearer token'')], data = None\<rparr>,
        \<lparr>req_method = POST,
          uri = ''https://quay.io/api/v1/repository/ocp/release/manifest/sha256:cc/labels'',
          headers = [(''Authorization'', ''Bearer token''), (''Content-Type'', ''application/json'')],
          data = Some \<lparr>media_type = ''text/plain'', key = ''io.openshift.upgrades.graph.previous.add'',
              lvalue = ''1.0.2''\<rparr>\<rparr>]"
  "snd (sync_node registry_103 node_103 (Some ''token'')) = Inr ()"
proof -
  note run = sync_node_sent [OF manifest_uri_103 token_nonempty registries_never_refuse(1)
      desired_channels_examples(2) listing_103(1) get_release_metadata_103]
  from run show "mutations (fst (sync_node registry_103 node_103 (Some ''token'')))
     = [\<lparr>req_method = DELETE,
          uri = ''https://quay.io/api/v1/repository/ocp/release/manifest/sha256:cc/labels/io.openshift.upgrades.graph.previous.add'',
          headers = [(''Authorization'', ''Bearer token'')], data = None\<rparr>,
        \<lparr>req_method = POST,
          uri = ''https://quay.io/api/v1/repository/ocp/release/manifest/sha256:cc/labels'',
          headers = [(''Authorization'', ''Bearer token''), (''Content-Type'', ''application/json'')],
          data = Some \<lparr>media_type = ''text/plain'', key = ''io.openshift.upgrades.graph.previous.add'',
              lvalue = ''1.0.2''\<rparr>\<rparr>]"
    by (simp add: channels_requests_def next_requests_def previous_requests_def relabel_requests_def
        labelled_versions_def label_value_def labels_dict_def store_label_def text_label_def
        node_103_previous node_105_previous declared_previous_108 published_previous_def
        sorted_102 sorted_empty_version fempty_not_finsert finsert_not_fempty
        delete_request_def post_request_def label_uri_def labels_uri_def
        channels_key_def previous_add_key_def previous_remove_key_def next_add_key_def
        next_remove_key_def
        uri_103_def)
  from run show "snd (sync_node registry_103 node_103 (Some ''token'')) = Inr ()"
    by simp
qed

lemma second_run_103:
  "mutations (fst (sync_node registry_103_after node_103 (Some ''token'')))
     = []"
  "snd (sync_node registry_103_after node_103 (Some ''token'')) = Inr ()"
proof -
  note run = sync_node_sent [OF manifest_uri_103 token_nonempty registries_never_refuse(2)
      desired_channels_examples(2) listing_103(2) get_release_metadata_after(1)]
  from run show "mutations (fst (sync_node registry_103_after node_103 (Some ''token'')))
     = []"
    by (simp add: channels_requests_def next_requests_def previous_requests_def relabel_requests_def
        labelled_versions_def label_value_def labels_dict_def store_label_def text_label_def
        node_103_previous node_105_previous declared_previous_108 published_previous_def
        sorted_102 sorted_empty_version fempty_not_finsert finsert_not_fempty
        delete_request_def post_request_def label_uri_def labels_uri_def
        channels_key_def previous_add_key_def previous_remove_key_def next_add_key_def
        next_remove_key_def
        uri_103_def)
  from run show "snd (sync_node registry_103_after node_103 (Some ''token'')) = Inr ()"
    by simp
qed

lemma store_103:
  "store_requests ''https://quay.io/api/v1/repository/ocp/release/manifest/sha256:cc''
       (mutations (fst (sync_node registry_103 node_103 (Some ''token''))))
       (labels_dict
          [\<lparr>media_type = ''text/plain'', key = ''io.openshift.upgrades.graph.release.channels'',
             lvalue = ''stable''\<rparr>,
           \<lparr>media_type = ''text/plain'', key = ''io.openshift.upgrades.graph.previous.add'',
             lvalue = ''1.0.1''\<rparr>])
     = Some (labels_dict
          [\<lparr>media_type = ''text/plain'', key = ''io.openshift.upgrades.graph.release.channels'',
             lvalue = ''stable''\<rparr>,
           \<lparr>media_type = ''text/plain'', key = ''io.openshift.upgrades.graph.previous.add'',
             lvalue = ''1.0.2''\<rparr>])"
  unfolding first_run_103(1)
  by (simp add: store_request_def labels_dict_def store_label_def fun_upd_twist)

lemma listing_105:
  "labels_doc registry_105 (labels_uri uri_105)
     = Inr [\<lparr>media_type = ''text/plain'', key = ''io.openshift.upgrades.graph.release.channels'',
            lvalue = ''stable''\<rparr>]"
  "labels_doc registry_105_after (labels_uri uri_105)
     = Inr [\<lparr>media_type = ''text/plain'', key = ''io.openshift.upgrades.graph.release.channels'',
            lvalue = ''stable''\<rparr>,
          \<lparr>media_type = ''text/plain'', key = ''io.openshift.upgrades.graph.previous.remove'',
            lvalue = ''''\<rparr>]"
  by (simp_all add: registry_105_def registry_105_after_def registry_docs text_label_def
      channels_key_def previous_add_key_def previous_remove_key_def)

lemma first_run_105:
  "mutations (fst (sync_node registry_105 node_105 (Some ''token'')))
     = [\<lparr>req_method = POST,
          uri = ''https://quay.io/api/v1/repository/ocp/release/manifest/sha256:ee/labels'',
          headers = [(''Authorization'', ''Bearer token''), (''Content-Type'', ''application/json'')],
          data = Some \<lparr>media_type = ''text/plain'', key = ''io.openshift.upgrades.graph.previous.remove'',
              lvalue = ''''\<rparr>\<rparr>]"
  "snd (sync_node registry_105 node_105 (Some ''token'')) = Inr ()"
proof -
  note run = sync_node_sent [OF manifest_uri_105 token_nonempty registries_never_refuse(3)
      desired_channels_examples(3) listing_105(1) get_release_metadata_105]
  from run show "mutations (fst (sync_node registry_105 node_105 (Some ''token'')))
     = [\<lparr>req_method = POST,
          uri = ''https://quay.io/api/v1/repository/ocp/release/manifest/sha256:ee/labels'',
          headers = [(''Authorization'', ''Bearer token''), (''Content-Type'', ''application/json'')],
          data = Some \<lparr>media_type = ''text/plain'', key = ''io.openshift.upgrades.graph.previous.remove'',
              lvalue = ''''\<rparr>\<rparr>]"
    by (simp add: channels_requests_def next_requests_def previous_requests_def relabel_requests_def
        labelled_versions_def label_value_def labels_dict_def store_label_def text_label_def
        node_103_previous node_105_previous declared_previous_108 published_previous_def
        sorted_102 sorted_empty_version fempty_not_finsert finsert_not_fempty
        delete_request_def post_request_def label_uri_def labels_uri_def
        channels_key_def previous_add_key_def previous_remove_key_def next_add_key_def
        next_remove_key_def
        uri_105_def)
  from run show "snd (sync_node registry_105 node_105 (Some ''token'')) = Inr ()"
    by simp
qed

lemma second_run_105:
  "mutations (fst (sync_node registry_105_after node_105 (Some ''token'')))
     = [\<lparr>req_method = DELETE,
          uri = ''https://quay.io/api/v1/repository/ocp/release/manifest/sha256:ee/labels/io.openshift.upgrades.graph.previous.remove'',
          headers = [(''Authorization'', ''Bearer token'')], data = None\<rparr>,
        \<lparr>req_method = POST,
          uri = ''https://quay.io/api/v1/repository/ocp/release/manifest/sha256:ee/labels'',
          headers = [(''Authorization'', ''Bearer token''), (''Content-Type'', ''application/json'')],
          data = Some \<lparr>media_type = ''text/plain'', key = ''io.openshift.upgrades.graph.previous.remove'',
              lvalue = ''''\<rparr>\<rparr>]"
  "snd (sync_node registry_105_after node_105 (Some ''token'')) = Inr ()"
proof -
  note run = sync_node_sent [OF manifest_uri_105 token_nonempty registries_never_refuse(4)
      desired_channels_examples(3) listing_105(2) get_release_metadata_after(2)]
  from run show "mutations (fst (sync_node registry_105_after node_105 (Some ''token'')))
     = [\<lparr>req_method = DELETE,
          uri = ''https://quay.io/api/v1/repository/ocp/release/manifest/sha256:ee/labels/io.openshift.upgrades.graph.previous.remove'',
          headers = [(''Authorization'', ''Bearer token'')], data = None\<rparr>,
        \<lparr>req_method = POST,
          uri = ''https://quay.io/api/v1/repository/ocp/release/manifest/sha256:ee/labels'',
          headers = [(''Authorization'', ''Bearer token''), (''Content-Type'', ''application/json'')],
          data = Some \<lparr>media_type = ''text/plain'', key = ''io.openshift.upgrades.graph.previous.remove'',
              lvalue = ''''\<rparr>\<rparr>]"
    by (simp add: channels_requests_def next_requests_def previous_requests_def relabel_requests_def
        labelled_versions_def label_value_def labels_dict_def store_label_def text_label_def
        node_103_previous node_105_previous declared_previous_108 published_previous_def
        sorted_102 sorted_empty_version fempty_not_finsert finsert_not_fempty
        delete_request_def post_request_def label_uri_def labels_uri_def
        channels_key_def previous_add_key_def previous_remove_key_def next_add_key_def
        next_remove_key_def
        uri_105_def)
  from run show "snd (sync_node registry_105_after node_105 (Some ''token'')) = Inr ()"
    by simp
qed

lemma store_105:
  "store_requests ''https://quay.io/api/v1/repository/ocp/release/manifest/sha256:ee''
       (mutations (fst (sync_node registry_105 node_105 (Some ''token''))))
       (labels_dict
          [\<lparr>media_type = ''text/plain'', key = ''io.openshift.upgrades.graph.release.channels'',
             lvalue = ''stable''\<rparr>])
     = Some (labels_dict
          [\<lparr>media_type = ''text/plain'', key = ''io.openshift.upgrades.graph.release.channels'',
             lvalue = ''stable''\<rparr>,
           \<lparr>media_type = ''text/plain'', key = ''io.openshift.upgrades.graph.previous.remove'',
             lvalue = ''''\<rparr>])"
  unfolding first_run_105(1)
  by (simp add: store_request_def labels_dict_def store_label_def fun_upd_twist)

lemma listing_108:
  "labels_doc registry_108 (labels_uri uri_108)
     = Inr []"
  "labels_doc registry_108_after (labels_uri uri_108)
     = Inr [\<lparr>media_type = ''text/plain'', key = ''io.openshift.upgrades.graph.release.channels'',
            lvalue = ''''\<rparr>]"
  by (simp_all add: registry_108_def registry_108_after_def registry_docs text_label_def
      channels_key_def previous_add_key_def previous_remove_key_def)

lemma first_run_108:
  "mutations (fst (sync_node registry_108 node_108 (Some ''token'')))
     = [\<lparr>req_method = POST,
          uri = ''https://quay.io/api/v1/repository/ocp/release/manifest/sha256:ac/labels'',
          headers = [(''Authorization'', ''Bearer token''), (''Content-Type'', ''application/json'')],
          data = Some \<lparr>media_type = ''text/plain'', key = ''io.openshift.upgrades.graph.release.channels'',
              lvalue = ''''\<rparr>\<rparr>]"
  "snd (sync_node registry_108 node_108 (Some ''token'')) = Inr ()"
proof -
  note run = sync_node_sent [OF manifest_uri_108 token_nonempty registries_never_refuse(5)
      desired_channels_108 listing_108(1) get_release_metadata_108]
  from run show "mutations (fst (sync_node registry_108 node_108 (Some ''token'')))
     = [\<lparr>req_method = POST,
          uri = ''https://quay.io/api/v1/repository/ocp/release/manifest/sha256:ac/labels'',
          headers = [(''Authorization'', ''Bearer token''), (''Content-Type'', ''application/json'')],
          data = Some \<lparr>media_type = ''text/plain'', key = ''io.openshift.upgrades.graph.release.channels'',
              lvalue = ''''\<rparr>\<rparr>]"
    by (simp add: channels_requests_def next_requests_def previous_requests_def relabel_requests_def
        labelled_versions_def label_value_def labels_dict_def store_label_def text_label_def
        node_103_previous node_105_previous declared_previous_108 published_previous_def
        sorted_102 sorted_empty_version fempty_not_finsert finsert_not_fempty
        delete_request_def post_request_def label_uri_def labels_uri_def
        channels_key_def previous_add_key_def previous_remove_key_def next_add_key_def
        next_remove_key_def
        uri_108_def)
  from run show "snd (sync_node registry_108 node_108 (Some ''token'')) = Inr ()"
    by simp
qed

lemma second_run_108:
  "mutations (fst (sync_node registry_108_after node_108 (Some ''token'')))
     = [\<lparr>req_method = POST,
          uri = ''https://quay.io/api/v1/repository/ocp/release/manifest/sha256:ac/labels'',
          headers = [(''Authorization'', ''Bearer token''), (''Content-Type'', ''application/json'')],
          data = Some \<lparr>media_type = ''text/plain'', key = ''io.openshift.upgrades.graph.release.channels'',
              lvalue = ''''\<rparr>\<rparr>]"
  "snd (sync_node registry_108_after node_108 (Some ''token'')) = Inr ()"
proof -
  note run = sync_node_sent [OF manifest_uri_108 token_nonempty registries_never_refuse(6)
      desired_channels_108 listing_108(2) get_release_metadata_after(3)]
  from run show "mutations (fst (sync_node registry_108_after node_108 (Some ''token'')))
     = [\<lparr>req_method = POST,
          uri = ''https://quay.io/api/v1/repository/ocp/release/manifest/sha256:ac/labels'',
          headers = [(''Authorization'', ''Bearer token''), (''Content-Type'', ''application/json'')],
          data = Some \<lparr>media_type = ''text/plain'', key = ''io.openshift.upgrades.graph.release.channels'',
              lvalue = ''''\<rparr>\<rparr>]"
    by (simp add: channels_requests_def next_requests_def previous_requests_def relabel_requests_def
        labelled_versions_def label_value_def labels_dict_def store_label_def text_label_def
        node_103_previous node_105_previous declared_previous_108 published_previous_def
        sorted_102 sorted_empty_version fempty_not_finsert finsert_not_fempty
        delete_request_def post_request_def label_uri_def labels_uri_def
        channels_key_def previous_add_key_def previous_remove_key_def next_add_key_def
        next_remove_key_def
        uri_108_def)
  from run show "snd (sync_node registry_108_after node_108 (Some ''token'')) = Inr ()"
    by simp
qed

lemma store_108:
  "store_requests ''https://quay.io/api/v1/repository/ocp/release/manifest/sha256:ac''
       (mutations (fst (sync_node registry_108 node_108 (Some ''token''))))
       (labels_dict
          [])
     = Some (labels_dict
          [\<lparr>media_type = ''text/plain'', key = ''io.openshift.upgrades.graph.release.channels'',
             lvalue = ''''\<rparr>])"
  unfolding first_run_108(1)
  by (simp add: store_request_def labels_dict_def store_label_def fun_upd_twist)

section \<open>Claims on the reconciler\<close>

text \<open>
  \<^bold>\<open>C1.\<close> For a node with a non-empty declared \<^verbatim>\<open>previous\<close> set, on a run with a token
  against a registry that accepts the requests and serves the release metadata: the
  requests that change the registry are those the design asks for \<^verbatim>\<open>previous.remove\<close>
  with the wanted set published minus declared, followed by those for
  \<^verbatim>\<open>previous.add\<close> with the wanted set declared minus published. The set a label
  holds is given through its value: the value (empty for an absent label) is the
  comma-separated text of a list of comma-free entries, as every string is
  (\<open>every_value_comma_separated\<close>), and the set is that of the non-empty entries. For each
  label, nothing is sent when this set equals the wanted set; otherwise the label is
  deleted if present and, only when the wanted set is non-empty, created anew with the
  sorted, comma-separated wanted set as its value. The witness: with
  \<^verbatim>\<open>previous.add = 1.0.1\<close>, declared \<^verbatim>\<open>{1.0.1, 1.0.2}\<close> and published
  \<^verbatim>\<open>{1.0.1}\<close>, one delete and one create of \<^verbatim>\<open>previous.add\<close>, the latter with the
  value \<^verbatim>\<open>1.0.2\<close>; a stale \<^verbatim>\<open>previous.remove = 1.0.0\<close> whose wanted set is empty
  is deleted and not created again; two wanted versions are written in string order,
  \<^verbatim>\<open>1.0.10,1.0.2\<close>; labels that hold the wanted sets in another order are left as they
  are.
\<close>

theorem sync_previous_declared:
  assumes declared: "previous node = Some declared" "declared \<noteq> {||}"
    and uri: "manifest_uri node = Inr m"
    and token: "t \<noteq> []"
    and accepted: "\<forall>r. refuse remote r = None"
    and meta: "snd (get_release_metadata remote node) = Inr meta"
    and published: "published = fset_of_list (case meta_previous meta of None \<Rightarrow> [] | Some vs \<Rightarrow> vs)"
    and removed:
      "(case labels ''io.openshift.upgrades.graph.previous.remove'' of
          None \<Rightarrow> [] | Some l \<Rightarrow> lvalue l) = comma_separated removed"
      "\<forall>v \<in> set removed. CHR '','' \<notin> set v"
    and added:
      "(case labels ''io.openshift.upgrades.graph.previous.add'' of
          None \<Rightarrow> [] | Some l \<Rightarrow> lvalue l) = comma_separated added"
      "\<forall>v \<in> set added. CHR '','' \<notin> set v"
  shows "mutations (fst (sync_previous remote node labels (Some t))) =
           label_update m t ''io.openshift.upgrades.graph.previous.remove''
             (labels ''io.openshift.upgrades.graph.previous.remove'' \<noteq> None)
             (fset_of_list (filter (\<lambda>v. v \<noteq> []) removed)) (published |-| declared)
           @ label_update m t ''io.openshift.upgrades.graph.previous.add''
               (labels ''io.openshift.upgrades.graph.previous.add'' \<noteq> None)
               (fset_of_list (filter (\<lambda>v. v \<noteq> []) added)) (declared |-| published)
       \<and> snd (sync_previous remote node labels (Some t)) = Inr ()"
proof -
  have d: "declared_previous node = declared"
    using declared(1) by (simp add: declared_previous_def)
  have p: "published = fset_of_list (published_previous meta)"
    using published by (simp add: published_previous_def)
  have acc: "never_refuses remote"
    using accepted by (simp add: never_refuses_def)
  obtain g where g: "get_release_metadata remote node = (g, Inr meta)"
    using meta by (cases "get_release_metadata remote node") simp
  have reads: "mutations g = []"
    using mutations_get_release_metadata [of remote node] g by simp
  note r = relabel_requests_update [of labels previous_remove_key removed,
      OF removed [folded previous_remove_key_def]]
  note a = relabel_requests_update [of labels previous_add_key added,
      OF added [folded previous_add_key_def]]
  from sync_previous_declared_run [OF _ uri token acc g, of labels] declared(2) d p
  obtain e1 e2 where "sync_previous remote node labels (Some t) = (g @ e1 @ e2, Inr ())"
    and "mutations e1 = relabel_requests m t labels previous_remove_key (published |-| declared)"
    and "mutations e2 = relabel_requests m t labels previous_add_key (declared |-| published)"
    by auto
  with reads show ?thesis
    by (simp add: mutations_append r a) (simp add: previous_remove_key_def previous_add_key_def)
qed

theorem sync_previous_declared_witness:
  "mutations (fst (sync_previous registry_103 node_103
       [''io.openshift.upgrades.graph.previous.add'' \<mapsto>
          \<lparr>media_type = ''text/plain'', key = ''io.openshift.upgrades.graph.previous.add'',
            lvalue = ''1.0.1''\<rparr>]
       (Some ''token'')))
     = [\<lparr>req_method = DELETE,
          uri = ''https://quay.io/api/v1/repository/ocp/release/manifest/sha256:cc/labels/io.openshift.upgrades.graph.previous.add'',
          headers = [(''Authorization'', ''Bearer token'')], data = None\<rparr>,
        \<lparr>req_method = POST,
          uri = ''https://quay.io/api/v1/repository/ocp/release/manifest/sha256:cc/labels'',
          headers = [(''Authorization'', ''Bearer token''), (''Content-Type'', ''application/json'')],
          data = Some \<lparr>media_type = ''text/plain'', key = ''io.openshift.upgrades.graph.previous.add'',
              lvalue = ''1.0.2''\<rparr>\<rparr>]
   \<and> mutations (fst (sync_previous registry_103 node_103
       [''io.openshift.upgrades.graph.previous.remove'' \<mapsto>
          \<lparr>media_type = ''text/plain'', key = ''io.openshift.upgrades.graph.previous.remove'',
            lvalue = ''1.0.0''\<rparr>,
        ''io.openshift.upgrades.graph.previous.add'' \<mapsto>
          \<lparr>media_type = ''text/plain'', key = ''io.openshift.upgrades.graph.previous.add'',
            lvalue = ''1.0.2''\<rparr>]
       (Some ''token'')))
     = [\<lparr>req_method = DELETE,
          uri = ''https://quay.io/api/v1/repository/ocp/release/manifest/sha256:cc/labels/io.openshift.upgrades.graph.previous.remove'',
          headers = [(''Authorization'', ''Bearer token'')], data = None\<rparr>]
   \<and> mutations (fst (sync_previous registry_107 node_107
       Map.empty
       (Some ''token'')))
     = [\<lparr>req_method = POST,
          uri = ''https://quay.io/api/v1/repository/ocp/release/manifest/sha256:ab/labels'',
          headers = [(''Authorization'', ''Bearer token''), (''Content-Type'', ''application/json'')],
          data = Some \<lparr>media_type = ''text/plain'', key = ''io.openshift.upgrades.graph.previous.remove'',
              lvalue = ''1.0.0,1.0.1''\<rparr>\<rparr>,
        \<lparr>req_method = POST,
          uri = ''https://quay.io/api/v1/repository/ocp/release/manifest/sha256:ab/labels'',
          headers = [(''Authorization'', ''Bearer token''), (''Content-Type'', ''application/json'')],
          data = Some \<lparr>media_type = ''text/plain'', key = ''io.openshift.upgrades.graph.previous.add'',
              lvalue = ''1.0.10,1.0.2''\<rparr>\<rparr>]
   \<and> mutations (fst (sync_previous registry_107 node_107
       [''io.openshift.upgrades.graph.previous.remove'' \<mapsto>
          \<lparr>media_type = ''text/plain'', key = ''io.openshift.upgrades.graph.previous.remove'',
            lvalue = ''1.0.1,1.0.0''\<rparr>,
        ''io.openshift.upgrades.graph.previous.add'' \<mapsto>
          \<lparr>media_type = ''text/plain'', key = ''io.openshift.upgrades.graph.previous.add'',
            lvalue = ''1.0.2,1.0.10''\<rparr>]
       (Some ''token'')))
     = []"
proof -
  have c1: "mutations (fst (sync_previous registry_103 node_103
       [''io.openshift.upgrades.graph.previous.add'' \<mapsto>
          \<lparr>media_type = ''text/plain'', key = ''io.openshift.upgrades.graph.previous.add'',
            lvalue = ''1.0.1''\<rparr>]
       (Some ''token'')))
     = [\<lparr>req_method = DELETE,
          uri = ''https://quay.io/api/v1/repository/ocp/release/manifest/sha256:cc/labels/io.openshift.upgrades.graph.previous.add'',
          headers = [(''Authorization'', ''Bearer token'')], data = None\<rparr>,
        \<lparr>req_method = POST,
          uri = ''https://quay.io/api/v1/repository/ocp/release/manifest/sha256:cc/labels'',
          headers = [(''Authorization'', ''Bearer token''), (''Content-Type'', ''application/json'')],
          data = Some \<lparr>media_type = ''text/plain'', key = ''io.openshift.upgrades.graph.previous.add'',
              lvalue = ''1.0.2''\<rparr>\<rparr>]"
  proof -
    let ?L = "[''io.openshift.upgrades.graph.previous.add'' \<mapsto>
          \<lparr>media_type = ''text/plain'', key = ''io.openshift.upgrades.graph.previous.add'',
            lvalue = ''1.0.1''\<rparr>]"
    have ne: "{|''1.0.1'', ''1.0.2''|} \<noteq> ({||} :: string fset)"
      by simp
    have r: "(case ?L ''io.openshift.upgrades.graph.previous.remove'' of None \<Rightarrow> [] | Some l \<Rightarrow> lvalue l)
               = comma_separated []"
      "\<forall>v \<in> set []. CHR '','' \<notin> set v"
      by (simp_all add: comma_separated_def)
    have a: "(case ?L ''io.openshift.upgrades.graph.previous.add'' of None \<Rightarrow> [] | Some l \<Rightarrow> lvalue l)
               = comma_separated [''1.0.1'']"
      "\<forall>v \<in> set [''1.0.1'']. CHR '','' \<notin> set v"
      by (simp_all add: comma_separated_def)
    from sync_previous_declared [where labels = ?L and removed = "[]" and added = "[''1.0.1'']"
        and meta = "\<lparr>meta_previous = Some [''1.0.1'']\<rparr>",
        OF node_103_previous(1) ne manifest_uri_103 token_nonempty registries_accept(2)
          get_release_metadata_103 refl r a]
    show ?thesis
      by (simp add: label_update_def label_delete_def label_create_def comma_separated_def
          uri_103_def sorted_102 sorted_examples fset_examples fempty_not_finsert
          finsert_not_fempty)
  qed
  have c2: "mutations (fst (sync_previous registry_103 node_103
       [''io.openshift.upgrades.graph.previous.remove'' \<mapsto>
          \<lparr>media_type = ''text/plain'', key = ''io.openshift.upgrades.graph.previous.remove'',
            lvalue = ''1.0.0''\<rparr>,
        ''io.openshift.upgrades.graph.previous.add'' \<mapsto>
          \<lparr>media_type = ''text/plain'', key = ''io.openshift.upgrades.graph.previous.add'',
            lvalue = ''1.0.2''\<rparr>]
       (Some ''token'')))
     = [\<lparr>req_method = DELETE,
          uri = ''https://quay.io/api/v1/repository/ocp/release/manifest/sha256:cc/labels/io.openshift.upgrades.graph.previous.remove'',
          headers = [(''Authorization'', ''Bearer token'')], data = None\<rparr>]"
  proof -
    let ?L = "[''io.openshift.upgrades.graph.previous.remove'' \<mapsto>
          \<lparr>media_type = ''text/plain'', key = ''io.openshift.upgrades.graph.previous.remove'',
            lvalue = ''1.0.0''\<rparr>,
        ''io.openshift.upgrades.graph.previous.add'' \<mapsto>
          \<lparr>media_type = ''text/plain'', key = ''io.openshift.upgrades.graph.previous.add'',
            lvalue = ''1.0.2''\<rparr>]"
    have ne: "{|''1.0.1'', ''1.0.2''|} \<noteq> ({||} :: string fset)"
      by simp
    have r: "(case ?L ''io.openshift.upgrades.graph.previous.remove'' of None \<Rightarrow> [] | Some l \<Rightarrow> lvalue l)
               = comma_separated [''1.0.0'']"
      "\<forall>v \<in> set [''1.0.0'']. CHR '','' \<notin> set v"
      by (simp_all add: comma_separated_def)
    have a: "(case ?L ''io.openshift.upgrades.graph.previous.add'' of None \<Rightarrow> [] | Some l \<Rightarrow> lvalue l)
               = comma_separated [''1.0.2'']"
      "\<forall>v \<in> set [''1.0.2'']. CHR '','' \<notin> set v"
      by (simp_all add: comma_separated_def)
    from sync_previous_declared [where labels = ?L and removed = "[''1.0.0'']" and added = "[''1.0.2'']"
        and meta = "\<lparr>meta_previous = Some [''1.0.1'']\<rparr>",
        OF node_103_previous(1) ne manifest_uri_103 token_nonempty registries_accept(2)
          get_release_metadata_103 refl r a]
    show ?thesis
      by (simp add: label_update_def label_delete_def label_create_def comma_separated_def
          uri_103_def sorted_102 sorted_examples fset_examples fempty_not_finsert
          finsert_not_fempty)
  qed
  have c3: "mutations (fst (sync_previous registry_107 node_107
       Map.empty
       (Some ''token'')))
     = [\<lparr>req_method = POST,
          uri = ''https://quay.io/api/v1/repository/ocp/release/manifest/sha256:ab/labels'',
          headers = [(''Authorization'', ''Bearer token''), (''Content-Type'', ''application/json'')],
          data = Some \<lparr>media_type = ''text/plain'', key = ''io.openshift.upgrades.graph.previous.remove'',
              lvalue = ''1.0.0,1.0.1''\<rparr>\<rparr>,
        \<lparr>req_method = POST,
          uri = ''https://quay.io/api/v1/repository/ocp/release/manifest/sha256:ab/labels'',
          headers = [(''Authorization'', ''Bearer token''), (''Content-Type'', ''application/json'')],
          data = Some \<lparr>media_type = ''text/plain'', key = ''io.openshift.upgrades.graph.previous.add'',
              lvalue = ''1.0.10,1.0.2''\<rparr>\<rparr>]"
  proof -
    let ?L = "Map.empty"
    have ne: "{|''1.0.2'', ''1.0.10''|} \<noteq> ({||} :: string fset)"
      by simp
    have r: "(case ?L ''io.openshift.upgrades.graph.previous.remove'' of None \<Rightarrow> [] | Some l \<Rightarrow> lvalue l)
               = comma_separated []"
      "\<forall>v \<in> set []. CHR '','' \<notin> set v"
      by (simp_all add: comma_separated_def)
    have a: "(case ?L ''io.openshift.upgrades.graph.previous.add'' of None \<Rightarrow> [] | Some l \<Rightarrow> lvalue l)
               = comma_separated []"
      "\<forall>v \<in> set []. CHR '','' \<notin> set v"
      by (simp_all add: comma_separated_def)
    from sync_previous_declared [where labels = ?L and removed = "[]" and added = "[]"
        and meta = "\<lparr>meta_previous = Some [''1.0.1'', ''1.0.0'']\<rparr>",
        OF node_107_previous(1) ne manifest_uri_107 token_nonempty registries_accept(4)
          get_release_metadata_107 refl r a]
    show ?thesis
      by (simp add: label_update_def label_delete_def label_create_def comma_separated_def
          uri_107_def sorted_102 sorted_examples fset_examples fempty_not_finsert
          finsert_not_fempty)
  qed
  have c4: "mutations (fst (sync_previous registry_107 node_107
       [''io.openshift.upgrades.graph.previous.remove'' \<mapsto>
          \<lparr>media_type = ''text/plain'', key = ''io.openshift.upgrades.graph.previous.remove'',
            lvalue = ''1.0.1,1.0.0''\<rparr>,
        ''io.openshift.upgrades.graph.previous.add'' \<mapsto>
          \<lparr>media_type = ''text/plain'', key = ''io.openshift.upgrades.graph.previous.add'',
            lvalue = ''1.0.2,1.0.10''\<rparr>]
       (Some ''token'')))
     = []"
  proof -
    let ?L = "[''io.openshift.upgrades.graph.previous.remove'' \<mapsto>
          \<lparr>media_type = ''text/plain'', key = ''io.openshift.upgrades.graph.previous.remove'',
            lvalue = ''1.0.1,1.0.0''\<rparr>,
        ''io.openshift.upgrades.graph.previous.add'' \<mapsto>
          \<lparr>media_type = ''text/plain'', key = ''io.openshift.upgrades.graph.previous.add'',
            lvalue = ''1.0.2,1.0.10''\<rparr>]"
    have ne: "{|''1.0.2'', ''1.0.10''|} \<noteq> ({||} :: string fset)"
      by simp
    have r: "(case ?L ''io.openshift.upgrades.graph.previous.remove'' of None \<Rightarrow> [] | Some l \<Rightarrow> lvalue l)
               = comma_separated [''1.0.1'', ''1.0.0'']"
      "\<forall>v \<in> set [''1.0.1'', ''1.0.0'']. CHR '','' \<notin> set v"
      by (simp_all add: comma_separated_def)
    have a: "(case ?L ''io.openshift.upgrades.graph.previous.add'' of None \<Rightarrow> [] | Some l \<Rightarrow> lvalue l)
               = comma_separated [''1.0.2'', ''1.0.10'']"
      "\<forall>v \<in> set [''1.0.2'', ''1.0.10'']. CHR '','' \<notin> set v"
      by (simp_all add: comma_separated_def)
    from sync_previous_declared [where labels = ?L and removed = "[''1.0.1'', ''1.0.0'']" and added = "[''1.0.2'', ''1.0.10'']"
        and meta = "\<lparr>meta_previous = Some [''1.0.1'', ''1.0.0'']\<rparr>",
        OF node_107_previous(1) ne manifest_uri_107 token_nonempty registries_accept(4)
          get_release_metadata_107 refl r a]
    show ?thesis
      by (simp add: label_update_def label_delete_def label_create_def comma_separated_def
          uri_107_def sorted_102 sorted_examples fset_examples fempty_not_finsert
          finsert_not_fempty)
  qed
  from c1 c2 c3 c4 show ?thesis
    by (intro conjI)
qed

text \<open>
  \<^bold>\<open>C2.\<close> For a node whose declared \<^verbatim>\<open>previous\<close> set is absent or empty, on a run with a
  token against a registry that accepts the requests (and serves the release metadata,
  unless \<^verbatim>\<open>previous.remove\<close> is already \<^verbatim>\<open>*\<close>, when it is not read): an existing
  \<^verbatim>\<open>previous.add\<close> label is deleted; then, when the release metadata lists a previous
  version, an absent \<^verbatim>\<open>previous.remove\<close> label is created with the value \<^verbatim>\<open>*\<close>,
  and a present one whose value is not exactly \<^verbatim>\<open>*\<close> is deleted and created with
  the value \<^verbatim>\<open>*\<close>; a label that is already \<^verbatim>\<open>*\<close> is left alone, and when the
  metadata lists no previous version no request for \<^verbatim>\<open>previous.remove\<close> is sent, also
  when the label is absent. The witness: with published \<^verbatim>\<open>{1.0.0}\<close> and no
  \<^verbatim>\<open>previous.remove\<close> label, exactly one create of \<^verbatim>\<open>previous.remove = *\<close> and no
  delete; with \<^verbatim>\<open>previous.remove = *\<close> and a \<^verbatim>\<open>previous.add\<close> label, only the
  delete of \<^verbatim>\<open>previous.add\<close>; with \<^verbatim>\<open>previous.remove = 1.0.0\<close>, its delete and
  the create of \<^verbatim>\<open>*\<close>; with nothing published and no label, no request.
\<close>

theorem sync_previous_undeclared:
  assumes undeclared: "previous node = None \<or> previous node = Some {||}"
    and uri: "manifest_uri node = Inr m"
    and token: "t \<noteq> []"
    and accepted: "\<forall>r. refuse remote r = None"
    and meta: "(\<exists>l. labels ''io.openshift.upgrades.graph.previous.remove'' = Some l \<and> lvalue l = ''*'')
               \<or> snd (get_release_metadata remote node) = Inr meta"
    and published: "published = (case meta_previous meta of None \<Rightarrow> [] | Some vs \<Rightarrow> vs)"
  shows "mutations (fst (sync_previous remote node labels (Some t))) =
           (if labels ''io.openshift.upgrades.graph.previous.add'' \<noteq> None
            then [label_delete m t ''io.openshift.upgrades.graph.previous.add''] else [])
           @ (case labels ''io.openshift.upgrades.graph.previous.remove'' of
                None \<Rightarrow>
                  if published \<noteq> []
                  then [label_create m t ''io.openshift.upgrades.graph.previous.remove'' ''*'']
                  else []
              | Some l \<Rightarrow>
                  if lvalue l \<noteq> ''*'' \<and> published \<noteq> []
                  then [label_delete m t ''io.openshift.upgrades.graph.previous.remove'',
                        label_create m t ''io.openshift.upgrades.graph.previous.remove'' ''*'']
                  else [])
       \<and> snd (sync_previous remote node labels (Some t)) = Inr ()"
proof -
  from undeclared have none: "declared_previous node = {||}"
    by (auto simp: declared_previous_def)
  have acc: "never_refuses remote"
    using accepted by (simp add: never_refuses_def)
  from meta have meta': "label_value labels previous_remove_key = ''*'' \<or>
      snd (get_release_metadata remote node) = Inr meta"
    by (auto simp: label_value_def previous_remove_key_def)
  have p: "published = published_previous meta"
    using published by (simp add: published_previous_def)
  from sync_previous_undeclared_run [OF none uri token acc meta'] p
  show ?thesis
    unfolding previous_remove_key_def previous_add_key_def
    by (cases "labels ''io.openshift.upgrades.graph.previous.remove''")
       (simp_all add: label_value_def label_delete_def label_create_def delete_request_def
          post_request_def label_uri_def labels_uri_def text_label_def)
qed

theorem sync_previous_undeclared_witness:
  "mutations (fst (sync_previous registry_101 node_101
       [''io.openshift.upgrades.graph.release.channels'' \<mapsto>
          \<lparr>media_type = ''text/plain'', key = ''io.openshift.upgrades.graph.release.channels'',
            lvalue = ''stable''\<rparr>]
       (Some ''token'')))
     = [\<lparr>req_method = POST,
          uri = ''https://quay.io/api/v1/repository/ocp/release/manifest/sha256:aa/labels'',
          headers = [(''Authorization'', ''Bearer token''), (''Content-Type'', ''application/json'')],
          data = Some \<lparr>media_type = ''text/plain'', key = ''io.openshift.upgrades.graph.previous.remove'',
              lvalue = ''*''\<rparr>\<rparr>]
   \<and> mutations (fst (sync_previous registry_101 node_101
       [''io.openshift.upgrades.graph.previous.remove'' \<mapsto>
          \<lparr>media_type = ''text/plain'', key = ''io.openshift.upgrades.graph.previous.remove'',
            lvalue = ''*''\<rparr>,
        ''io.openshift.upgrades.graph.previous.add'' \<mapsto>
          \<lparr>media_type = ''text/plain'', key = ''io.openshift.upgrades.graph.previous.add'',
            lvalue = ''1.0.0''\<rparr>]
       (Some ''token'')))
     = [\<lparr>req_method = DELETE,
          uri = ''https://quay.io/api/v1/repository/ocp/release/manifest/sha256:aa/labels/io.openshift.upgrades.graph.previous.add'',
          headers = [(''Authorization'', ''Bearer token'')], data = None\<rparr>]
   \<and> mutations (fst (sync_previous registry_101 node_101
       [''io.openshift.upgrades.graph.previous.remove'' \<mapsto>
          \<lparr>media_type = ''text/plain'', key = ''io.openshift.upgrades.graph.previous.remove'',
            lvalue = ''1.0.0''\<rparr>]
       (Some ''token'')))
     = [\<lparr>req_method = DELETE,
          uri = ''https://quay.io/api/v1/repository/ocp/release/manifest/sha256:aa/labels/io.openshift.upgrades.graph.previous.remove'',
          headers = [(''Authorization'', ''Bearer token'')], data = None\<rparr>,
        \<lparr>req_method = POST,
          uri = ''https://quay.io/api/v1/repository/ocp/release/manifest/sha256:aa/labels'',
          headers = [(''Authorization'', ''Bearer token''), (''Content-Type'', ''application/json'')],
          data = Some \<lparr>media_type = ''text/plain'', key = ''io.openshift.upgrades.graph.previous.remove'',
              lvalue = ''*''\<rparr>\<rparr>]
   \<and> mutations (fst (sync_previous registry_106 node_106
       Map.empty
       (Some ''token'')))
     = []"
proof -
  have c1: "mutations (fst (sync_previous registry_101 node_101
       [''io.openshift.upgrades.graph.release.channels'' \<mapsto>
          \<lparr>media_type = ''text/plain'', key = ''io.openshift.upgrades.graph.release.channels'',
            lvalue = ''stable''\<rparr>]
       (Some ''token'')))
     = [\<lparr>req_method = POST,
          uri = ''https://quay.io/api/v1/repository/ocp/release/manifest/sha256:aa/labels'',
          headers = [(''Authorization'', ''Bearer token''), (''Content-Type'', ''application/json'')],
          data = Some \<lparr>media_type = ''text/plain'', key = ''io.openshift.upgrades.graph.previous.remove'',
              lvalue = ''*''\<rparr>\<rparr>]"
  proof -
    let ?L = "[''io.openshift.upgrades.graph.release.channels'' \<mapsto>
          \<lparr>media_type = ''text/plain'', key = ''io.openshift.upgrades.graph.release.channels'',
            lvalue = ''stable''\<rparr>]"
    have undeclared: "previous node_101 = None \<or> previous node_101 = Some {||}"
      by (simp add: node_101_def)
    have meta: "(\<exists>l. ?L ''io.openshift.upgrades.graph.previous.remove'' = Some l \<and> lvalue l = ''*'')
        \<or> snd (get_release_metadata registry_101 node_101) = Inr \<lparr>meta_previous = Some [''1.0.0'']\<rparr>"
      by (simp add: get_release_metadata_101)
    from sync_previous_undeclared [where labels = ?L and meta = "\<lparr>meta_previous = Some [''1.0.0'']\<rparr>",
        OF undeclared manifest_uri_101 token_nonempty registries_accept(1) meta refl]
    show ?thesis
      by (simp add: label_delete_def label_create_def uri_101_def)
  qed
  have c2: "mutations (fst (sync_previous registry_101 node_101
       [''io.openshift.upgrades.graph.previous.remove'' \<mapsto>
          \<lparr>media_type = ''text/plain'', key = ''io.openshift.upgrades.graph.previous.remove'',
            lvalue = ''*''\<rparr>,
        ''io.openshift.upgrades.graph.previous.add'' \<mapsto>
          \<lparr>media_type = ''text/plain'', key = ''io.openshift.upgrades.graph.previous.add'',
            lvalue = ''1.0.0''\<rparr>]
       (Some ''token'')))
     = [\<lparr>req_method = DELETE,
          uri = ''https://quay.io/api/v1/repository/ocp/release/manifest/sha256:aa/labels/io.openshift.upgrades.graph.previous.add'',
          headers = [(''Authorization'', ''Bearer token'')], data = None\<rparr>]"
  proof -
    let ?L = "[''io.openshift.upgrades.graph.previous.remove'' \<mapsto>
          \<lparr>media_type = ''text/plain'', key = ''io.openshift.upgrades.graph.previous.remove'',
            lvalue = ''*''\<rparr>,
        ''io.openshift.upgrades.graph.previous.add'' \<mapsto>
          \<lparr>media_type = ''text/plain'', key = ''io.openshift.upgrades.graph.previous.add'',
            lvalue = ''1.0.0''\<rparr>]"
    have undeclared: "previous node_101 = None \<or> previous node_101 = Some {||}"
      by (simp add: node_101_def)
    have meta: "(\<exists>l. ?L ''io.openshift.upgrades.graph.previous.remove'' = Some l \<and> lvalue l = ''*'')
        \<or> snd (get_release_metadata registry_101 node_101) = Inr \<lparr>meta_previous = Some [''1.0.0'']\<rparr>"
      by (simp add: get_release_metadata_101)
    from sync_previous_undeclared [where labels = ?L and meta = "\<lparr>meta_previous = Some [''1.0.0'']\<rparr>",
        OF undeclared manifest_uri_101 token_nonempty registries_accept(1) meta refl]
    show ?thesis
      by (simp add: label_delete_def label_create_def uri_101_def)
  qed
  have c3: "mutations (fst (sync_previous registry_101 node_101
       [''io.openshift.upgrades.graph.previous.remove'' \<mapsto>
          \<lparr>media_type = ''text/plain'', key = ''io.openshift.upgrades.graph.previous.remove'',
            lvalue = ''1.0.0''\<rparr>]
       (Some ''token'')))
     = [\<lparr>req_method = DELETE,
          uri = ''https://quay.io/api/v1/repository/ocp/release/manifest/sha256:aa/labels/io.openshift.upgrades.graph.previous.remove'',
          headers = [(''Authorization'', ''Bearer token'')], data = None\<rparr>,
        \<lparr>req_method = POST,
          uri = ''https://quay.io/api/v1/repository/ocp/release/manifest/sha256:aa/labels'',
          headers = [(''Authorization'', ''Bearer token''), (''Content-Type'', ''application/json'')],
          data = Some \<lparr>media_type = ''text/plain'', key = ''io.openshift.upgrades.graph.previous.remove'',
              lvalue = ''*''\<rparr>\<rparr>]"
  proof -
    let ?L = "[''io.openshift.upgrades.graph.previous.remove'' \<mapsto>
          \<lparr>media_type = ''text/plain'', key = ''io.openshift.upgrades.graph.previous.remove'',
            lvalue = ''1.0.0''\<rparr>]"
    have undeclared: "previous node_101 = None \<or> previous node_101 = Some {||}"
      by (simp add: node_101_def)
    have meta: "(\<exists>l. ?L ''io.openshift.upgrades.graph.previous.remove'' = Some l \<and> lvalue l = ''*'')
        \<or> snd (get_release_metadata registry_101 node_101) = Inr \<lparr>meta_previous = Some [''1.0.0'']\<rparr>"
      by (simp add: get_release_metadata_101)
    from sync_previous_undeclared [where labels = ?L and meta = "\<lparr>meta_previous = Some [''1.0.0'']\<rparr>",
        OF undeclared manifest_uri_101 token_nonempty registries_accept(1) meta refl]
    show ?thesis
      by (simp add: label_delete_def label_create_def uri_101_def)
  qed
  have c4: "mutations (fst (sync_previous registry_106 node_106
       Map.empty
       (Some ''token'')))
     = []"
  proof -
    let ?L = "Map.empty"
    have undeclared: "previous node_106 = None \<or> previous node_106 = Some {||}"
      by (simp add: node_106_def)
    have meta: "(\<exists>l. ?L ''io.openshift.upgrades.graph.previous.remove'' = Some l \<and> lvalue l = ''*'')
        \<or> snd (get_release_metadata registry_106 node_106) = Inr \<lparr>meta_previous = Some []\<rparr>"
      by (simp add: get_release_metadata_106)
    from sync_previous_undeclared [where labels = ?L and meta = "\<lparr>meta_previous = Some []\<rparr>",
        OF undeclared manifest_uri_106 token_nonempty registries_accept(3) meta refl]
    show ?thesis
      by (simp add: label_delete_def label_create_def uri_106_def)
  qed
  from c1 c2 c3 c4 show ?thesis
    by (intro conjI)
qed

text \<open>
  \<^bold>\<open>C3.\<close> The channels step deletes and recreates the \<^verbatim>\<open>release.channels\<close> label when
  its value is non-empty and differs from the desired string, creates it when the value
  read is empty, and sends nothing when the value is non-empty and equal
  (\<open>sync_channels_mutations\<close>). The value read is empty both for an absent label and for
  a label that is present with the empty string as its value, and the step tells the two
  apart nowhere: for the node below, whose label is present with an empty value and whose
  desired string is \<^verbatim>\<open>stable\<close>, the step creates the desired label and does not delete the
  existing one, unlike the predecessor steps, which delete a label whenever it is present.
\<close>

theorem sync_channels_keeps_empty_label:
  "labels_dict [text_label channels_key []] channels_key = Some (text_label channels_key [])
   \<and> desired_channels node_101 = Inr ''stable''
   \<and> mutations (fst (sync_channels registry_101 node_101
                        (labels_dict [text_label channels_key []]) (Some ''token'')))
       = [post_request (labels_uri uri_101) (text_label channels_key ''stable'') ''token'']"
proof -
  have acc: "never_refuses registry_101"
    by (simp add: registry_101_def never_refuses_registry)
  have l: "labels_dict [text_label channels_key []] channels_key
      = Some (text_label channels_key [])"
    by (simp add: labels_dict_def store_label_def)
  from sync_channels_mutations [OF manifest_uri_101 desired_channels_examples(1) token_nonempty acc,
      of "labels_dict [text_label channels_key []]"] l
  show ?thesis by (simp add: label_value_def desired_channels_examples)
qed

text \<open>
  \<^bold>\<open>C4.\<close> Idempotence. Let a run of \<^verbatim>\<open>sync_node\<close> complete without an error, with or
  without a token, on a node whose desired channels string is non-empty and whose wanted
  predecessor versions, when it declares predecessors, are non-empty and free of commas
  (\<open>written_versions_valid\<close>). Let a second registry publish the same manifests and
  blobs, and let its label listing for the node read as the labels the first run read,
  changed by the requests of the first run (\<open>store_requests\<close>: a delete removes a label,
  a create adds one under a key that has none). Then a run on the second registry completes
  and opens no request other than a GET. The case in which the first run creates
  \<^verbatim>\<open>release.channels\<close> while a label of that key with an empty value is still present
  (C3) is outside the statement, as nothing says what the registry then holds. The witness
  is a first run that rewrites \<^verbatim>\<open>previous.add\<close>. Without the two conditions on the
  node the second run does send requests: a published predecessor list that holds the empty
  string makes every run write \<^verbatim>\<open>previous.remove\<close> with an empty value, which the next
  run reads back as the empty set; and an empty desired channels string makes every run
  create \<^verbatim>\<open>release.channels\<close> with an empty value, which the next run reads as no
  value.
\<close>

theorem second_run_quiet:
  assumes run1: "sync_node remote node token = (evs, Inr ())"
    and uri: "manifest_uri node = Inr m"
    and desired: "metadata node = Some md"
      "md ''io.openshift.upgrades.graph.release.channels'' = Some d" "d \<noteq> []"
    and valid: "written_versions_valid remote node"
    and ls: "labels_doc remote (m @ ''/labels'') = Inr ls"
    and ls': "labels_doc remote' (m @ ''/labels'') = Inr ls'"
    and store: "store_requests m (mutations evs) (labels_dict ls) = Some (labels_dict ls')"
    and same: "manifest_doc remote' = manifest_doc remote" "blob_doc remote' = blob_doc remote"
  shows "\<not> (\<exists>r. Urlopen r \<in> set (fst (sync_node remote' node token)) \<and> req_method r \<noteq> GET)
       \<and> snd (sync_node remote' node token) = Inr ()"
proof -
  have d: "desired_channels node = Inr d"
    using desired by (simp add: desired_channels_def channels_key_def)
  note l = ls [folded labels_uri_def] and l' = ls' [folded labels_uri_def]
  have "mutations (fst (sync_node remote' node token)) = [] \<and>
      snd (sync_node remote' node token) = Inr ()"
  proof (cases "no_token token")
    case True
    have "mutations (fst (sync_node remote node token)) = []"
      by (rule mutations_sync_node_dry [OF True])
    with second_run_dry [OF True run1 uri l l' store same] run1 show ?thesis by simp
  next
    case False
    then obtain t where t: "token = Some t" "t \<noteq> []"
      by (cases token) (simp_all add: no_token_def)
    from second_run_with_token [OF run1 [unfolded t(1)] uri t(2) d desired(3) valid l l' store same]
    show ?thesis by (simp add: t(1))
  qed
  then show ?thesis by (simp add: mutations_none)
qed

theorem second_run_quiet_witness:
  "mutations (fst (sync_node registry_103 node_103 (Some ''token'')))
     = [\<lparr>req_method = DELETE,
          uri = ''https://quay.io/api/v1/repository/ocp/release/manifest/sha256:cc/labels/io.openshift.upgrades.graph.previous.add'',
          headers = [(''Authorization'', ''Bearer token'')], data = None\<rparr>,
        \<lparr>req_method = POST,
          uri = ''https://quay.io/api/v1/repository/ocp/release/manifest/sha256:cc/labels'',
          headers = [(''Authorization'', ''Bearer token''), (''Content-Type'', ''application/json'')],
          data = Some \<lparr>media_type = ''text/plain'', key = ''io.openshift.upgrades.graph.previous.add'',
              lvalue = ''1.0.2''\<rparr>\<rparr>]
   \<and> snd (sync_node registry_103 node_103 (Some ''token'')) = Inr ()
   \<and> store_requests ''https://quay.io/api/v1/repository/ocp/release/manifest/sha256:cc''
       (mutations (fst (sync_node registry_103 node_103 (Some ''token''))))
       (labels_dict
          [\<lparr>media_type = ''text/plain'', key = ''io.openshift.upgrades.graph.release.channels'',
             lvalue = ''stable''\<rparr>,
           \<lparr>media_type = ''text/plain'', key = ''io.openshift.upgrades.graph.previous.add'',
             lvalue = ''1.0.1''\<rparr>])
     = Some (labels_dict
          [\<lparr>media_type = ''text/plain'', key = ''io.openshift.upgrades.graph.release.channels'',
             lvalue = ''stable''\<rparr>,
           \<lparr>media_type = ''text/plain'', key = ''io.openshift.upgrades.graph.previous.add'',
             lvalue = ''1.0.2''\<rparr>])
   \<and> labels_doc registry_103_after ''https://quay.io/api/v1/repository/ocp/release/manifest/sha256:cc/labels''
     = Inr [\<lparr>media_type = ''text/plain'', key = ''io.openshift.upgrades.graph.release.channels'',
            lvalue = ''stable''\<rparr>,
          \<lparr>media_type = ''text/plain'', key = ''io.openshift.upgrades.graph.previous.add'',
            lvalue = ''1.0.2''\<rparr>]
   \<and> \<not> (\<exists>r. Urlopen r \<in> set (fst (sync_node registry_103_after node_103 (Some ''token'')))
            \<and> req_method r \<noteq> GET)
   \<and> snd (sync_node registry_103_after node_103 (Some ''token'')) = Inr ()"
proof -
  let ?evs = "fst (sync_node registry_103 node_103 (Some ''token''))"
  have run1: "sync_node registry_103 node_103 (Some ''token'') = (?evs, Inr ())"
    using first_run_103(2) by (cases "sync_node registry_103 node_103 (Some ''token'')") simp
  have md: "metadata node_103 = Some [channels_key \<mapsto> ''stable'']"
    "[channels_key \<mapsto> ''stable''] ''io.openshift.upgrades.graph.release.channels''
       = Some ''stable''"
    "''stable'' \<noteq> []"
    by (simp_all add: node_103_def channels_key_def)
  have valid: "written_versions_valid registry_103 node_103"
    by (simp add: written_versions_valid_def get_release_metadata_103 node_103_previous)
  note ls = listing_103 [unfolded labels_uri_def]
  from second_run_quiet [OF run1 manifest_uri_103 md valid ls
      store_103 [folded uri_103_def] registry_after_docs(1,2)]
  have "\<not> (\<exists>r. Urlopen r \<in> set (fst (sync_node registry_103_after node_103 (Some ''token'')))
            \<and> req_method r \<noteq> GET)"
    and "snd (sync_node registry_103_after node_103 (Some ''token'')) = Inr ()"
    by simp_all
  with first_run_103 store_103 ls(2) show ?thesis
    by (simp add: uri_103_def)
qed

theorem second_run_repeats_empty_version:
  "mutations (fst (sync_node registry_105 node_105 (Some ''token'')))
     = [\<lparr>req_method = POST,
          uri = ''https://quay.io/api/v1/repository/ocp/release/manifest/sha256:ee/labels'',
          headers = [(''Authorization'', ''Bearer token''), (''Content-Type'', ''application/json'')],
          data = Some \<lparr>media_type = ''text/plain'', key = ''io.openshift.upgrades.graph.previous.remove'',
              lvalue = ''''\<rparr>\<rparr>]
   \<and> snd (sync_node registry_105 node_105 (Some ''token'')) = Inr ()
   \<and> store_requests ''https://quay.io/api/v1/repository/ocp/release/manifest/sha256:ee''
       (mutations (fst (sync_node registry_105 node_105 (Some ''token''))))
       (labels_dict
          [\<lparr>media_type = ''text/plain'', key = ''io.openshift.upgrades.graph.release.channels'',
             lvalue = ''stable''\<rparr>])
     = Some (labels_dict
          [\<lparr>media_type = ''text/plain'', key = ''io.openshift.upgrades.graph.release.channels'',
             lvalue = ''stable''\<rparr>,
           \<lparr>media_type = ''text/plain'', key = ''io.openshift.upgrades.graph.previous.remove'',
             lvalue = ''''\<rparr>])
   \<and> labels_doc registry_105_after ''https://quay.io/api/v1/repository/ocp/release/manifest/sha256:ee/labels''
     = Inr [\<lparr>media_type = ''text/plain'', key = ''io.openshift.upgrades.graph.release.channels'',
            lvalue = ''stable''\<rparr>,
          \<lparr>media_type = ''text/plain'', key = ''io.openshift.upgrades.graph.previous.remove'',
            lvalue = ''''\<rparr>]
   \<and> manifest_doc registry_105_after = manifest_doc registry_105
   \<and> blob_doc registry_105_after = blob_doc registry_105
   \<and> mutations (fst (sync_node registry_105_after node_105 (Some ''token'')))
     = [\<lparr>req_method = DELETE,
          uri = ''https://quay.io/api/v1/repository/ocp/release/manifest/sha256:ee/labels/io.openshift.upgrades.graph.previous.remove'',
          headers = [(''Authorization'', ''Bearer token'')], data = None\<rparr>,
        \<lparr>req_method = POST,
          uri = ''https://quay.io/api/v1/repository/ocp/release/manifest/sha256:ee/labels'',
          headers = [(''Authorization'', ''Bearer token''), (''Content-Type'', ''application/json'')],
          data = Some \<lparr>media_type = ''text/plain'', key = ''io.openshift.upgrades.graph.previous.remove'',
              lvalue = ''''\<rparr>\<rparr>]
   \<and> mutations (fst (sync_node registry_108 node_108 (Some ''token'')))
     = [\<lparr>req_method = POST,
          uri = ''https://quay.io/api/v1/repository/ocp/release/manifest/sha256:ac/labels'',
          headers = [(''Authorization'', ''Bearer token''), (''Content-Type'', ''application/json'')],
          data = Some \<lparr>media_type = ''text/plain'', key = ''io.openshift.upgrades.graph.release.channels'',
              lvalue = ''''\<rparr>\<rparr>]
   \<and> snd (sync_node registry_108 node_108 (Some ''token'')) = Inr ()
   \<and> store_requests ''https://quay.io/api/v1/repository/ocp/release/manifest/sha256:ac''
       (mutations (fst (sync_node registry_108 node_108 (Some ''token''))))
       (labels_dict
          [])
     = Some (labels_dict
          [\<lparr>media_type = ''text/plain'', key = ''io.openshift.upgrades.graph.release.channels'',
             lvalue = ''''\<rparr>])
   \<and> labels_doc registry_108_after ''https://quay.io/api/v1/repository/ocp/release/manifest/sha256:ac/labels''
     = Inr [\<lparr>media_type = ''text/plain'', key = ''io.openshift.upgrades.graph.release.channels'',
            lvalue = ''''\<rparr>]
   \<and> manifest_doc registry_108_after = manifest_doc registry_108
   \<and> blob_doc registry_108_after = blob_doc registry_108
   \<and> mutations (fst (sync_node registry_108_after node_108 (Some ''token'')))
     = [\<lparr>req_method = POST,
          uri = ''https://quay.io/api/v1/repository/ocp/release/manifest/sha256:ac/labels'',
          headers = [(''Authorization'', ''Bearer token''), (''Content-Type'', ''application/json'')],
          data = Some \<lparr>media_type = ''text/plain'', key = ''io.openshift.upgrades.graph.release.channels'',
              lvalue = ''''\<rparr>\<rparr>]"
  using first_run_105 store_105 listing_105(2) registry_after_docs(3,4) second_run_105(1)
    first_run_108 store_108 listing_108(2) registry_after_docs(5,6) second_run_108(1)
  by (simp add: labels_uri_def uri_105_def uri_108_def)

text \<open>
  \<^bold>\<open>C8.\<close> Without a token (none given, or the empty string) \<^verbatim>\<open>delete_label\<close> and
  \<^verbatim>\<open>post_label\<close> open no request at all, for every node and label: when the node's
  pullspec gives a manifest URI \<open>m\<close>, their whole effect is one printed line, the node's
  version, the verb (\<^verbatim>\<open>delete\<close> or \<^verbatim>\<open>post\<close>) and the target URI (the label's own,
  \<open>m\<close>\<^verbatim>\<open>/labels/\<close>\<open>label\<close>, or the collection \<open>m\<close>\<^verbatim>\<open>/labels\<close>) with single spaces
  between; otherwise they raise before printing. A whole run of \<^verbatim>\<open>sync_node\<close> without a
  token opens no request other than a GET; and a node without a manifest URI stops
  \<^verbatim>\<open>sync_node\<close> at \<^verbatim>\<open>get_labels\<close>, before any mutation is decided, so every
  mutation decided is logged with its URI. The witness gives the two lines in full, and
  the whole trace of a dry run that decides one delete and one create.
\<close>

theorem dry_run_writes_nothing:
  assumes "token = None \<or> token = Some []"
  shows "delete_label remote node label token =
           (case manifest_uri node of
              Inl e \<Rightarrow> ([], Inl e)
            | Inr m \<Rightarrow>
                ([Print (version node @ '' delete '' @ m @ ''/labels/'' @ label)], Inr ()))
       \<and> post_label remote node l token =
           (case manifest_uri node of
              Inl e \<Rightarrow> ([], Inl e)
            | Inr m \<Rightarrow> ([Print (version node @ '' post '' @ m @ ''/labels'')], Inr ()))
       \<and> \<not> (\<exists>r. Urlopen r \<in> set (fst (sync_node remote node token)) \<and> req_method r \<noteq> GET)
       \<and> (case manifest_uri node of
             Inl e \<Rightarrow> sync_node remote node token = ([], Inl e)
           | Inr m \<Rightarrow> True)"
proof -
  from assms have dry: "no_token token"
    by (auto simp: no_token_def)
  have "\<not> (\<exists>r. Urlopen r \<in> set (fst (sync_node remote node token)) \<and> req_method r \<noteq> GET)"
    using mutations_sync_node_dry [OF dry, of remote node] by (simp add: mutations_none)
  moreover have "case manifest_uri node of
             Inl e \<Rightarrow> sync_node remote node token = ([], Inl e)
           | Inr m \<Rightarrow> True"
    by (simp add: sync_node_def get_labels_def io_bind_def io_raise_def split: sum.splits)
  ultimately show ?thesis
    by (simp add: delete_label_dry [OF dry] post_label_dry [OF dry] writer_line_def
        label_uri_def labels_uri_def split: sum.splits)
qed

theorem dry_run_writes_nothing_witness:
  "delete_label registry_103 node_103 ''io.openshift.upgrades.graph.previous.add'' None
     = ([Print ''1.0.3 delete https://quay.io/api/v1/repository/ocp/release/manifest/sha256:cc/labels/io.openshift.upgrades.graph.previous.add''],
        Inr ())
   \<and> post_label registry_103 node_103
       \<lparr>media_type = ''text/plain'', key = ''io.openshift.upgrades.graph.previous.add'',
         lvalue = ''1.0.2''\<rparr>
       (Some [])
     = ([Print ''1.0.3 post https://quay.io/api/v1/repository/ocp/release/manifest/sha256:cc/labels''],
        Inr ())
   \<and> fst (sync_node registry_103 node_103 None)
     = [Urlopen \<lparr>req_method = GET, uri = ''https://quay.io/api/v1/repository/ocp/release/manifest/sha256:cc/labels'',
            headers = [], data = None\<rparr>,
        Urlopen \<lparr>req_method = GET, uri = ''https://quay.io/api/v1/repository/ocp/release/manifest/sha256:cc'',
            headers = [], data = None\<rparr>,
        Urlopen \<lparr>req_method = GET, uri = ''https://quay.io/v2/ocp/release/blobs/sha256:02'',
            headers = [], data = None\<rparr>,
        PrintChanging ''1.0.3'' ''previous.add'' [''1.0.1''] [''1.0.2''],
        Print ''1.0.3 delete https://quay.io/api/v1/repository/ocp/release/manifest/sha256:cc/labels/io.openshift.upgrades.graph.previous.add'',
        Print ''1.0.3 post https://quay.io/api/v1/repository/ocp/release/manifest/sha256:cc/labels'']
   \<and> \<not> (\<exists>r. Urlopen r \<in> set (fst (sync_node registry_103 node_103 None)) \<and> req_method r \<noteq> GET)"
proof -
  have v: "version node_103 = ''1.0.3''" by (simp add: node_103_def)
  have none: "None = None \<or> None = Some ([] :: string)" by simp
  have empty: "Some [] = None \<or> Some [] = Some ([] :: string)" by simp
  from dry_run_writes_nothing [OF none, of registry_103 node_103]
  have d: "delete_label registry_103 node_103 ''io.openshift.upgrades.graph.previous.add'' None
     = ([Print ''1.0.3 delete https://quay.io/api/v1/repository/ocp/release/manifest/sha256:cc/labels/io.openshift.upgrades.graph.previous.add''],
        Inr ())"
    and q: "\<not> (\<exists>r. Urlopen r \<in> set (fst (sync_node registry_103 node_103 None)) \<and> req_method r \<noteq> GET)"
    by (simp_all add: manifest_uri_103 v uri_103_def)
  from dry_run_writes_nothing [OF empty, of registry_103 node_103]
  have p: "post_label registry_103 node_103
       \<lparr>media_type = ''text/plain'', key = ''io.openshift.upgrades.graph.previous.add'',
         lvalue = ''1.0.2''\<rparr>
       (Some [])
     = ([Print ''1.0.3 post https://quay.io/api/v1/repository/ocp/release/manifest/sha256:cc/labels''],
        Inr ())"
    by (simp add: manifest_uri_103 v uri_103_def)
  have t: "fst (sync_node registry_103 node_103 None)
     = [Urlopen \<lparr>req_method = GET, uri = ''https://quay.io/api/v1/repository/ocp/release/manifest/sha256:cc/labels'',
            headers = [], data = None\<rparr>,
        Urlopen \<lparr>req_method = GET, uri = ''https://quay.io/api/v1/repository/ocp/release/manifest/sha256:cc'',
            headers = [], data = None\<rparr>,
        Urlopen \<lparr>req_method = GET, uri = ''https://quay.io/v2/ocp/release/blobs/sha256:02'',
            headers = [], data = None\<rparr>,
        PrintChanging ''1.0.3'' ''previous.add'' [''1.0.1''] [''1.0.2''],
        Print ''1.0.3 delete https://quay.io/api/v1/repository/ocp/release/manifest/sha256:cc/labels/io.openshift.upgrades.graph.previous.add'',
        Print ''1.0.3 post https://quay.io/api/v1/repository/ocp/release/manifest/sha256:cc/labels'']"
    by (simp add: dry_run_trace_103 writer_line_def label_uri_def labels_uri_def uri_103_def
        previous_add_key_def)
  from d p t q show ?thesis
    by (intro conjI)
qed

text \<open>
  \<^bold>\<open>C9.\<close> \<^verbatim>\<open>get_release_metadata\<close> reads the layer added last and no other
  (\<open>release_metadata_loop_first\<close>): when that layer's archive lacks the metadata file,
  \<^verbatim>\<open>extractfile\<close> raises \<^verbatim>\<open>KeyError\<close>, which ends the function, so an older layer
  that holds the file is never searched and the final
  \<^verbatim>\<open>no release-metadata in ... layers\<close> error is reached for an empty layer list only.
  For the image below the metadata is in the older layer, and the result is the
  \<^verbatim>\<open>KeyError\<close>.
\<close>

theorem get_release_metadata_stops_at_top_layer:
  "manifest_doc registry_104 uri_104
     = Inr [\<lparr>blob_digest = ''sha256:04''\<rparr>, \<lparr>blob_digest = ''sha256:05''\<rparr>]
   \<and> blob_doc registry_104 ''https://quay.io/v2/ocp/release/blobs/sha256:04''
     = Inr (metadata_archive [''1.0.3''])
   \<and> metadata_archive [''1.0.3''] release_metadata_path
     = Some (Json \<lparr>meta_previous = Some [''1.0.3'']\<rparr>)
   \<and> snd (get_release_metadata registry_104 node_104) = Inl (KeyError release_metadata_path)"
proof -
  have "snd (release_metadata_loop registry_104 node_104
              [\<lparr>blob_digest = ''sha256:05''\<rparr>, \<lparr>blob_digest = ''sha256:04''\<rparr>])
      = Inl (KeyError release_metadata_path)"
    by (simp add: registry_104_def registry_docs urlopen_get_def io_bind_def Let_def node_104_def
        py_split1_def startswith_def io_raise_def)
  then have "snd (get_release_metadata registry_104 node_104)
      = Inl (KeyError release_metadata_path)"
    by (simp add: get_release_metadata_def manifest_uri_104 snd_io_bind urlopen_get_def
        registry_104_def registry_docs del: release_metadata_loop.simps)
  then show ?thesis
    by (simp add: registry_104_def registry_docs metadata_archive_def)
qed

end
